theory Spec2Isabelle
  imports Main "HOL-Library.Word"
begin

unbundle bit_operations_syntax

section \<open>Common outcome types\<close>

text \<open>
  \<^verbatim>\<open>JADE_ASSERT\<close> aborts the firmware when its condition is false. A C function that
  asserts therefore either aborts or returns: \<open>Assert_failed\<close> is the abort,
  \<open>Returns v\<close> a normal return of \<open>v\<close>.
\<close>

datatype 'a outcome = Assert_failed | Returns 'a

text \<open>
  The lookup functions of \<^verbatim>\<open>network.c\<close> are if/else-if chains over the network name
  that end in a final \<^verbatim>\<open>else\<close> returning 0, NULL, SIZE_MAX or false. The model
  records which kind of branch produced the returned value: \<open>Mapped v\<close> is a return in one
  of the branches guarded by a comparison with a network tag, \<open>Fallback v\<close> is the return
  of the final \<^verbatim>\<open>else\<close>.
\<close>

datatype 'a lookup = Mapped 'a | Fallback 'a

fun lookup_value :: "'a lookup \<Rightarrow> 'a" where
  "lookup_value (Mapped v) = v"
| "lookup_value (Fallback v) = v"

section \<open>Network policy table (main/utils/network.c)\<close>

text \<open>
  The six \<^verbatim>\<open>TAG_*\<close> macros are defined in \<^verbatim>\<open>network.h\<close>, which is not among the
  sources; they are taken as a parameter. A network name is a C string pointer:
  \<open>None\<close> is NULL.
\<close>

record network_tags =
  TAG_MAINNET :: string
  TAG_LIQUID :: string
  TAG_TESTNET :: string
  TAG_TESTNETLIQUID :: string
  TAG_LOCALTEST :: string
  TAG_LOCALTESTLIQUID :: string

text \<open>\<^verbatim>\<open>!strcmp(tag, network)\<close> for a non-NULL \<open>network\<close>.\<close>

definition streq :: "string \<Rightarrow> string option \<Rightarrow> bool" where
  "streq tag network = (network = Some tag)"

definition isValidNetwork :: "network_tags \<Rightarrow> string option \<Rightarrow> bool" where
  "isValidNetwork t network =
     (case network of
        None \<Rightarrow> False
      | Some n \<Rightarrow>
          streq (TAG_MAINNET t) network \<or> streq (TAG_LIQUID t) network \<or> streq (TAG_TESTNET t) network
          \<or> streq (TAG_TESTNETLIQUID t) network \<or> streq (TAG_LOCALTEST t) network
          \<or> streq (TAG_LOCALTESTLIQUID t) network)"

definition isTestNetwork :: "network_tags \<Rightarrow> string option \<Rightarrow> bool outcome" where
  "isTestNetwork t network =
     (if \<not> isValidNetwork t network then Assert_failed
      else Returns (streq (TAG_TESTNET t) network \<or> streq (TAG_TESTNETLIQUID t) network
                    \<or> streq (TAG_LOCALTEST t) network \<or> streq (TAG_LOCALTESTLIQUID t) network))"

definition isLiquidNetwork :: "network_tags \<Rightarrow> string option \<Rightarrow> bool outcome" where
  "isLiquidNetwork t network =
     (if \<not> isValidNetwork t network then Assert_failed
      else Returns (streq (TAG_LIQUID t) network \<or> streq (TAG_TESTNETLIQUID t) network
                    \<or> streq (TAG_LOCALTESTLIQUID t) network))"













text \<open>
  The liquid-only lookups assert \<^verbatim>\<open>isLiquidNetwork(network)\<close>, which itself asserts
  \<^verbatim>\<open>isValidNetwork(network)\<close>: they abort when either is false.
\<close>

definition assert_liquid :: "network_tags \<Rightarrow> string option \<Rightarrow> bool" where
  "assert_liquid t network = (isLiquidNetwork t network = Returns True)"




definition networkUsesTestnetAssets :: "network_tags \<Rightarrow> string option \<Rightarrow> bool outcome" where
  "networkUsesTestnetAssets t network =
     (if \<not> assert_liquid t network then Assert_failed
      else Returns (streq (TAG_TESTNETLIQUID t) network))"


text \<open>A sample instance of the tags, used to evaluate the lookups on concrete names.\<close>

definition sample_tags :: network_tags where
  "sample_tags =
     \<lparr>TAG_MAINNET = ''mainnet'', TAG_LIQUID = ''liquid'', TAG_TESTNET = ''testnet'',
      TAG_TESTNETLIQUID = ''testnet-liquid'', TAG_LOCALTEST = ''localtest'',
      TAG_LOCALTESTLIQUID = ''localtest-liquid''\<rparr>"


section \<open>Keychain network-type restriction (keychain.c)\<close>

datatype network_type_t = NETWORK_TYPE_NONE | NETWORK_TYPE_MAIN | NETWORK_TYPE_TEST

text \<open>
  The file-level variables of \<^verbatim>\<open>keychain.c\<close> that the restriction functions read or
  write. \<open>keychain_data\<close> is a pointer: only whether it is NULL matters here, so the field
  says whether key data is loaded. \<open>storage_network_type_restriction\<close> is the value last
  handed to \<^verbatim>\<open>storage_set_network_type_restriction\<close> (flash storage, outside the
  sources).
\<close>

record keychain_state =
  keychain_data :: bool
  network_type_restriction :: network_type_t
  has_encrypted_blob :: bool
  keychain_temporary :: bool
  storage_network_type_restriction :: network_type_t

definition keychain_has_pin :: "keychain_state \<Rightarrow> bool" where
  "keychain_has_pin kc = has_encrypted_blob kc"

definition keychain_has_temporary :: "keychain_state \<Rightarrow> bool outcome" where
  "keychain_has_temporary kc =
     (if \<not> (\<not> keychain_temporary kc \<or> keychain_data kc) then Assert_failed
      else Returns (keychain_temporary kc))"

definition keychain_get_network_type_restriction :: "keychain_state \<Rightarrow> network_type_t" where
  "keychain_get_network_type_restriction kc = network_type_restriction kc"

definition keychain_is_network_type_consistent ::
  "network_tags \<Rightarrow> keychain_state \<Rightarrow> string option \<Rightarrow> bool outcome" where
  "keychain_is_network_type_consistent t kc network =
     (if \<not> isValidNetwork t network then Assert_failed
      else
        (case isTestNetwork t network of
           Assert_failed \<Rightarrow> Assert_failed
         | Returns is_test \<Rightarrow>
             (let network_type = (if is_test then NETWORK_TYPE_TEST else NETWORK_TYPE_MAIN)
              in Returns (network_type_restriction kc = NETWORK_TYPE_NONE
                          \<or> network_type = network_type_restriction kc))))"

definition keychain_clear_network_type_restriction :: "keychain_state \<Rightarrow> keychain_state outcome" where
  "keychain_clear_network_type_restriction kc =
     (case keychain_has_temporary kc of
        Assert_failed \<Rightarrow> Assert_failed
      | Returns temporary \<Rightarrow>
          (let kc1 = (if \<not> temporary then kc\<lparr>storage_network_type_restriction := NETWORK_TYPE_NONE\<rparr>
                      else kc)
           in Returns (kc1\<lparr>network_type_restriction := NETWORK_TYPE_NONE\<rparr>)))"

text \<open>
  In \<^verbatim>\<open>keychain_has_pin() && !keychain_has_temporary()\<close> the second call, and its
  assertion, is only reached when the first is true.
\<close>

definition keychain_set_network_type_restriction ::
  "network_tags \<Rightarrow> keychain_state \<Rightarrow> string option \<Rightarrow> keychain_state outcome" where
  "keychain_set_network_type_restriction t kc network =
     (if keychain_is_network_type_consistent t kc network \<noteq> Returns True then Assert_failed
      else if network_type_restriction kc = NETWORK_TYPE_NONE then
        (case isTestNetwork t network of
           Assert_failed \<Rightarrow> Assert_failed
         | Returns is_test \<Rightarrow>
             (let network_type = (if is_test then NETWORK_TYPE_TEST else NETWORK_TYPE_MAIN);
                  persist =
                    (if keychain_has_pin kc then
                       (case keychain_has_temporary kc of
                          Assert_failed \<Rightarrow> Assert_failed
                        | Returns temporary \<Rightarrow> Returns (\<not> temporary))
                     else Returns False)
              in case persist of
                   Assert_failed \<Rightarrow> Assert_failed
                 | Returns p \<Rightarrow>
                     (let kc1 = (if p then kc\<lparr>storage_network_type_restriction := network_type\<rparr> else kc)
                      in Returns (if keychain_data kc1
                                  then kc1\<lparr>network_type_restriction := network_type\<rparr>
                                  else kc1))))
      else Returns kc)"

text \<open>
  A run of calls to \<^verbatim>\<open>keychain_set_network_type_restriction\<close>, one per network name
  of the list, stopping at the first failed assertion.
\<close>

fun set_restrictions :: "network_tags \<Rightarrow> keychain_state \<Rightarrow> string option list \<Rightarrow> keychain_state outcome" where
  "set_restrictions t kc [] = Returns kc"
| "set_restrictions t kc (n # ns) =
     (case keychain_set_network_type_restriction t kc n of
        Assert_failed \<Rightarrow> Assert_failed
      | Returns kc' \<Rightarrow> set_restrictions t kc' ns)"

text \<open>The test/main classification of a valid network, as both functions compute it.\<close>

definition network_type_of :: "network_tags \<Rightarrow> string option \<Rightarrow> network_type_t" where
  "network_type_of t network =
     (if isTestNetwork t network = Returns True then NETWORK_TYPE_TEST else NETWORK_TYPE_MAIN)"

definition sample_keychain :: keychain_state where
  "sample_keychain =
     \<lparr>keychain_data = True, network_type_restriction = NETWORK_TYPE_NONE,
      has_encrypted_blob = True, keychain_temporary = False,
      storage_network_type_restriction = NETWORK_TYPE_NONE\<rparr>"


section \<open>Data of a liquid signing session (sign_liquid_tx.c)\<close>

type_synonym bytes = "8 word list"

text \<open>
  Buffer sizes. The macros come from the wally and Jade headers, which are not among the
  sources; the values are those of the library (an asset generator and a value commitment
  are 33 bytes, an asset tag, a SHA-256 digest, an HMAC-SHA256 and a txid are 32 bytes).
\<close>

definition SHA256_LEN :: nat where "SHA256_LEN = 32"
definition HMAC_SHA256_LEN :: nat where "HMAC_SHA256_LEN = 32"
definition ASSET_TAG_LEN :: nat where "ASSET_TAG_LEN = 32"
definition ASSET_GENERATOR_LEN :: nat where "ASSET_GENERATOR_LEN = 33"
definition ASSET_COMMITMENT_LEN :: nat where "ASSET_COMMITMENT_LEN = 33"
definition WALLY_TXHASH_LEN :: nat where "WALLY_TXHASH_LEN = 32"
definition WALLY_HOST_COMMITMENT_LEN :: nat where "WALLY_HOST_COMMITMENT_LEN = 32"
definition WALLY_S2C_OPENING_LEN :: nat where "WALLY_S2C_OPENING_LEN = 33"
definition EC_PUBLIC_KEY_LEN :: nat where "EC_PUBLIC_KEY_LEN = 33"

text \<open>
  \<^verbatim>\<open>struct wally_tx\<close> and its inputs and outputs, restricted to the fields the signing
  process reads. A buffer with its length field is a byte list; \<open>out_script\<close> is a pointer
  that the process tests against NULL (\<open>None\<close>).
\<close>

record wally_tx_input =
  txhash :: bytes
  index :: "32 word"

record wally_tx_output =
  out_asset :: bytes
  out_value :: bytes
  out_script :: "bytes option"

record wally_tx =
  inputs :: "wally_tx_input list"
  outputs :: "wally_tx_output list"

text \<open>\<^verbatim>\<open>commitment_t\<close>: the host's trusted-commitment record for one output.\<close>

record commitment_t =
  have_commitments :: bool
  asset_id :: bytes
  com_value :: "64 word"
  blinding_key :: bytes
  asset_generator :: bytes
  value_commitment :: bytes
  hmac :: bytes

record output_info_t =
  is_confidential :: bool
  info_asset_id :: bytes
  info_value :: "64 word"
  info_blinding_key :: bytes

text \<open>\<^verbatim>\<open>signing_data_t\<close>; \<open>path_len\<close> is the length of \<open>path\<close>.\<close>

record signing_data_t =
  sig_id :: string
  path :: "32 word list"
  signature_hash :: bytes

datatype script_flavour_t = SCRIPT_FLAVOUR_NONE | SCRIPT_FLAVOUR_MIXED | Script_flavour_other nat

datatype blinding_factor_type_t = ASSET_BLINDING_FACTOR | VALUE_BLINDING_FACTOR

datatype event_id = SIGN_TX_ACCEPT_OUTPUTS | BTN_ACCEPT_SIGNATURE | Other_event_id int

datatype rpc_error =
    CBOR_RPC_BAD_PARAMETERS
  | CBOR_RPC_PROTOCOL_ERROR
  | CBOR_RPC_USER_CANCELLED
  | CBOR_RPC_INTERNAL_ERROR

text \<open>
  The decoded parameters of the \<^verbatim>\<open>sign_liquid_tx\<close> request. Each field holds what the
  \<^verbatim>\<open>rpc_get_*\<close> call for that key delivers: \<open>None\<close> where the call finds nothing
  usable, the empty list where \<^verbatim>\<open>rpc_get_commitments_allocate\<close> produces no element.
\<close>

record sign_liquid_tx_params =
  req_network :: "string option"
  req_txn :: "bytes option"
  req_num_inputs :: "32 word option"
  req_trusted_commitments :: "commitment_t list"
  req_use_ae_signatures :: "bool option"
  req_change :: "bytes option"

text \<open>
  A later message. \<open>p_has_path\<close> is \<^verbatim>\<open>rpc_has_field_data("path", ...)\<close>, \<open>p_path\<close>
  the result of \<^verbatim>\<open>rpc_get_bip32_path\<close> (\<open>None\<close> when it returns false).
\<close>

record message =
  msg_method :: string
  msg_id :: string
  p_is_witness :: "bool option"
  p_has_path :: bool
  p_path :: "32 word list option"
  p_ae_host_commitment :: "bytes option"
  p_script :: "bytes option"
  p_value_commitment :: "bytes option"

text \<open>
  Everything the process calls or waits for outside the sources: the wally and mbedtls
  primitives, the keychain-backed wallet operations, the helpers of \<^verbatim>\<open>sign_tx.c\<close> and
  the outcome of the two waits for the user. A primitive that reports failure returns
  \<open>None\<close>. The SHA-256 context is the byte string fed so far; \<open>sha256\<close> is the digest
  function and the three \<open>rc\<close> fields are the return codes of the mbedtls calls. An await
  that fails gives \<open>None\<close>, otherwise the id of the event that fired.
\<close>

record env =
  tags :: network_tags
  wally_tx_from_bytes :: "bytes \<Rightarrow> wally_tx option"
  validate_change_paths ::
    "string \<Rightarrow> wally_tx \<Rightarrow> bytes \<Rightarrow> output_info_t list \<Rightarrow> string option + output_info_t list"
  wally_tx_confidential_value_to_satoshi :: "bytes \<Rightarrow> 64 word option"
  sha256 :: "bytes \<Rightarrow> bytes"
  sha256_starts_rc :: int
  sha256_update_rc :: "bytes \<Rightarrow> bytes \<Rightarrow> int"
  sha256_finish_rc :: "bytes \<Rightarrow> int"
  get_script_flavour :: "bytes \<Rightarrow> script_flavour_t"
  update_aggregate_scripts_flavour :: "script_flavour_t \<Rightarrow> script_flavour_t \<Rightarrow> script_flavour_t"
  wallet_get_elements_tx_input_hash ::
    "wally_tx \<Rightarrow> nat \<Rightarrow> bool \<Rightarrow> bytes \<Rightarrow> bytes option \<Rightarrow> nat \<Rightarrow> bytes option"
  wallet_get_signer_commitment :: "bytes \<Rightarrow> 32 word list \<Rightarrow> bytes \<Rightarrow> bytes option"
  wallet_get_blinding_factor :: "bytes \<Rightarrow> int \<Rightarrow> blinding_factor_type_t \<Rightarrow> bytes option"
  wally_asset_generator_from_bytes :: "bytes \<Rightarrow> bytes \<Rightarrow> bytes option"
  wally_asset_value_commitment :: "64 word \<Rightarrow> bytes \<Rightarrow> bytes \<Rightarrow> bytes option"
  wallet_hmac_with_master_key :: "bytes \<Rightarrow> bytes option"
  await_outputs_event :: "event_id option"
  await_fee_event :: "event_id option"
  WARN_MSG_MIXED_INPUTS :: string

text \<open>What the process does that the host or the user can observe, in order.\<close>

datatype event =
    Reject_message rpc_error "string option"
  | Reply_ok
  | Reply_bytes bytes
  | Load_in_message message
  | Display_outputs string wally_tx "output_info_t list"
  | Display_message string
  | Display_final_confirmation "64 word" "string option"
  | Send_ae_signature_replies "signing_data_t list" "32 word" "message list"
  | Send_ec_signature_replies "signing_data_t list" "32 word"

text \<open>
  How a part of the process ends: it falls through to the next statement with a value,
  jumps to \<^verbatim>\<open>cleanup\<close>, aborts (a failed assertion or a read outside a buffer), or
  blocks in \<^verbatim>\<open>jade_process_load_in_message(process, true)\<close> because the host has sent
  nothing more.
\<close>

datatype 'a flow = Continue 'a | Cleanup | Aborted | Awaiting_message

type_synonym 'a step = "event list \<times> 'a flow"

fun then_step :: "'a step \<Rightarrow> ('a \<Rightarrow> 'b step) \<Rightarrow> 'b step" where
  "then_step (t, Continue a) f = (case f a of (t', r) \<Rightarrow> (t @ t', r))"
| "then_step (t, Cleanup) f = (t, Cleanup)"
| "then_step (t, Aborted) f = (t, Aborted)"
| "then_step (t, Awaiting_message) f = (t, Awaiting_message)"

text \<open>
  A \<^verbatim>\<open>for\<close> loop whose counter runs through the given indices in order, the body
  mapping the loop-carried variables to their new values or leaving the loop.
\<close>

fun for_loop :: "nat list \<Rightarrow> (nat \<Rightarrow> 's \<Rightarrow> 's step) \<Rightarrow> 's \<Rightarrow> 's step" where
  "for_loop [] body s = ([], Continue s)"
| "for_loop (i # is) body s = then_step (body i s) (for_loop is body)"

definition reject :: "rpc_error \<Rightarrow> string \<Rightarrow> 'a step" where
  "reject code msg = ([Reject_message code (Some msg)], Cleanup)"

subsection \<open>Helpers\<close>

definition value_to_le :: "32 word \<Rightarrow> bytes" where
  "value_to_le val =
     [ucast (val AND 0xFF),
      ucast (drop_bit 8 val AND 0xFF),
      ucast (drop_bit 16 val AND 0xFF),
      ucast (drop_bit 24 val AND 0xFF)]"

text \<open>
  \<^verbatim>\<open>memcpy(p, &commitments->value, sizeof(uint64_t))\<close> copies the object representation
  of the value; the target is little-endian.
\<close>

definition uint64_bytes :: "64 word \<Rightarrow> bytes" where
  "uint64_bytes v = map (\<lambda>k. ucast (drop_bit (8 * k) v)) [0..<8]"

text \<open>\<^verbatim>\<open>sodium_memcmp(a, b, n)\<close>: 0 when the first \<open>n\<close> bytes agree, \<open>-1\<close> otherwise.\<close>

definition sodium_memcmp :: "bytes \<Rightarrow> bytes \<Rightarrow> nat \<Rightarrow> int" where
  "sodium_memcmp a b n = (if take n a = take n b then 0 else - 1)"

text \<open>\<^verbatim>\<open>value[0]\<close> of an output; there is no such byte in an empty buffer.\<close>

definition value_prefix :: "wally_tx_output \<Rightarrow> 8 word option" where
  "value_prefix txoutput = (case out_value txoutput of [] \<Rightarrow> None | b # _ \<Rightarrow> Some b)"


subsection \<open>Commitment verifier\<close>

text \<open>
  \<^verbatim>\<open>add_confidential_output_info\<close>. On success the output (whose asset and value
  buffers are overwritten through the pointer) and the info record are returned; on
  failure the error message. The caller abandons the session on failure, so what had
  been copied before the failing test is not returned.
\<close>

definition add_confidential_output_info ::
  "commitment_t \<Rightarrow> wally_tx_output \<Rightarrow> output_info_t
     \<Rightarrow> (string + wally_tx_output \<times> output_info_t) outcome" where
  "add_confidential_output_info commitments txoutput outinfo =
     (case value_prefix txoutput of
        None \<Rightarrow> Assert_failed
      | Some b \<Rightarrow>
          if b = 0x01 then Assert_failed
          else if \<not> have_commitments commitments then
            Returns (Inl ''Missing commitments data for blinded output'')
          else if length (out_asset txoutput) \<noteq> ASSET_GENERATOR_LEN then
            Returns (Inl ''Failed to update tx asset_generator from commitments data'')
          else if length (out_value txoutput) \<noteq> ASSET_COMMITMENT_LEN then
            Returns (Inl ''Failed to update tx value_commitment from commitments data'')
          else
            Returns (Inr
              (txoutput\<lparr>out_asset := take ASSET_GENERATOR_LEN (asset_generator commitments),
                        out_value := take ASSET_COMMITMENT_LEN (value_commitment commitments)\<rparr>,
               outinfo\<lparr>info_asset_id := take ASSET_TAG_LEN (asset_id commitments),
                       info_value := com_value commitments,
                       info_blinding_key := take EC_PUBLIC_KEY_LEN (blinding_key commitments)\<rparr>)))"

text \<open>The blob over which the HMAC of a trusted commitment is computed.\<close>

definition signed_blob :: "commitment_t \<Rightarrow> bytes" where
  "signed_blob commitments =
     take ASSET_GENERATOR_LEN (asset_generator commitments)
     @ take ASSET_COMMITMENT_LEN (value_commitment commitments)
     @ take ASSET_TAG_LEN (asset_id commitments)
     @ uint64_bytes (com_value commitments)"

text \<open>
  \<^verbatim>\<open>check_trusted_commitment_valid\<close>. The result is the returned bool, the value of
  \<^verbatim>\<open>*found_odd_vbf\<close> and the value of \<^verbatim>\<open>*errmsg\<close> after the call (\<open>None\<close> when
  it was not written).
\<close>

definition check_trusted_commitment_valid ::
  "env \<Rightarrow> bytes \<Rightarrow> nat \<Rightarrow> int \<Rightarrow> wally_tx_output \<Rightarrow> commitment_t \<Rightarrow> bool
     \<Rightarrow> (bool \<times> bool \<times> string option) outcome" where
  "check_trusted_commitment_valid e hash_prevouts hash_prevouts_len idx txoutput commitments found_odd_vbf =
     (if hash_prevouts_len \<noteq> SHA256_LEN \<or> idx < 0 then Assert_failed
      else case value_prefix txoutput of
        None \<Rightarrow> Assert_failed
      | Some b \<Rightarrow>
          if b = 0x01 then Assert_failed
          else
            (let asset_failed =
                   Returns (False, found_odd_vbf,
                            Some ''Failed to verify asset_generator from commitments data'');
                 value_failed =
                   Returns (False, found_odd_vbf,
                            Some ''Failed to verify value_commitment from commitments data'')
             in
             case wallet_get_blinding_factor e hash_prevouts idx ASSET_BLINDING_FACTOR of
               None \<Rightarrow> asset_failed
             | Some abf \<Rightarrow>
             (case wally_asset_generator_from_bytes e (take ASSET_TAG_LEN (asset_id commitments)) abf of
               None \<Rightarrow> asset_failed
             | Some generator_tmp \<Rightarrow>
                 if sodium_memcmp (asset_generator commitments) generator_tmp ASSET_GENERATOR_LEN \<noteq> 0
                    \<or> sodium_memcmp (out_asset txoutput) generator_tmp ASSET_GENERATOR_LEN \<noteq> 0
                 then asset_failed
                 else
             (case wallet_get_blinding_factor e hash_prevouts idx VALUE_BLINDING_FACTOR of
               None \<Rightarrow> value_failed
             | Some vbf \<Rightarrow>
             (case wally_asset_value_commitment e (com_value commitments) vbf generator_tmp of
               None \<Rightarrow> value_failed
             | Some commitment_tmp \<Rightarrow>
                 (let odd =
                        (sodium_memcmp (value_commitment commitments) commitment_tmp ASSET_COMMITMENT_LEN \<noteq> 0
                         \<or> sodium_memcmp (out_value txoutput) commitment_tmp ASSET_COMMITMENT_LEN \<noteq> 0)
                  in
                  if odd \<and> found_odd_vbf then value_failed
                  else
                    (let found_odd_vbf' = (if odd then True else found_odd_vbf);
                         hmac_failed =
                           Returns (False, found_odd_vbf',
                                    Some ''Failed to verify hmac from commitments data'')
                     in
                     case wallet_hmac_with_master_key e (signed_blob commitments) of
                       None \<Rightarrow> hmac_failed
                     | Some our_hmac \<Rightarrow>
                         if sodium_memcmp our_hmac (hmac commitments) HMAC_SHA256_LEN \<noteq> 0
                         then hmac_failed
                         else Returns (True, found_odd_vbf', None))))))))"

subsection \<open>The phases of sign_liquid_tx_process\<close>

text \<open>
  Modelled from the spec: the macro \<^verbatim>\<open>CHECK_NETWORK_CONSISTENT\<close> of
  \<^verbatim>\<open>process_utils.h\<close> is missing from the sources. By the comment at its use (the
  network is valid and consistent with prior usage) and the spec's error taxonomy (an
  invalid network is bad-parameters), it rejects the message with bad-parameters and
  jumps to cleanup unless a name was read, it is a valid network and it is consistent
  with the keychain's restriction.
\<close>

definition CHECK_NETWORK_CONSISTENT ::
  "network_tags \<Rightarrow> keychain_state \<Rightarrow> string option \<Rightarrow> string step" where
  "CHECK_NETWORK_CONSISTENT t kc network =
     (case network of
        None \<Rightarrow> reject CBOR_RPC_BAD_PARAMETERS ''Failed to extract valid network from parameters''
      | Some n \<Rightarrow>
          if length n = 0 \<or> \<not> isValidNetwork t network then
            reject CBOR_RPC_BAD_PARAMETERS ''Failed to extract valid network from parameters''
          else
            (case keychain_is_network_type_consistent t kc network of
               Assert_failed \<Rightarrow> ([], Aborted)
             | Returns consistent \<Rightarrow>
                 if \<not> consistent then
                   reject CBOR_RPC_BAD_PARAMETERS ''Network type inconsistent with prior usage''
                 else ([], Continue n)))"

definition zero_output_info :: output_info_t where
  "zero_output_info =
     \<lparr>is_confidential = False, info_asset_id = replicate ASSET_TAG_LEN 0, info_value = 0,
      info_blinding_key = replicate EC_PUBLIC_KEY_LEN 0\<rparr>"

definition zero_signing_data :: signing_data_t where
  "zero_signing_data = \<lparr>sig_id = [], path = [], signature_hash = replicate SHA256_LEN 0\<rparr>"

text \<open>
  Lines 169 to 265: reading and checking the request, up to the start of the prevout
  hash. The result is the network name, the parsed transaction, \<open>num_inputs\<close>, the
  trusted commitments, the output-info array and \<open>use_ae_signatures\<close>.
\<close>

definition read_request ::
  "env \<Rightarrow> keychain_state \<Rightarrow> sign_liquid_tx_params
     \<Rightarrow> (string \<times> wally_tx \<times> 32 word \<times> commitment_t list \<times> output_info_t list \<times> bool) step" where
  "read_request e kc req =
     then_step (CHECK_NETWORK_CONSISTENT (tags e) kc (req_network req)) (\<lambda>network.
       case isLiquidNetwork (tags e) (Some network) of
         Assert_failed \<Rightarrow> ([], Aborted)
       | Returns liquid \<Rightarrow>
       if \<not> liquid then
         reject CBOR_RPC_BAD_PARAMETERS ''sign_liquid_tx call only appropriate for liquid network''
       else
       (case req_txn req of
         None \<Rightarrow> reject CBOR_RPC_BAD_PARAMETERS ''Failed to extract txn from parameters''
       | Some txbytes \<Rightarrow>
       if length txbytes = 0 then
         reject CBOR_RPC_BAD_PARAMETERS ''Failed to extract txn from parameters''
       else
       (case wally_tx_from_bytes e txbytes of
         None \<Rightarrow> reject CBOR_RPC_BAD_PARAMETERS ''Failed to extract tx from passed bytes''
       | Some tx \<Rightarrow>
       (case req_num_inputs req of
         None \<Rightarrow>
           reject CBOR_RPC_BAD_PARAMETERS ''Failed to extract valid number of inputs from parameters''
       | Some num_inputs \<Rightarrow>
       if num_inputs = 0 then
         reject CBOR_RPC_BAD_PARAMETERS ''Failed to extract valid number of inputs from parameters''
       else if unat num_inputs \<noteq> length (inputs tx) then
         reject CBOR_RPC_BAD_PARAMETERS ''Unexpected number of inputs for transaction''
       else
       (let commitments = req_trusted_commitments req in
        if length commitments = 0 then
          reject CBOR_RPC_BAD_PARAMETERS ''Failed to extract trusted commitments from parameters''
        else if length commitments \<noteq> length (outputs tx) then
          reject CBOR_RPC_BAD_PARAMETERS ''Unexpected number of trusted commitments for transaction''
        else
        (let output_info = replicate (length (outputs tx)) zero_output_info;
             use_ae_signatures = (case req_use_ae_signatures req of None \<Rightarrow> False | Some b \<Rightarrow> b)
         in
         then_step
           (case req_change req of
              None \<Rightarrow> ([], Continue output_info)
            | Some change \<Rightarrow>
                (case validate_change_paths e network tx change output_info of
                   Inl errmsg \<Rightarrow> ([Reject_message CBOR_RPC_BAD_PARAMETERS errmsg], Cleanup)
                 | Inr output_info' \<Rightarrow> ([], Continue output_info')))
           (\<lambda>output_info.
              if sha256_starts_rc e \<noteq> 0 then
                reject CBOR_RPC_INTERNAL_ERROR ''Failed to initialise prevout hash''
              else ([], Continue (network, tx, num_inputs, commitments, output_info,
                                  use_ae_signatures)))))))))"

text \<open>
  Lines 271 to 294, the body of the loop over the outputs. The loop carries the
  transaction (confidential outputs are overwritten), the output-info array and the fees.
  Reading an array outside its bounds is not defined in C and is an abort here.
\<close>

definition output_info_body ::
  "env \<Rightarrow> commitment_t list \<Rightarrow> nat \<Rightarrow> wally_tx \<times> output_info_t list \<times> 64 word
     \<Rightarrow> (wally_tx \<times> output_info_t list \<times> 64 word) step" where
  "output_info_body e commitments i s =
     (case s of (tx, output_info, fees) \<Rightarrow>
       if \<not> (i < length (outputs tx) \<and> i < length commitments \<and> i < length output_info)
       then ([], Aborted)
       else
         (let txoutput = outputs tx ! i; outinfo = output_info ! i in
          case value_prefix txoutput of
            None \<Rightarrow> ([], Aborted)
          | Some b \<Rightarrow>
              if b = 0x01 then
                (let value' =
                       (case wally_tx_confidential_value_to_satoshi e (out_value txoutput) of
                          None \<Rightarrow> info_value outinfo
                        | Some satoshi \<Rightarrow> satoshi);
                     outinfo' = outinfo\<lparr>is_confidential := False,
                                        info_asset_id := take 32 (drop 1 (out_asset txoutput)),
                                        info_value := value'\<rparr>;
                     fees' = (if out_script txoutput = None then fees + info_value outinfo' else fees)
                 in ([], Continue (tx, output_info[i := outinfo'], fees')))
              else
                (case add_confidential_output_info (commitments ! i) txoutput
                        (outinfo\<lparr>is_confidential := True\<rparr>) of
                   Assert_failed \<Rightarrow> ([], Aborted)
                 | Returns (Inl errmsg) \<Rightarrow> reject CBOR_RPC_BAD_PARAMETERS errmsg
                 | Returns (Inr (txoutput', outinfo')) \<Rightarrow>
                     ([], Continue (tx\<lparr>outputs := (outputs tx)[i := txoutput']\<rparr>,
                                    output_info[i := outinfo'], fees)))))"

definition populate_output_info ::
  "env \<Rightarrow> wally_tx \<Rightarrow> commitment_t list \<Rightarrow> output_info_t list
     \<Rightarrow> (wally_tx \<times> output_info_t list \<times> 64 word) step" where
  "populate_output_info e tx commitments output_info =
     for_loop [0..<length (outputs tx)] (output_info_body e commitments) (tx, output_info, 0)"

text \<open>Lines 296 to 324: the outputs are shown and the first decision of the user awaited.\<close>

definition confirm_outputs :: "env \<Rightarrow> string \<Rightarrow> wally_tx \<Rightarrow> output_info_t list \<Rightarrow> unit step" where
  "confirm_outputs e network tx output_info =
     then_step ([Display_outputs network tx output_info], Continue ()) (\<lambda>_.
       case await_outputs_event e of
         None \<Rightarrow> reject CBOR_RPC_USER_CANCELLED ''User declined to sign transaction''
       | Some ev_id \<Rightarrow>
           if ev_id \<noteq> SIGN_TX_ACCEPT_OUTPUTS then
             reject CBOR_RPC_USER_CANCELLED ''User declined to sign transaction''
           else ([Display_message ''Processing...'', Reply_ok], Continue ()))"


text \<open>
  Modelled from the spec: \<^verbatim>\<open>jade_process_load_in_message\<close> is missing from the
  sources. By the spec the wait for the next message of the host is a blocking wait, so
  with \<^verbatim>\<open>block = true\<close> the call returns with the next message of the host as the
  current message, and does not return while there is none.
\<close>

definition jade_process_load_in_message :: "message list \<Rightarrow> (message \<times> message list) step" where
  "jade_process_load_in_message inbox =
     (case inbox of
        [] \<Rightarrow> ([], Awaiting_message)
      | msg # rest \<Rightarrow> ([Load_in_message msg], Continue (msg, rest)))"

text \<open>\<^verbatim>\<open>mbedtls_sha256_update_ret\<close>: the new context, or \<open>None\<close> for a nonzero return code.\<close>

definition mbedtls_sha256_update_ret :: "env \<Rightarrow> bytes \<Rightarrow> bytes \<Rightarrow> bytes option" where
  "mbedtls_sha256_update_ret e ctx data =
     (if sha256_update_rc e ctx data \<noteq> 0 then None else Some (ctx @ data))"

definition unexpected_message_text :: string where
  "unexpected_message_text =
     ''Unexpected message, expecting '' @ [CHR 0x27] @ ''tx_input'' @ [CHR 0x27]"

text \<open>
  Lines 338 to 471, the body of the loop over the inputs. The loop carries the messages
  the host has sent and the process has not yet loaded, the signing-data array, the
  SHA-256 context of the prevout hash and the aggregate script flavour.
\<close>

definition tx_input_body ::
  "env \<Rightarrow> wally_tx \<Rightarrow> bool \<Rightarrow> nat
     \<Rightarrow> message list \<times> signing_data_t list \<times> bytes \<times> script_flavour_t
     \<Rightarrow> (message list \<times> signing_data_t list \<times> bytes \<times> script_flavour_t) step" where
  "tx_input_body e tx use_ae_signatures idx s =
     (case s of (inbox, all_signing_data, hash_prevout_sha_ctx, aggregate_flavour) \<Rightarrow>
     then_step (jade_process_load_in_message inbox) (\<lambda>(msg, inbox').
       if msg_method msg \<noteq> ''tx_input'' then
         reject CBOR_RPC_PROTOCOL_ERROR unexpected_message_text
       else if \<not> (idx < length all_signing_data \<and> idx < length (inputs tx)) then ([], Aborted)
       else if length (msg_id msg) = 0 then ([], Aborted)
       else
       (let sig_data = (all_signing_data ! idx)\<lparr>sig_id := msg_id msg\<rparr> in
        case p_is_witness msg of
          None \<Rightarrow> reject CBOR_RPC_BAD_PARAMETERS ''Failed to extract is_witness from parameters''
        | Some is_witness \<Rightarrow>
        (let has_path = p_has_path msg in
         then_step
           (if has_path then
              (case p_path msg of
                 None \<Rightarrow>
                   reject CBOR_RPC_BAD_PARAMETERS ''Failed to extract valid path from parameters''
               | Some pth \<Rightarrow>
                   if length pth = 0 then
                     reject CBOR_RPC_BAD_PARAMETERS ''Failed to extract valid path from parameters''
                   else
                     then_step
                       (if use_ae_signatures then
                          (case p_ae_host_commitment msg of
                             None \<Rightarrow>
                               reject CBOR_RPC_BAD_PARAMETERS
                                 ''Failed to extract valid host commitment from parameters''
                           | Some c \<Rightarrow>
                               if length c \<noteq> WALLY_HOST_COMMITMENT_LEN then
                                 reject CBOR_RPC_BAD_PARAMETERS
                                   ''Failed to extract valid host commitment from parameters''
                               else ([], Continue (Some c)))
                        else ([], Continue None))
                       (\<lambda>ae_host_commitment.
                          case p_script msg of
                            None \<Rightarrow>
                              reject CBOR_RPC_BAD_PARAMETERS
                                ''Failed to extract script from parameters''
                          | Some script \<Rightarrow>
                              if length script = 0 then
                                reject CBOR_RPC_BAD_PARAMETERS
                                  ''Failed to extract script from parameters''
                              else
                                ([], Continue
                                   (sig_data\<lparr>path := pth\<rparr>, Some script, ae_host_commitment,
                                    update_aggregate_scripts_flavour e
                                      (get_script_flavour e script) aggregate_flavour))))
            else ([], Continue (sig_data, None, None, aggregate_flavour)))
           (\<lambda>(sig_data, script, ae_host_commitment, aggregate_flavour).
              let index_little_endian = value_to_le (index (inputs tx ! idx)) in
              case mbedtls_sha256_update_ret e hash_prevout_sha_ctx
                     (take WALLY_TXHASH_LEN (txhash (inputs tx ! idx))) of
                None \<Rightarrow> reject CBOR_RPC_INTERNAL_ERROR ''Failed to build prevout hash''
              | Some ctx1 \<Rightarrow>
              (case mbedtls_sha256_update_ret e ctx1 index_little_endian of
                None \<Rightarrow> reject CBOR_RPC_INTERNAL_ERROR ''Failed to build prevout hash''
              | Some ctx2 \<Rightarrow>
              then_step
                (if has_path \<and> is_witness then
                   (let value_commitment = p_value_commitment msg;
                        value_len = (case value_commitment of None \<Rightarrow> 0 | Some c \<Rightarrow> length c)
                    in if value_len \<noteq> ASSET_COMMITMENT_LEN then
                         reject CBOR_RPC_BAD_PARAMETERS
                           ''Failed to extract value commitment from parameters''
                       else ([], Continue (value_commitment, value_len)))
                 else ([], Continue (None, 0)))
                (\<lambda>(value_commitment, value_len).
                   then_step
                     (case script of
                        Some scr \<Rightarrow>
                          (case wallet_get_elements_tx_input_hash e tx idx is_witness scr
                                  (if value_len = 0 then None else value_commitment) value_len of
                             None \<Rightarrow>
                               reject CBOR_RPC_INTERNAL_ERROR ''Failed to make tx input hash''
                           | Some h \<Rightarrow>
                               (let sig_data = sig_data\<lparr>signature_hash := h\<rparr> in
                                if use_ae_signatures then
                                  (case ae_host_commitment of
                                     None \<Rightarrow> ([], Aborted)
                                   | Some c \<Rightarrow>
                                       (case wallet_get_signer_commitment e
                                               (signature_hash sig_data) (path sig_data) c of
                                          None \<Rightarrow>
                                            reject CBOR_RPC_INTERNAL_ERROR
                                              ''Failed to make ae signer commitment''
                                        | Some sc \<Rightarrow> ([], Continue (sig_data, sc))))
                                else ([], Continue (sig_data, []))))
                      | None \<Rightarrow>
                          if length (path sig_data) \<noteq> 0 then ([], Aborted)
                          else ([], Continue (sig_data, [])))
                     (\<lambda>(sig_data, ae_signer_commitment).
                        ((if use_ae_signatures then
                            [Reply_bytes (if has_path
                                          then take WALLY_S2C_OPENING_LEN ae_signer_commitment
                                          else [])]
                          else []),
                         Continue (inbox', all_signing_data[idx := sig_data], ctx2,
                                   aggregate_flavour))))))))))"

definition stream_inputs ::
  "env \<Rightarrow> wally_tx \<Rightarrow> bool \<Rightarrow> 32 word \<Rightarrow> message list
     \<Rightarrow> (message list \<times> signing_data_t list \<times> bytes \<times> script_flavour_t) step" where
  "stream_inputs e tx use_ae_signatures num_inputs inbox =
     for_loop [0..<unat num_inputs] (tx_input_body e tx use_ae_signatures)
       (inbox, replicate (unat num_inputs) zero_signing_data, [], SCRIPT_FLAVOUR_NONE)"

text \<open>Lines 474 to 484: the context is finished and the digest hashed once more.\<close>

definition finalize_prevouts :: "env \<Rightarrow> bytes \<Rightarrow> bytes step" where
  "finalize_prevouts e hash_prevout_sha_ctx =
     (if sha256_finish_rc e hash_prevout_sha_ctx \<noteq> 0 then
        reject CBOR_RPC_INTERNAL_ERROR ''Failed to compute prevout hash''
      else
        (let hash_prevouts_single = sha256 e hash_prevout_sha_ctx;
             hash_prevouts_double = sha256 e hash_prevouts_single
         in ([], Continue hash_prevouts_double)))"

text \<open>Lines 495 to 509: the loop over the outputs that carries \<open>found_odd_vbf\<close>.\<close>

definition verify_body ::
  "env \<Rightarrow> bytes \<Rightarrow> wally_tx \<Rightarrow> commitment_t list \<Rightarrow> nat \<Rightarrow> bool \<Rightarrow> bool step" where
  "verify_body e hash_prevouts_double tx commitments i found_odd_vbf =
     (if \<not> (i < length (outputs tx) \<and> i < length commitments) then ([], Aborted)
      else
        (case value_prefix (outputs tx ! i) of
           None \<Rightarrow> ([], Aborted)
         | Some b \<Rightarrow>
             if b = 0x01 then ([], Continue found_odd_vbf)
             else
               (case check_trusted_commitment_valid e hash_prevouts_double SHA256_LEN (int i)
                       (outputs tx ! i) (commitments ! i) found_odd_vbf of
                  Assert_failed \<Rightarrow> ([], Aborted)
                | Returns (ok, found_odd_vbf', errmsg) \<Rightarrow>
                    if \<not> ok then ([Reject_message CBOR_RPC_BAD_PARAMETERS errmsg], Cleanup)
                    else ([], Continue found_odd_vbf'))))"

definition verify_commitments ::
  "env \<Rightarrow> bytes \<Rightarrow> wally_tx \<Rightarrow> commitment_t list \<Rightarrow> bool step" where
  "verify_commitments e hash_prevouts_double tx commitments =
     for_loop [0..<length (outputs tx)] (verify_body e hash_prevouts_double tx commitments) False"

text \<open>Lines 511 to 542: the fee is shown and the second decision of the user awaited.\<close>

definition confirm_fee ::
  "env \<Rightarrow> bool \<Rightarrow> 64 word \<Rightarrow> script_flavour_t \<Rightarrow> message list \<Rightarrow> message list step" where
  "confirm_fee e use_ae_signatures fees aggregate_flavour inbox =
     (let warning_msg =
            (if aggregate_flavour = SCRIPT_FLAVOUR_MIXED then Some (WARN_MSG_MIXED_INPUTS e) else None)
      in
      then_step ([Display_final_confirmation fees warning_msg], Continue ()) (\<lambda>_.
        if (case await_fee_event e of None \<Rightarrow> True | Some ev_id \<Rightarrow> ev_id \<noteq> BTN_ACCEPT_SIGNATURE)
        then
          then_step
            (if use_ae_signatures then
               then_step (jade_process_load_in_message inbox) (\<lambda>_. ([], Continue ()))
             else ([], Continue ()))
            (\<lambda>_. reject CBOR_RPC_USER_CANCELLED ''User declined to sign transaction'')
        else ([Display_message ''Processing...''], Continue inbox)))"

text \<open>
  Lines 549 to 555. \<^verbatim>\<open>send_ae_signature_replies\<close> and
  \<^verbatim>\<open>send_ec_signature_replies\<close> are functions of \<^verbatim>\<open>sign_tx.c\<close>; each is one event
  here. The first is handed the process, hence the messages still to come; the second
  is handed the message source only.
\<close>

definition send_signature_replies ::
  "bool \<Rightarrow> signing_data_t list \<Rightarrow> 32 word \<Rightarrow> message list \<Rightarrow> unit step" where
  "send_signature_replies use_ae_signatures all_signing_data num_inputs inbox =
     (if use_ae_signatures then
        ([Send_ae_signature_replies all_signing_data num_inputs inbox], Cleanup)
      else ([Send_ec_signature_replies all_signing_data num_inputs], Cleanup))"

text \<open>
  \<^verbatim>\<open>sign_liquid_tx_process\<close>, for the build without \<^verbatim>\<open>CONFIG_DEBUG_UNATTENDED_CI\<close>
  (the other build behaves as this one does when both awaits deliver their accept
  event). The arguments are the collaborators, the keychain state, the decoded request
  and the messages the host sends after it.
\<close>

definition sign_liquid_tx_process ::
  "env \<Rightarrow> keychain_state \<Rightarrow> sign_liquid_tx_params \<Rightarrow> message list \<Rightarrow> unit step" where
  "sign_liquid_tx_process e kc req inbox =
     then_step (read_request e kc req)
       (\<lambda>(network, tx, num_inputs, commitments, output_info, use_ae_signatures).
     then_step (populate_output_info e tx commitments output_info)
       (\<lambda>(tx, output_info, fees).
     then_step (confirm_outputs e network tx output_info)
       (\<lambda>_.
     then_step (stream_inputs e tx use_ae_signatures num_inputs inbox)
       (\<lambda>(inbox, all_signing_data, hash_prevout_sha_ctx, aggregate_flavour).
     then_step (finalize_prevouts e hash_prevout_sha_ctx)
       (\<lambda>hash_prevouts_double.
     then_step (verify_commitments e hash_prevouts_double tx commitments)
       (\<lambda>_.
     then_step (confirm_fee e use_ae_signatures fees aggregate_flavour inbox)
       (\<lambda>inbox.
     send_signature_replies use_ae_signatures all_signing_data num_inputs inbox)))))))"

section \<open>Notions used to state the properties\<close>

subsection \<open>The commitment checks of one output\<close>

text \<open>
  The quantities \<^verbatim>\<open>check_trusted_commitment_valid\<close> recomputes for the output with
  index \<open>idx\<close>, and the outcome of each of its comparisons. An output is blinded when its
  value does not start with the byte 0x01.
\<close>

definition recomputed_generator :: "env \<Rightarrow> bytes \<Rightarrow> int \<Rightarrow> commitment_t \<Rightarrow> bytes option" where
  "recomputed_generator e hash_prevouts idx commitments =
     (case wallet_get_blinding_factor e hash_prevouts idx ASSET_BLINDING_FACTOR of
        None \<Rightarrow> None
      | Some abf \<Rightarrow>
          wally_asset_generator_from_bytes e (take ASSET_TAG_LEN (asset_id commitments)) abf)"

definition asset_generator_ok :: "env \<Rightarrow> bytes \<Rightarrow> int \<Rightarrow> wally_tx_output \<Rightarrow> commitment_t \<Rightarrow> bool" where
  "asset_generator_ok e hash_prevouts idx txoutput commitments =
     (case recomputed_generator e hash_prevouts idx commitments of
        None \<Rightarrow> False
      | Some g \<Rightarrow>
          take ASSET_GENERATOR_LEN (asset_generator commitments) = take ASSET_GENERATOR_LEN g
          \<and> take ASSET_GENERATOR_LEN (out_asset txoutput) = take ASSET_GENERATOR_LEN g)"

definition recomputed_value_commitment :: "env \<Rightarrow> bytes \<Rightarrow> int \<Rightarrow> commitment_t \<Rightarrow> bytes option" where
  "recomputed_value_commitment e hash_prevouts idx commitments =
     (case recomputed_generator e hash_prevouts idx commitments of
        None \<Rightarrow> None
      | Some g \<Rightarrow>
          (case wallet_get_blinding_factor e hash_prevouts idx VALUE_BLINDING_FACTOR of
             None \<Rightarrow> None
           | Some vbf \<Rightarrow> wally_asset_value_commitment e (com_value commitments) vbf g))"

definition odd_vbf :: "env \<Rightarrow> bytes \<Rightarrow> int \<Rightarrow> wally_tx_output \<Rightarrow> commitment_t \<Rightarrow> bool" where
  "odd_vbf e hash_prevouts idx txoutput commitments =
     (case recomputed_value_commitment e hash_prevouts idx commitments of
        None \<Rightarrow> False
      | Some c \<Rightarrow>
          take ASSET_COMMITMENT_LEN (value_commitment commitments) \<noteq> take ASSET_COMMITMENT_LEN c
          \<or> take ASSET_COMMITMENT_LEN (out_value txoutput) \<noteq> take ASSET_COMMITMENT_LEN c)"

definition hmac_ok :: "env \<Rightarrow> commitment_t \<Rightarrow> bool" where
  "hmac_ok e commitments =
     (case wallet_hmac_with_master_key e (signed_blob commitments) of
        None \<Rightarrow> False
      | Some our_hmac \<Rightarrow> take HMAC_SHA256_LEN our_hmac = take HMAC_SHA256_LEN (hmac commitments))"

definition is_blinded :: "wally_tx_output \<Rightarrow> bool" where
  "is_blinded txoutput = (case value_prefix txoutput of None \<Rightarrow> False | Some b \<Rightarrow> b \<noteq> 0x01)"


text \<open>
  The blinded outputs of a transaction whose value commitment is odd, and the condition
  that no check other than the one on odd value commitments fails on a blinded output.
\<close>

definition odd_at :: "env \<Rightarrow> bytes \<Rightarrow> wally_tx \<Rightarrow> commitment_t list \<Rightarrow> nat \<Rightarrow> bool" where
  "odd_at e hash_prevouts tx commitments i =
     (is_blinded (outputs tx ! i)
      \<and> odd_vbf e hash_prevouts (int i) (outputs tx ! i) (commitments ! i))"

definition odd_outputs :: "env \<Rightarrow> bytes \<Rightarrow> wally_tx \<Rightarrow> commitment_t list \<Rightarrow> nat list" where
  "odd_outputs e hash_prevouts tx commitments =
     filter (odd_at e hash_prevouts tx commitments) [0..<length (outputs tx)]"

definition other_checks_pass_at :: "env \<Rightarrow> bytes \<Rightarrow> wally_tx \<Rightarrow> commitment_t list \<Rightarrow> nat \<Rightarrow> bool" where
  "other_checks_pass_at e hash_prevouts tx commitments i =
     (is_blinded (outputs tx ! i) \<longrightarrow>
        asset_generator_ok e hash_prevouts (int i) (outputs tx ! i) (commitments ! i)
        \<and> recomputed_value_commitment e hash_prevouts (int i) (commitments ! i) \<noteq> None
        \<and> hmac_ok e (commitments ! i))"

definition other_checks_pass :: "env \<Rightarrow> bytes \<Rightarrow> wally_tx \<Rightarrow> commitment_t list \<Rightarrow> bool" where
  "other_checks_pass e hash_prevouts tx commitments =
     list_all (other_checks_pass_at e hash_prevouts tx commitments) [0..<length (outputs tx)]"

text \<open>
  A transaction and commitment array as the process has them when it verifies: one
  commitment per output, and no output with an empty value buffer.
\<close>

definition verifiable :: "wally_tx \<Rightarrow> commitment_t list \<Rightarrow> bool" where
  "verifiable tx commitments =
     (length commitments = length (outputs tx)
      \<and> list_all (\<lambda>txoutput. value_prefix txoutput \<noteq> None) (outputs tx))"

subsection \<open>A sample session\<close>

text \<open>
  Concrete collaborators and data on which the definitions are evaluated. The primitives
  are simple stand-ins with the interface of the real ones: the digest of a byte string
  is its length as one byte, the asset generator is 0x0a followed by the asset id, the
  value commitment is 0x08 followed by 32 copies of the low byte of the value, and the
  HMAC is constant.
\<close>

definition sample_input :: wally_tx_input where
  "sample_input = \<lparr>txhash = replicate 32 0xAA, index = 1\<rparr>"

definition sample_blinded_output :: wally_tx_output where
  "sample_blinded_output =
     \<lparr>out_asset = 0x0a # replicate 32 0x6f, out_value = 0x08 # replicate 32 5,
      out_script = Some [0x51]\<rparr>"

definition sample_fee_output :: wally_tx_output where
  "sample_fee_output =
     \<lparr>out_asset = 0x01 # replicate 32 0x6f, out_value = [0x01, 0, 0, 0, 0, 0, 0, 0, 100],
      out_script = None\<rparr>"

definition sample_tx :: wally_tx where
  "sample_tx = \<lparr>inputs = [sample_input], outputs = [sample_blinded_output, sample_fee_output]\<rparr>"

definition sample_commitment :: commitment_t where
  "sample_commitment =
     \<lparr>have_commitments = True, asset_id = replicate 32 0x6f, com_value = 5,
      blinding_key = replicate 33 0x02, asset_generator = 0x0a # replicate 32 0x6f,
      value_commitment = 0x08 # replicate 32 5, hmac = replicate 32 0x77\<rparr>"

definition no_commitment :: commitment_t where
  "no_commitment =
     \<lparr>have_commitments = False, asset_id = replicate 32 0, com_value = 0,
      blinding_key = replicate 33 0, asset_generator = replicate 33 0,
      value_commitment = replicate 33 0, hmac = replicate 32 0\<rparr>"

definition odd_commitment :: commitment_t where
  "odd_commitment = sample_commitment\<lparr>value_commitment := 0x08 # replicate 32 6\<rparr>"

definition odd_output :: wally_tx_output where
  "odd_output = sample_blinded_output\<lparr>out_value := 0x08 # replicate 32 6\<rparr>"

definition sample_env :: env where
  "sample_env =
     \<lparr>tags = sample_tags,
      wally_tx_from_bytes = (\<lambda>b. if b = [0x02] then Some sample_tx else None),
      validate_change_paths = (\<lambda>network tx change output_info. Inr output_info),
      wally_tx_confidential_value_to_satoshi =
        (\<lambda>v. if length v = 9 then Some (ucast (last v)) else None),
      sha256 = (\<lambda>b. [of_nat (length b)]),
      sha256_starts_rc = 0,
      sha256_update_rc = (\<lambda>ctx data. 0),
      sha256_finish_rc = (\<lambda>ctx. 0),
      get_script_flavour = (\<lambda>script. Script_flavour_other 1),
      update_aggregate_scripts_flavour = (\<lambda>new_flavour aggregate. new_flavour),
      wallet_get_elements_tx_input_hash =
        (\<lambda>tx idx is_witness script value_commitment value_len. Some (replicate 32 0x11)),
      wallet_get_signer_commitment = (\<lambda>h pth c. Some (replicate 33 0x22)),
      wallet_get_blinding_factor = (\<lambda>hash_prevouts idx t. Some (replicate 32 0x33)),
      wally_asset_generator_from_bytes = (\<lambda>asset bf. Some (0x0a # asset)),
      wally_asset_value_commitment = (\<lambda>v vbf g. Some (0x08 # replicate 32 (ucast v))),
      wallet_hmac_with_master_key = (\<lambda>blob. Some (replicate 32 0x77)),
      await_outputs_event = Some SIGN_TX_ACCEPT_OUTPUTS,
      await_fee_event = Some BTN_ACCEPT_SIGNATURE,
      WARN_MSG_MIXED_INPUTS = ''Warning: mixed input types''\<rparr>"

subsection \<open>Events and traces\<close>

text \<open>
  The events of the last two phases: the final confirmation screen and the signature
  replies. A trace without them is quiet.
\<close>

fun loud :: "event \<Rightarrow> bool" where
  "loud (Display_final_confirmation fees warning_msg) = True"
| "loud (Send_ae_signature_replies all_signing_data num_inputs inbox) = True"
| "loud (Send_ec_signature_replies all_signing_data num_inputs) = True"
| "loud ev = False"

definition quiet :: "event list \<Rightarrow> bool" where
  "quiet t = list_all (\<lambda>ev. \<not> loud ev) t"

fun is_signature_reply :: "event \<Rightarrow> bool" where
  "is_signature_reply (Send_ae_signature_replies all_signing_data num_inputs inbox) = True"
| "is_signature_reply (Send_ec_signature_replies all_signing_data num_inputs) = True"
| "is_signature_reply ev = False"

text \<open>The messages a trace loads, in order.\<close>

fun loaded_messages :: "event list \<Rightarrow> message list" where
  "loaded_messages [] = []"
| "loaded_messages (Load_in_message msg # t) = msg # loaded_messages t"
| "loaded_messages (ev # t) = loaded_messages t"

fun is_reject :: "event \<Rightarrow> bool" where
  "is_reject (Reject_message code msg) = True"
| "is_reject ev = False"

subsection \<open>Fee outputs and the prevout hash\<close>

text \<open>
  An output counts towards the fee when its value starts with 0x01 and it has no script;
  the fee total adds the values that the output-info array holds for these outputs.
\<close>

definition is_fee_output :: "wally_tx_output \<Rightarrow> bool" where
  "is_fee_output txoutput = (value_prefix txoutput = Some 0x01 \<and> out_script txoutput = None)"

definition fee_total :: "wally_tx \<Rightarrow> output_info_t list \<Rightarrow> 64 word" where
  "fee_total tx output_info =
     sum_list (map (\<lambda>i. if is_fee_output (outputs tx ! i) then info_value (output_info ! i) else 0)
                 [0..<length (outputs tx)])"

text \<open>What one input contributes to the prevout hash, and the bytes hashed for a transaction.\<close>

definition prevout_bytes :: "wally_tx_input \<Rightarrow> bytes" where
  "prevout_bytes txinput = take 32 (txhash txinput) @ value_to_le (index txinput)"

definition all_prevout_bytes :: "wally_tx \<Rightarrow> bytes" where
  "all_prevout_bytes tx = concat (map prevout_bytes (inputs tx))"

text \<open>The request, the messages and the expected intermediate values of the sample session.\<close>

definition sample_request :: sign_liquid_tx_params where
  "sample_request =
     \<lparr>req_network = Some ''liquid'', req_txn = Some [0x02], req_num_inputs = Some 1,
      req_trusted_commitments = [sample_commitment, no_commitment],
      req_use_ae_signatures = None, req_change = None\<rparr>"

definition sample_message :: message where
  "sample_message =
     \<lparr>msg_method = ''tx_input'', msg_id = ''7'', p_is_witness = Some False, p_has_path = True,
      p_path = Some [0], p_ae_host_commitment = Some (replicate 32 0x44), p_script = Some [0x51],
      p_value_commitment = None\<rparr>"

definition unsigned_message :: message where
  "unsigned_message =
     \<lparr>msg_method = ''tx_input'', msg_id = ''8'', p_is_witness = Some False, p_has_path = False,
      p_path = None, p_ae_host_commitment = None, p_script = None, p_value_commitment = None\<rparr>"

definition other_message :: message where
  "other_message = sample_message\<lparr>msg_method := ''get_signature''\<rparr>"

definition sample_output_info :: "output_info_t list" where
  "sample_output_info =
     [\<lparr>is_confidential = True, info_asset_id = replicate 32 0x6f, info_value = 5,
       info_blinding_key = replicate 33 0x02\<rparr>,
      \<lparr>is_confidential = False, info_asset_id = replicate 32 0x6f, info_value = 100,
       info_blinding_key = replicate 33 0\<rparr>]"

definition sample_signing_data :: signing_data_t where
  "sample_signing_data = \<lparr>sig_id = ''7'', path = [0], signature_hash = replicate 32 0x11\<rparr>"

definition sample_prevouts :: bytes where
  "sample_prevouts = replicate 32 0xAA @ [1, 0, 0, 0]"

definition declining_env :: env where
  "declining_env = sample_env\<lparr>await_fee_event := Some (Other_event_id 0)\<rparr>"

subsection \<open>Further sessions\<close>

text \<open>
  The sample collaborators with another transaction as the result of parsing and another
  conversion of plaintext values.
\<close>

definition session_env :: "wally_tx \<Rightarrow> (bytes \<Rightarrow> 64 word option) \<Rightarrow> env" where
  "session_env tx conv =
     sample_env\<lparr>wally_tx_from_bytes := (\<lambda>b. Some tx),
                 wally_tx_confidential_value_to_satoshi := conv\<rparr>"

text \<open>
  A transaction with two blinded outputs, and trusted commitments whose value commitment
  starts with the byte 0x01. Copied over the value of a blinded output, such a value
  commitment makes the output look unblinded to the verification loop.
\<close>

definition two_blinded_tx :: wally_tx where
  "two_blinded_tx =
     \<lparr>inputs = [sample_input], outputs = [sample_blinded_output, sample_blinded_output]\<rparr>"

definition masked_commitment :: commitment_t where
  "masked_commitment = sample_commitment\<lparr>value_commitment := 0x01 # replicate 32 0x55\<rparr>"

definition masked_wrong_asset_commitment :: commitment_t where
  "masked_wrong_asset_commitment =
     sample_commitment\<lparr>asset_generator := replicate 33 0,
                        value_commitment := 0x01 # replicate 32 0x55\<rparr>"

definition masked_output :: wally_tx_output where
  "masked_output = sample_blinded_output\<lparr>out_value := 0x01 # replicate 32 0x55\<rparr>"

definition masked_wrong_asset_output :: wally_tx_output where
  "masked_wrong_asset_output =
     sample_blinded_output\<lparr>out_asset := replicate 33 0, out_value := 0x01 # replicate 32 0x55\<rparr>"

definition blinded_info :: output_info_t where
  "blinded_info =
     \<lparr>is_confidential = True, info_asset_id = replicate 32 0x6f, info_value = 5,
      info_blinding_key = replicate 33 0x02\<rparr>"

definition two_odd_request :: sign_liquid_tx_params where
  "two_odd_request =
     sample_request\<lparr>req_trusted_commitments := [masked_commitment, masked_commitment]\<rparr>"

definition wrong_asset_request :: sign_liquid_tx_params where
  "wrong_asset_request =
     sample_request\<lparr>req_trusted_commitments := [sample_commitment, masked_wrong_asset_commitment]\<rparr>"

text \<open>
  A transaction with two fee outputs whose values add up to more than a 64-bit word holds.
  The conversion is the one of the wally library: a nine-byte value with the prefix 0x01
  holds the amount in its last eight bytes, most significant first.
\<close>

definition be64_satoshi :: "bytes \<Rightarrow> 64 word option" where
  "be64_satoshi v =
     (if length v = 9 \<and> hd v = 0x01
      then Some (foldl (\<lambda>acc b. acc * 256 + ucast b) 0 (tl v)) else None)"

definition max_fee_output :: wally_tx_output where
  "max_fee_output =
     \<lparr>out_asset = 0x01 # replicate 32 0x6f,
      out_value = [0x01, 0xFF, 0xFF, 0xFF, 0xFF, 0xFF, 0xFF, 0xFF, 0xFF], out_script = None\<rparr>"

definition small_fee_output :: wally_tx_output where
  "small_fee_output =
     \<lparr>out_asset = 0x01 # replicate 32 0x6f, out_value = [0x01, 0, 0, 0, 0, 0, 0, 0, 2],
      out_script = None\<rparr>"

definition overflow_tx :: wally_tx where
  "overflow_tx = \<lparr>inputs = [sample_input], outputs = [max_fee_output, small_fee_output]\<rparr>"

definition overflow_request :: sign_liquid_tx_params where
  "overflow_request = sample_request\<lparr>req_trusted_commitments := [no_commitment, no_commitment]\<rparr>"

definition overflow_info :: "output_info_t list" where
  "overflow_info =
     [\<lparr>is_confidential = False, info_asset_id = replicate 32 0x6f,
       info_value = 0xFFFFFFFFFFFFFFFF, info_blinding_key = replicate 33 0\<rparr>,
      \<lparr>is_confidential = False, info_asset_id = replicate 32 0x6f, info_value = 2,
       info_blinding_key = replicate 33 0\<rparr>]"

definition masking_env :: env where
  "masking_env = session_env two_blinded_tx be64_satoshi"

definition overflow_env :: env where
  "overflow_env = session_env overflow_tx be64_satoshi"

section \<open>Properties of the network policy table\<close>



















section \<open>Properties of the keychain's network-type restriction\<close>

lemma isTestNetwork_valid:
  "isValidNetwork t network \<Longrightarrow> isTestNetwork t network = Returns (network_type_of t network = NETWORK_TYPE_TEST)"
  by (simp add: isTestNetwork_def network_type_of_def)

lemma consistent_iff:
  "isValidNetwork t network \<Longrightarrow>
     keychain_is_network_type_consistent t kc network
       = Returns (network_type_restriction kc = NETWORK_TYPE_NONE
                  \<or> network_type_restriction kc = network_type_of t network)"
  by (auto simp: keychain_is_network_type_consistent_def isTestNetwork_def network_type_of_def)

lemma consistent_invalid:
  "\<not> isValidNetwork t network \<Longrightarrow> keychain_is_network_type_consistent t kc network = Assert_failed"
  by (simp add: keychain_is_network_type_consistent_def)

lemma network_type_of_not_none: "network_type_of t network \<noteq> NETWORK_TYPE_NONE"
  by (simp add: network_type_of_def)

lemma network_type_of_if:
  "(if network_type_of t network = NETWORK_TYPE_TEST then NETWORK_TYPE_TEST else NETWORK_TYPE_MAIN)
     = network_type_of t network"
  by (simp add: network_type_of_def)

lemma set_restriction_valid:
  "keychain_set_network_type_restriction t kc network = Returns kc1 \<Longrightarrow> isValidNetwork t network"
  by (cases "isValidNetwork t network")
     (simp_all add: keychain_set_network_type_restriction_def consistent_invalid)

lemma set_restriction_result:
  assumes "keychain_set_network_type_restriction t kc network = Returns kc1"
  shows "network_type_restriction kc1 =
           (if network_type_restriction kc = NETWORK_TYPE_NONE \<and> keychain_data kc
            then network_type_of t network else network_type_restriction kc)"
    and "keychain_data kc1 = keychain_data kc"
    and "network_type_restriction kc \<noteq> NETWORK_TYPE_NONE \<Longrightarrow>
           network_type_restriction kc = network_type_of t network"
proof -
  have v: "isValidNetwork t network" using assms by (rule set_restriction_valid)
  show "network_type_restriction kc1 =
           (if network_type_restriction kc = NETWORK_TYPE_NONE \<and> keychain_data kc
            then network_type_of t network else network_type_restriction kc)"
    using assms
    by (auto simp: keychain_set_network_type_restriction_def consistent_iff [OF v]
          isTestNetwork_valid [OF v] network_type_of_if Let_def
          split: if_splits outcome.splits)
  show "keychain_data kc1 = keychain_data kc"
    using assms
    by (auto simp: keychain_set_network_type_restriction_def consistent_iff [OF v]
          isTestNetwork_valid [OF v] Let_def
          split: if_splits outcome.splits)
  show "network_type_restriction kc \<noteq> NETWORK_TYPE_NONE \<Longrightarrow>
           network_type_restriction kc = network_type_of t network"
    using assms
    by (auto simp: keychain_set_network_type_restriction_def consistent_iff [OF v]
          split: if_splits)
qed

lemma set_restrictions_pinned:
  "set_restrictions t kc ns = Returns kc' \<Longrightarrow> network_type_restriction kc \<noteq> NETWORK_TYPE_NONE \<Longrightarrow>
     network_type_restriction kc' = network_type_restriction kc"
proof (induction ns arbitrary: kc)
  case Nil
  then show ?case by simp
next
  case (Cons n ns)
  from Cons.prems(1) obtain kc1 where
    s1: "keychain_set_network_type_restriction t kc n = Returns kc1"
    and s2: "set_restrictions t kc1 ns = Returns kc'"
    by (auto split: outcome.splits)
  have "network_type_restriction kc1 = network_type_restriction kc"
    using set_restriction_result(1) [OF s1] Cons.prems(2) by simp
  with Cons.IH [OF s2] Cons.prems(2) show ?case by simp
qed

text \<open>
  C10: \<^verbatim>\<open>keychain_set_network_type_restriction\<close> changes the restriction only when it
  is NONE, and then to the TEST or MAIN classification of the passed network; a
  restriction other than NONE is never overwritten, also not by any later run of such
  calls; \<^verbatim>\<open>keychain_is_network_type_consistent\<close> holds exactly when the restriction
  is NONE or equals the classification of the passed network. So once the restriction is
  pinned, a request for a network of the other type is inconsistent.
\<close>

theorem network_type_restriction_monotone:
  assumes "keychain_set_network_type_restriction t kc network = Returns kc1"
    and "set_restrictions t kc1 later = Returns kc2"
  shows
    "(network_type_restriction kc1 \<noteq> network_type_restriction kc \<longrightarrow>
        network_type_restriction kc = NETWORK_TYPE_NONE
        \<and> network_type_restriction kc1 = network_type_of t network
        \<and> network_type_restriction kc1 \<in> {NETWORK_TYPE_TEST, NETWORK_TYPE_MAIN})
     \<and> (network_type_restriction kc \<noteq> NETWORK_TYPE_NONE \<longrightarrow>
          network_type_restriction kc1 = network_type_restriction kc)
     \<and> (isValidNetwork t n \<longrightarrow>
          keychain_is_network_type_consistent t k n
            = Returns (network_type_restriction k = NETWORK_TYPE_NONE
                       \<or> network_type_restriction k = network_type_of t n))
     \<and> (network_type_restriction kc1 \<noteq> NETWORK_TYPE_NONE \<longrightarrow>
          network_type_restriction kc2 = network_type_restriction kc1
          \<and> (isValidNetwork t n \<and> network_type_of t n \<noteq> network_type_restriction kc1 \<longrightarrow>
               keychain_is_network_type_consistent t kc2 n = Returns False))
     \<and> (keychain_data kc \<longrightarrow> network_type_restriction kc1 = network_type_of t network)"
proof -
  note r = set_restriction_result [OF assms(1)]
  have a: "network_type_restriction kc1 \<noteq> network_type_restriction kc \<longrightarrow>
        network_type_restriction kc = NETWORK_TYPE_NONE
        \<and> network_type_restriction kc1 = network_type_of t network
        \<and> network_type_restriction kc1 \<in> {NETWORK_TYPE_TEST, NETWORK_TYPE_MAIN}"
    using r(1) network_type_of_if [of t network] by (auto split: if_splits)
  have b: "network_type_restriction kc \<noteq> NETWORK_TYPE_NONE \<longrightarrow>
          network_type_restriction kc1 = network_type_restriction kc"
    using r(1) by simp
  have c: "isValidNetwork t n \<longrightarrow>
          keychain_is_network_type_consistent t k n
            = Returns (network_type_restriction k = NETWORK_TYPE_NONE
                       \<or> network_type_restriction k = network_type_of t n)"
    by (simp add: consistent_iff)
  have d: "network_type_restriction kc1 \<noteq> NETWORK_TYPE_NONE \<longrightarrow>
          network_type_restriction kc2 = network_type_restriction kc1
          \<and> (isValidNetwork t n \<and> network_type_of t n \<noteq> network_type_restriction kc1 \<longrightarrow>
               keychain_is_network_type_consistent t kc2 n = Returns False)"
  proof (intro impI conjI)
    assume p: "network_type_restriction kc1 \<noteq> NETWORK_TYPE_NONE"
    show e: "network_type_restriction kc2 = network_type_restriction kc1"
      using set_restrictions_pinned [OF assms(2) p] .
    assume "isValidNetwork t n \<and> network_type_of t n \<noteq> network_type_restriction kc1"
    then show "keychain_is_network_type_consistent t kc2 n = Returns False"
      using p e by (auto simp: consistent_iff)
  qed
  have f: "keychain_data kc \<longrightarrow> network_type_restriction kc1 = network_type_of t network"
    using r(1) r(3) by (auto split: if_splits)
  from a b c d f show ?thesis by blast
qed

lemma sample_valid:
  "isValidNetwork sample_tags (Some ''testnet'')" "isValidNetwork sample_tags (Some ''mainnet'')"
  "isValidNetwork sample_tags (Some ''liquid'')"
  by (simp_all add: isValidNetwork_def streq_def sample_tags_def)

lemma sample_types:
  "network_type_of sample_tags (Some ''testnet'') = NETWORK_TYPE_TEST"
  "network_type_of sample_tags (Some ''mainnet'') = NETWORK_TYPE_MAIN"
  "network_type_of sample_tags (Some ''liquid'') = NETWORK_TYPE_MAIN"
  by (simp_all add: network_type_of_def isTestNetwork_def isValidNetwork_def streq_def sample_tags_def)

lemma sample_set_testnet:
  "keychain_set_network_type_restriction sample_tags sample_keychain (Some ''testnet'')
     = Returns (sample_keychain\<lparr>network_type_restriction := NETWORK_TYPE_TEST,
                                storage_network_type_restriction := NETWORK_TYPE_TEST\<rparr>)"
  by (simp add: keychain_set_network_type_restriction_def consistent_iff sample_valid sample_types
        isTestNetwork_valid keychain_has_pin_def keychain_has_temporary_def sample_keychain_def)

lemma sample_set_again:
  "set_restrictions sample_tags
     (sample_keychain\<lparr>network_type_restriction := NETWORK_TYPE_TEST,
                      storage_network_type_restriction := NETWORK_TYPE_TEST\<rparr>) [Some ''testnet'']
   = Returns (sample_keychain\<lparr>network_type_restriction := NETWORK_TYPE_TEST,
                                storage_network_type_restriction := NETWORK_TYPE_TEST\<rparr>)"
  by (simp add: keychain_set_network_type_restriction_def consistent_iff sample_valid sample_types
        sample_keychain_def)

lemma sample_set_pinned:
  "keychain_set_network_type_restriction sample_tags
     (sample_keychain\<lparr>network_type_restriction := NETWORK_TYPE_TEST,
                      storage_network_type_restriction := NETWORK_TYPE_TEST\<rparr>) (Some ''testnet'')
   = Returns (sample_keychain\<lparr>network_type_restriction := NETWORK_TYPE_TEST,
                                storage_network_type_restriction := NETWORK_TYPE_TEST\<rparr>)"
  by (simp add: keychain_set_network_type_restriction_def consistent_iff sample_valid sample_types
        sample_keychain_def)

theorem network_type_restriction_monotone_witness:
  "keychain_set_network_type_restriction sample_tags sample_keychain (Some ''testnet'')
     = Returns (sample_keychain\<lparr>network_type_restriction := NETWORK_TYPE_TEST,
                                storage_network_type_restriction := NETWORK_TYPE_TEST\<rparr>)
   \<and> keychain_set_network_type_restriction sample_tags
        (sample_keychain\<lparr>network_type_restriction := NETWORK_TYPE_TEST,
                         storage_network_type_restriction := NETWORK_TYPE_TEST\<rparr>) (Some ''testnet'')
       = Returns (sample_keychain\<lparr>network_type_restriction := NETWORK_TYPE_TEST,
                                   storage_network_type_restriction := NETWORK_TYPE_TEST\<rparr>)
   \<and> isValidNetwork sample_tags (Some ''mainnet'')
   \<and> keychain_is_network_type_consistent sample_tags
        (sample_keychain\<lparr>network_type_restriction := NETWORK_TYPE_TEST,
                         storage_network_type_restriction := NETWORK_TYPE_TEST\<rparr>) (Some ''mainnet'')
       = Returns False"
  using network_type_restriction_monotone [OF sample_set_testnet sample_set_again,
          of "Some ''mainnet''" sample_keychain]
    network_type_restriction_monotone [OF sample_set_pinned sample_set_again,
          of "Some ''mainnet''" sample_keychain]
    sample_set_testnet sample_set_pinned
  by (simp add: sample_valid sample_types sample_keychain_def)

section \<open>Properties of the commitment verifier\<close>

lemma then_step_Continue:
  "then_step s g = (t, Continue b) \<longleftrightarrow>
     (\<exists>t1 a t2. s = (t1, Continue a) \<and> g a = (t2, Continue b) \<and> t = t1 @ t2)"
proof (cases s)
  case (Pair t1 r)
  then show ?thesis
    by (cases r; cases "g (case r of Continue a \<Rightarrow> a)") (auto split: prod.splits)
qed

lemma check_trusted_commitment_valid_eq:
  assumes "is_blinded txoutput" and "0 \<le> idx"
  shows "check_trusted_commitment_valid e hp SHA256_LEN idx txoutput c found =
     Returns
       (if \<not> asset_generator_ok e hp idx txoutput c then
          (False, found, Some ''Failed to verify asset_generator from commitments data'')
        else if recomputed_value_commitment e hp idx c = None
                \<or> (odd_vbf e hp idx txoutput c \<and> found) then
          (False, found, Some ''Failed to verify value_commitment from commitments data'')
        else if \<not> hmac_ok e c then
          (False, found \<or> odd_vbf e hp idx txoutput c,
           Some ''Failed to verify hmac from commitments data'')
        else (True, found \<or> odd_vbf e hp idx txoutput c, None))"
  using assms
  by (auto simp: check_trusted_commitment_valid_def is_blinded_def asset_generator_ok_def
        recomputed_generator_def recomputed_value_commitment_def odd_vbf_def hmac_ok_def
        sodium_memcmp_def Let_def
      split: option.splits)

lemma verify_body_eq:
  assumes "i < length (outputs tx)" "i < length cs" "value_prefix (outputs tx ! i) \<noteq> None"
  shows "verify_body e hp tx cs i found =
     (if \<not> is_blinded (outputs tx ! i) then ([], Continue found)
      else if \<not> asset_generator_ok e hp (int i) (outputs tx ! i) (cs ! i) then
        ([Reject_message CBOR_RPC_BAD_PARAMETERS
            (Some ''Failed to verify asset_generator from commitments data'')], Cleanup)
      else if recomputed_value_commitment e hp (int i) (cs ! i) = None
              \<or> (odd_at e hp tx cs i \<and> found) then
        ([Reject_message CBOR_RPC_BAD_PARAMETERS
            (Some ''Failed to verify value_commitment from commitments data'')], Cleanup)
      else if \<not> hmac_ok e (cs ! i) then
        ([Reject_message CBOR_RPC_BAD_PARAMETERS
            (Some ''Failed to verify hmac from commitments data'')], Cleanup)
      else ([], Continue (found \<or> odd_at e hp tx cs i)))"
proof (cases "is_blinded (outputs tx ! i)")
  case True
  show ?thesis
    using assms True
    by (simp add: verify_body_def check_trusted_commitment_valid_eq [OF True] odd_at_def
          is_blinded_def split: option.splits)
next
  case False
  then show ?thesis
    using assms by (auto simp: verify_body_def is_blinded_def split: option.splits)
qed

lemma verify_loop_Continue:
  assumes "for_loop js (verify_body e hp tx cs) found = (t, Continue f)"
    and "\<forall>j\<in>set js. j < length (outputs tx) \<and> j < length cs \<and> value_prefix (outputs tx ! j) \<noteq> None"
  shows "t = [] \<and> f = (found \<or> filter (odd_at e hp tx cs) js \<noteq> [])
         \<and> length (filter (odd_at e hp tx cs) js) + (if found then 1 else 0) \<le> 1"
  using assms
proof (induction js arbitrary: found t f)
  case Nil
  then show ?case by simp
next
  case (Cons j js)
  from Cons.prems(1) obtain t1 f1 t2 where
    b: "verify_body e hp tx cs j found = (t1, Continue f1)"
    and l: "for_loop js (verify_body e hp tx cs) f1 = (t2, Continue f)"
    and t: "t = t1 @ t2"
    by (auto simp: then_step_Continue)
  have r: "j < length (outputs tx)" "j < length cs" "value_prefix (outputs tx ! j) \<noteq> None"
    using Cons.prems(2) by auto
  have b': "t1 = [] \<and> f1 = (found \<or> odd_at e hp tx cs j) \<and> \<not> (odd_at e hp tx cs j \<and> found)"
    using b unfolding verify_body_eq [OF r]
    by (auto simp: odd_at_def split: if_splits)
  have ih: "t2 = [] \<and> f = (f1 \<or> filter (odd_at e hp tx cs) js \<noteq> [])
         \<and> length (filter (odd_at e hp tx cs) js) + (if f1 then 1 else 0) \<le> 1"
    using Cons.IH [OF l] Cons.prems(2) by simp
  show ?case using b' ih t by (auto split: if_splits)
qed

lemma verify_loop_outcome:
  assumes "\<forall>j\<in>set js. j < length (outputs tx) \<and> j < length cs \<and> value_prefix (outputs tx ! j) \<noteq> None"
  shows "(\<exists>f. for_loop js (verify_body e hp tx cs) found = ([], Continue f))
         \<or> (\<exists>m. for_loop js (verify_body e hp tx cs) found
                  = ([Reject_message CBOR_RPC_BAD_PARAMETERS (Some m)], Cleanup))"
  using assms
proof (induction js arbitrary: found)
  case Nil
  then show ?case by simp
next
  case (Cons j js)
  have r: "j < length (outputs tx)" "j < length cs" "value_prefix (outputs tx ! j) \<noteq> None"
    using Cons.prems by auto
  have ih: "\<And>f. (\<exists>f'. for_loop js (verify_body e hp tx cs) f = ([], Continue f'))
         \<or> (\<exists>m. for_loop js (verify_body e hp tx cs) f
                  = ([Reject_message CBOR_RPC_BAD_PARAMETERS (Some m)], Cleanup))"
    using Cons.IH Cons.prems by simp
  show ?case
    using ih [of found] ih [of "found \<or> odd_at e hp tx cs j"]
    by (auto simp: verify_body_eq [OF r])
qed

lemma verify_loop_pass:
  assumes "\<forall>j\<in>set js. j < length (outputs tx) \<and> j < length cs \<and> value_prefix (outputs tx ! j) \<noteq> None
                        \<and> other_checks_pass_at e hp tx cs j"
    and "length (filter (odd_at e hp tx cs) js) + (if found then 1 else 0) \<le> 1"
  shows "for_loop js (verify_body e hp tx cs) found
           = ([], Continue (found \<or> filter (odd_at e hp tx cs) js \<noteq> []))"
  using assms
proof (induction js arbitrary: found)
  case Nil
  then show ?case by simp
next
  case (Cons j js)
  have r: "j < length (outputs tx)" "j < length cs" "value_prefix (outputs tx ! j) \<noteq> None"
    using Cons.prems(1) by auto
  have o: "other_checks_pass_at e hp tx cs j" using Cons.prems(1) by simp
  have n: "\<not> (odd_at e hp tx cs j \<and> found)" using Cons.prems(2) by (auto split: if_splits)
  have b: "verify_body e hp tx cs j found = ([], Continue (found \<or> odd_at e hp tx cs j))"
    using o n unfolding verify_body_eq [OF r] other_checks_pass_at_def
    by (auto simp: odd_at_def)
  have c: "length (filter (odd_at e hp tx cs) js) + (if found \<or> odd_at e hp tx cs j then 1 else 0) \<le> 1"
    using Cons.prems(2) by (auto split: if_splits)
  have "for_loop js (verify_body e hp tx cs) (found \<or> odd_at e hp tx cs j)
           = ([], Continue ((found \<or> odd_at e hp tx cs j) \<or> filter (odd_at e hp tx cs) js \<noteq> []))"
    using Cons.IH [OF _ c] Cons.prems(1) by simp
  then show ?case using b by auto
qed

lemma sample_checks:
  "is_blinded sample_blinded_output" "is_blinded odd_output"
  "\<not> is_blinded sample_fee_output"
  "value_prefix sample_blinded_output = Some 0x08" "value_prefix odd_output = Some 0x08"
  "value_prefix sample_fee_output = Some 0x01"
  by (simp_all add: is_blinded_def value_prefix_def sample_blinded_output_def odd_output_def
        sample_fee_output_def)

lemma sample_recomputed:
  "recomputed_generator sample_env hp idx sample_commitment = Some (0x0a # replicate 32 0x6f)"
  "recomputed_generator sample_env hp idx odd_commitment = Some (0x0a # replicate 32 0x6f)"
  "recomputed_value_commitment sample_env hp idx sample_commitment = Some (0x08 # replicate 32 5)"
  "recomputed_value_commitment sample_env hp idx odd_commitment = Some (0x08 # replicate 32 5)"
  by (simp_all add: recomputed_generator_def recomputed_value_commitment_def sample_env_def
        sample_commitment_def odd_commitment_def ASSET_TAG_LEN_def)

lemma sample_asset_ok:
  "asset_generator_ok sample_env hp idx sample_blinded_output sample_commitment"
  "asset_generator_ok sample_env hp idx odd_output odd_commitment"
  by (simp_all add: asset_generator_ok_def sample_recomputed)
     (simp_all add: sample_commitment_def odd_commitment_def sample_blinded_output_def odd_output_def)

lemma sample_odd:
  "\<not> odd_vbf sample_env hp idx sample_blinded_output sample_commitment"
  "odd_vbf sample_env hp idx odd_output odd_commitment"
  by (simp_all add: odd_vbf_def sample_recomputed)
     (simp_all add: sample_commitment_def odd_commitment_def sample_blinded_output_def odd_output_def
        ASSET_COMMITMENT_LEN_def)

lemma sample_hmac_ok:
  "hmac_ok sample_env sample_commitment" "hmac_ok sample_env odd_commitment"
  by (simp_all add: hmac_ok_def sample_env_def sample_commitment_def odd_commitment_def)

lemma verifiable_in_range:
  "verifiable tx cs \<Longrightarrow>
     \<forall>j\<in>set [0..<length (outputs tx)].
        j < length (outputs tx) \<and> j < length cs \<and> value_prefix (outputs tx ! j) \<noteq> None"
  by (simp add: verifiable_def list_all_length)

text \<open>
  The verification loop, on the transaction and the commitments it is handed. On an
  output whose recomputed value commitment differs (and whose asset generator is right),
  \<^verbatim>\<open>check_trusted_commitment_valid\<close> does not fail on the difference when
  \<open>found_odd_vbf\<close> is still false, and sets the flag; it fails when the flag is already
  set. With two or more such outputs among those the loop does not skip, the loop
  rejects with bad-parameters; with none or one, and no other check failing, it passes.
  Which outputs the loop skips is decided by the first byte of their value at that time.
\<close>

theorem at_most_one_odd_value_commitment:
  assumes "verifiable tx cs"
  shows
    "(\<forall>i<length (outputs tx).
        odd_at e hp tx cs i \<and> asset_generator_ok e hp (int i) (outputs tx ! i) (cs ! i) \<longrightarrow>
          check_trusted_commitment_valid e hp SHA256_LEN (int i) (outputs tx ! i) (cs ! i) False
            = Returns (hmac_ok e (cs ! i), True,
                       if hmac_ok e (cs ! i) then None
                       else Some ''Failed to verify hmac from commitments data'')
          \<and> check_trusted_commitment_valid e hp SHA256_LEN (int i) (outputs tx ! i) (cs ! i) True
            = Returns (False, True,
                       Some ''Failed to verify value_commitment from commitments data''))
     \<and> (2 \<le> length (odd_outputs e hp tx cs) \<longrightarrow>
          (\<exists>m. verify_commitments e hp tx cs
                 = ([Reject_message CBOR_RPC_BAD_PARAMETERS (Some m)], Cleanup)))
     \<and> (length (odd_outputs e hp tx cs) \<le> 1 \<and> other_checks_pass e hp tx cs \<longrightarrow>
          verify_commitments e hp tx cs = ([], Continue (length (odd_outputs e hp tx cs) = 1)))"
proof (intro conjI allI impI)
  fix i
  assume "i < length (outputs tx)"
    and h: "odd_at e hp tx cs i \<and> asset_generator_ok e hp (int i) (outputs tx ! i) (cs ! i)"
  then have b: "is_blinded (outputs tx ! i)"
    and o: "odd_vbf e hp (int i) (outputs tx ! i) (cs ! i)"
    and r: "recomputed_value_commitment e hp (int i) (cs ! i) \<noteq> None"
    by (auto simp: odd_at_def odd_vbf_def split: option.splits)
  show "check_trusted_commitment_valid e hp SHA256_LEN (int i) (outputs tx ! i) (cs ! i) False
            = Returns (hmac_ok e (cs ! i), True,
                       if hmac_ok e (cs ! i) then None
                       else Some ''Failed to verify hmac from commitments data'')"
    using h o r by (simp add: check_trusted_commitment_valid_eq [OF b])
  show "check_trusted_commitment_valid e hp SHA256_LEN (int i) (outputs tx ! i) (cs ! i) True
            = Returns (False, True,
                       Some ''Failed to verify value_commitment from commitments data'')"
    using h o r by (simp add: check_trusted_commitment_valid_eq [OF b])
next
  assume two: "2 \<le> length (odd_outputs e hp tx cs)"
  note rng = verifiable_in_range [OF assms]
  have "\<not> (\<exists>f. verify_commitments e hp tx cs = ([], Continue f))"
  proof
    assume "\<exists>f. verify_commitments e hp tx cs = ([], Continue f)"
    then obtain f where
      "for_loop [0..<length (outputs tx)] (verify_body e hp tx cs) False = ([], Continue f)"
      by (auto simp: verify_commitments_def)
    from verify_loop_Continue [OF this rng] two show False
      by (simp add: odd_outputs_def)
  qed
  with verify_loop_outcome [OF rng, of e hp False]
  show "\<exists>m. verify_commitments e hp tx cs
                 = ([Reject_message CBOR_RPC_BAD_PARAMETERS (Some m)], Cleanup)"
    by (auto simp: verify_commitments_def)
next
  assume h: "length (odd_outputs e hp tx cs) \<le> 1 \<and> other_checks_pass e hp tx cs"
  note rng = verifiable_in_range [OF assms]
  have a: "\<forall>j\<in>set [0..<length (outputs tx)].
             j < length (outputs tx) \<and> j < length cs \<and> value_prefix (outputs tx ! j) \<noteq> None
             \<and> other_checks_pass_at e hp tx cs j"
    using rng h by (simp add: other_checks_pass_def list_all_iff)
  have c: "length (filter (odd_at e hp tx cs) [0..<length (outputs tx)]) + (if False then 1 else 0) \<le> 1"
    using h by (simp add: odd_outputs_def)
  have e: "(filter (odd_at e hp tx cs) [0..<length (outputs tx)] \<noteq> [])
             = (length (odd_outputs e hp tx cs) = 1)"
    using h by (cases "odd_outputs e hp tx cs") (auto simp: odd_outputs_def)
  show "verify_commitments e hp tx cs = ([], Continue (length (odd_outputs e hp tx cs) = 1))"
    using verify_loop_pass [OF a c] e by (simp add: verify_commitments_def)
qed

lemma sample_odd_at:
  "odd_at sample_env hp \<lparr>inputs = [], outputs = [odd_output, odd_output]\<rparr>
     [odd_commitment, odd_commitment] 0"
  "odd_at sample_env hp \<lparr>inputs = [], outputs = [odd_output, odd_output]\<rparr>
     [odd_commitment, odd_commitment] (Suc 0)"
  "odd_at sample_env hp \<lparr>inputs = [], outputs = [odd_output, sample_blinded_output]\<rparr>
     [odd_commitment, sample_commitment] 0"
  "\<not> odd_at sample_env hp \<lparr>inputs = [], outputs = [odd_output, sample_blinded_output]\<rparr>
     [odd_commitment, sample_commitment] (Suc 0)"
  by (simp_all add: odd_at_def sample_checks sample_odd)

lemma upt_2: "[0..<2] = [0, Suc 0]"
  by (simp add: upt_rec)

theorem at_most_one_odd_value_commitment_witness:
  "verifiable \<lparr>inputs = [], outputs = [odd_output, odd_output]\<rparr> [odd_commitment, odd_commitment]
   \<and> length (odd_outputs sample_env [1] \<lparr>inputs = [], outputs = [odd_output, odd_output]\<rparr>
               [odd_commitment, odd_commitment]) = 2
   \<and> (\<exists>m. verify_commitments sample_env [1] \<lparr>inputs = [], outputs = [odd_output, odd_output]\<rparr>
             [odd_commitment, odd_commitment]
           = ([Reject_message CBOR_RPC_BAD_PARAMETERS (Some m)], Cleanup))
   \<and> verifiable \<lparr>inputs = [], outputs = [odd_output, sample_blinded_output]\<rparr>
        [odd_commitment, sample_commitment]
   \<and> length (odd_outputs sample_env [1] \<lparr>inputs = [], outputs = [odd_output, sample_blinded_output]\<rparr>
               [odd_commitment, sample_commitment]) = 1
   \<and> other_checks_pass sample_env [1] \<lparr>inputs = [], outputs = [odd_output, sample_blinded_output]\<rparr>
        [odd_commitment, sample_commitment]
   \<and> verify_commitments sample_env [1] \<lparr>inputs = [], outputs = [odd_output, sample_blinded_output]\<rparr>
        [odd_commitment, sample_commitment] = ([], Continue True)
   \<and> check_trusted_commitment_valid sample_env [1] SHA256_LEN 0 odd_output odd_commitment False
        = Returns (True, True, None)
   \<and> check_trusted_commitment_valid sample_env [1] SHA256_LEN 0 odd_output odd_commitment True
        = Returns (False, True, Some ''Failed to verify value_commitment from commitments data'')"
proof -
  have v2: "verifiable \<lparr>inputs = [], outputs = [odd_output, odd_output]\<rparr> [odd_commitment, odd_commitment]"
    by (simp add: verifiable_def sample_checks)
  have v1: "verifiable \<lparr>inputs = [], outputs = [odd_output, sample_blinded_output]\<rparr>
              [odd_commitment, sample_commitment]"
    by (simp add: verifiable_def sample_checks)
  have n2: "length (odd_outputs sample_env [1] \<lparr>inputs = [], outputs = [odd_output, odd_output]\<rparr>
               [odd_commitment, odd_commitment]) = 2"
    by (simp add: odd_outputs_def upt_2 sample_odd_at)
  have n1: "length (odd_outputs sample_env [1] \<lparr>inputs = [], outputs = [odd_output, sample_blinded_output]\<rparr>
               [odd_commitment, sample_commitment]) = 1"
    by (simp add: odd_outputs_def upt_2 sample_odd_at)
  have p1: "other_checks_pass sample_env [1] \<lparr>inputs = [], outputs = [odd_output, sample_blinded_output]\<rparr>
        [odd_commitment, sample_commitment]"
    by (simp add: other_checks_pass_def other_checks_pass_at_def upt_2 sample_asset_ok
          sample_recomputed sample_hmac_ok)
  have a2: "asset_generator_ok sample_env [1] (int 0)
              (outputs \<lparr>inputs = [], outputs = [odd_output, odd_output]\<rparr> ! 0)
              ([odd_commitment, odd_commitment] ! 0)"
    by (simp add: sample_asset_ok)
  note t2 = at_most_one_odd_value_commitment [OF v2, of sample_env "[1]"]
  note t1 = at_most_one_odd_value_commitment [OF v1, of sample_env "[1]"]
  have c: "check_trusted_commitment_valid sample_env [1] SHA256_LEN 0 odd_output odd_commitment False
        = Returns (True, True, None)
   \<and> check_trusted_commitment_valid sample_env [1] SHA256_LEN 0 odd_output odd_commitment True
        = Returns (False, True, Some ''Failed to verify value_commitment from commitments data'')"
    using t2 [THEN conjunct1, rule_format, of 0] a2 sample_odd_at(1) [of "[1]"] sample_hmac_ok
    by simp
  have r: "\<exists>m. verify_commitments sample_env [1] \<lparr>inputs = [], outputs = [odd_output, odd_output]\<rparr>
             [odd_commitment, odd_commitment]
           = ([Reject_message CBOR_RPC_BAD_PARAMETERS (Some m)], Cleanup)"
    using t2 [THEN conjunct2, THEN conjunct1] n2 by simp
  have p: "verify_commitments sample_env [1] \<lparr>inputs = [], outputs = [odd_output, sample_blinded_output]\<rparr>
        [odd_commitment, sample_commitment] = ([], Continue True)"
    using t1 [THEN conjunct2, THEN conjunct2] n1 p1 by simp
  from v1 v2 n1 n2 p1 c r p show ?thesis by simp
qed

lemma replicate_33: "replicate 33 x = x # replicate 32 x"
proof -
  have "(33::nat) = Suc 32" by simp
  then show ?thesis by (simp only: replicate_Suc)
qed

text \<open>
  The check of one output that the loop does not skip: if the recomputed asset generator
  differs in its 33 bytes from the generator stored in the trusted commitment or from
  the asset bytes of the transaction output, \<^verbatim>\<open>check_trusted_commitment_valid\<close>
  returns false whatever the value of \<open>found_odd_vbf\<close>, and the loop rejects with
  bad-parameters.
\<close>

theorem asset_generator_mismatch_rejects:
  assumes "i < length (outputs tx)" and "i < length cs" and "is_blinded (outputs tx ! i)"
    and "recomputed_generator e hp (int i) (cs ! i) = Some g"
    and "take 33 (asset_generator (cs ! i)) \<noteq> take 33 g
         \<or> take 33 (out_asset (outputs tx ! i)) \<noteq> take 33 g"
  shows "check_trusted_commitment_valid e hp SHA256_LEN (int i) (outputs tx ! i) (cs ! i) found_odd_vbf
           = Returns (False, found_odd_vbf,
                      Some ''Failed to verify asset_generator from commitments data'')
         \<and> verify_body e hp tx cs i found_odd_vbf
           = ([Reject_message CBOR_RPC_BAD_PARAMETERS
                 (Some ''Failed to verify asset_generator from commitments data'')], Cleanup)"
proof -
  have n: "\<not> asset_generator_ok e hp (int i) (outputs tx ! i) (cs ! i)"
    using assms(4,5) by (auto simp: asset_generator_ok_def ASSET_GENERATOR_LEN_def)
  have v: "value_prefix (outputs tx ! i) \<noteq> None"
    using assms(3) by (auto simp: is_blinded_def split: option.splits)
  show ?thesis
    using n assms(3)
    by (simp add: check_trusted_commitment_valid_eq [OF assms(3)]
          verify_body_eq [OF assms(1,2) v])
qed

theorem asset_generator_mismatch_rejects_witness:
  "is_blinded sample_blinded_output
   \<and> recomputed_generator sample_env [1] 0 (sample_commitment\<lparr>asset_generator := replicate 33 0\<rparr>)
       = Some (0x0a # replicate 32 0x6f)
   \<and> take 33 (asset_generator (sample_commitment\<lparr>asset_generator := replicate 33 0\<rparr>))
       \<noteq> take 33 (0x0a # replicate 32 0x6f)
   \<and> check_trusted_commitment_valid sample_env [1] SHA256_LEN 0 sample_blinded_output
        (sample_commitment\<lparr>asset_generator := replicate 33 0\<rparr>) False
       = Returns (False, False, Some ''Failed to verify asset_generator from commitments data'')
   \<and> check_trusted_commitment_valid sample_env [1] SHA256_LEN 0 sample_blinded_output
        (sample_commitment\<lparr>asset_generator := replicate 33 0\<rparr>) True
       = Returns (False, True, Some ''Failed to verify asset_generator from commitments data'')"
proof -
  let ?c = "sample_commitment\<lparr>asset_generator := replicate 33 0\<rparr>"
  let ?tx = "\<lparr>inputs = [], outputs = [sample_blinded_output]\<rparr>"
  have g: "recomputed_generator sample_env [1] (int 0) ([?c] ! 0) = Some (0x0a # replicate 32 0x6f)"
    by (simp add: recomputed_generator_def sample_env_def sample_commitment_def ASSET_TAG_LEN_def)
  have d: "take 33 (asset_generator ([?c] ! 0)) \<noteq> take 33 (0x0a # replicate 32 0x6f)
           \<or> take 33 (out_asset (outputs ?tx ! 0)) \<noteq> take 33 (0x0a # replicate 32 0x6f)"
    by (simp add: replicate_33)
  have b: "is_blinded (outputs ?tx ! 0)" by (simp add: sample_checks)
  have l: "0 < length (outputs ?tx)" "0 < length [?c]" by simp_all
  from asset_generator_mismatch_rejects [OF l b g d, of False]
       asset_generator_mismatch_rejects [OF l b g d, of True] g d b
  show ?thesis by (simp add: replicate_33)
qed



section \<open>Traces of the phases\<close>

lemma fst_then_step:
  "fst (then_step s g) = fst s @ (case snd s of Continue a \<Rightarrow> fst (g a) | _ \<Rightarrow> [])"
  by (cases s; cases "snd s") (auto split: prod.splits)

lemma then_step_stops [simp]:
  "then_step (t, Cleanup) g = (t, Cleanup)"
  "then_step (t, Aborted) g = (t, Aborted)"
  "then_step (t, Awaiting_message) g = (t, Awaiting_message)"
  by simp_all

lemma then_step_reject [simp]: "then_step (reject c m) g = reject c m"
  by (simp add: reject_def)

lemma then_step_nil [simp]: "then_step ([], Continue a) g = g a"
  by (cases "g a") simp

lemma quiet_simps [simp]:
  "quiet []" "quiet (x # t) = (\<not> loud x \<and> quiet t)" "quiet (t @ u) = (quiet t \<and> quiet u)"
  by (simp_all add: quiet_def)

lemma quiet_reject [simp]: "quiet (fst (reject c m))"
  by (simp add: reject_def)

lemma quiet_then_step:
  "quiet (fst s) \<Longrightarrow> (\<And>a. snd s = Continue a \<Longrightarrow> quiet (fst (g a))) \<Longrightarrow> quiet (fst (then_step s g))"
  by (simp add: fst_then_step split: flow.splits)

lemma quiet_for_loop:
  "(\<And>i s. quiet (fst (body i s))) \<Longrightarrow> quiet (fst (for_loop js body s))"
  by (induction js arbitrary: s) (auto intro!: quiet_then_step)

lemma loud_then_step:
  assumes "x \<in> set (fst (then_step s g))" and "loud x" and "quiet (fst s)"
  shows "\<exists>t a. s = (t, Continue a) \<and> x \<in> set (fst (g a))"
proof -
  have "x \<notin> set (fst s)" using assms(2,3) by (auto simp: quiet_def list_all_iff)
  with assms(1) show ?thesis
    by (cases s; cases "snd s") (auto simp: fst_then_step)
qed

lemma quiet_CHECK_NETWORK_CONSISTENT [simp]: "quiet (fst (CHECK_NETWORK_CONSISTENT t kc n))"
  by (auto simp: CHECK_NETWORK_CONSISTENT_def split: option.splits outcome.splits)

lemma quiet_read_request [simp]: "quiet (fst (read_request e kc req))"
  unfolding read_request_def
  by (intro quiet_then_step quiet_CHECK_NETWORK_CONSISTENT)
     (auto simp: Let_def split: option.splits outcome.splits sum.splits intro!: quiet_then_step)

lemma quiet_output_info_body [simp]: "quiet (fst (output_info_body e cs i s))"
  by (auto simp: output_info_body_def Let_def split: option.splits outcome.splits sum.splits prod.splits)

lemma quiet_populate [simp]: "quiet (fst (populate_output_info e tx cs oi))"
  by (simp add: populate_output_info_def quiet_for_loop)

lemma quiet_confirm_outputs [simp]: "quiet (fst (confirm_outputs e network tx oi))"
  by (auto simp: confirm_outputs_def reject_def split: option.splits)

lemma quiet_load [simp]: "quiet (fst (jade_process_load_in_message inbox))"
  by (simp add: jade_process_load_in_message_def split: list.splits)

lemma quiet_verify_body [simp]: "quiet (fst (verify_body e hp tx cs i f))"
  by (auto simp: verify_body_def split: option.splits outcome.splits)

lemma quiet_verify [simp]: "quiet (fst (verify_commitments e hp tx cs))"
  by (simp add: verify_commitments_def quiet_for_loop)

lemma quiet_finalize [simp]: "quiet (fst (finalize_prevouts e ctx))"
  by (simp add: finalize_prevouts_def Let_def)

section \<open>Properties of the input loop\<close>

lemmas body_unfold = tx_input_body_def jade_process_load_in_message_def reject_def
  mbedtls_sha256_update_ret_def Let_def prevout_bytes_def WALLY_TXHASH_LEN_def

lemma tx_input_body_empty:
  "tx_input_body e tx ae idx ([], sd, ctx, fl) = ([], Awaiting_message)"
  by (simp add: tx_input_body_def jade_process_load_in_message_def)

lemma tx_input_body_unexpected:
  "msg_method msg \<noteq> ''tx_input'' \<Longrightarrow>
     tx_input_body e tx ae idx (msg # rest, sd, ctx, fl)
       = ([Load_in_message msg, Reject_message CBOR_RPC_PROTOCOL_ERROR (Some unexpected_message_text)],
          Cleanup)"
  by (simp add: tx_input_body_def jade_process_load_in_message_def reject_def)

lemma tx_input_body_Continue:
  assumes "tx_input_body e tx ae idx (inbox, sd, ctx, fl) = (t, Continue (inbox', sd', ctx', fl'))"
  shows "\<exists>msg. inbox = msg # inbox' \<and> msg_method msg = ''tx_input'' \<and> idx < length (inputs tx)
           \<and> ctx' = ctx @ prevout_bytes (inputs tx ! idx) \<and> length sd' = length sd
           \<and> loaded_messages t = [msg] \<and> (\<forall>x\<in>set t. \<not> is_reject x)"
  using assms
  by (auto simp: body_unfold split: list.splits option.splits if_splits prod.splits)


lemma loaded_messages_append [simp]:
  "loaded_messages (t @ u) = loaded_messages t @ loaded_messages u"
  by (induction t rule: loaded_messages.induct) simp_all

lemma loaded_messages_set: "m \<in> set (loaded_messages t) \<longleftrightarrow> Load_in_message m \<in> set t"
  by (induction t rule: loaded_messages.induct) auto

lemma tx_input_body_shape:
  assumes "tx_input_body e tx ae idx (inbox, sd, ctx, fl) = R"
  shows "(inbox = [] \<and> R = ([], Awaiting_message))
         \<or> (\<exists>msg rest. inbox = msg # rest
               \<and> (R = ([Load_in_message msg], Aborted)
                   \<or> (\<exists>c m. R = ([Load_in_message msg, Reject_message c m], Cleanup)
                             \<and> (c = CBOR_RPC_PROTOCOL_ERROR \<longrightarrow> msg_method msg \<noteq> ''tx_input''))
                   \<or> (\<exists>st. R = ([Load_in_message msg], Continue st))
                   \<or> (\<exists>st b. R = ([Load_in_message msg, Reply_bytes b], Continue st))))"
  using assms
  by (auto simp: body_unfold split: list.splits option.splits if_splits prod.splits)


lemma quiet_tx_input_body [simp]: "quiet (fst (tx_input_body e tx ae idx s))"
proof (cases s)
  case (fields inbox sd ctx fl)
  from tx_input_body_shape [where e = e and tx = tx and ae = ae and idx = idx and inbox = inbox
      and sd = sd and ctx = ctx and fl = fl, OF refl] show ?thesis
    unfolding fields by auto
qed

lemma tx_input_body_loaded:
  "loaded_messages (fst (tx_input_body e tx ae idx (inbox, sd, ctx, fl))) = take 1 inbox"
  using tx_input_body_shape [where e = e and tx = tx and ae = ae and idx = idx and inbox = inbox
      and sd = sd and ctx = ctx and fl = fl, OF refl] by auto

lemma tx_input_body_awaiting:
  "snd (tx_input_body e tx ae idx (inbox, sd, ctx, fl)) = Awaiting_message \<longleftrightarrow> inbox = []"
  using tx_input_body_shape [where e = e and tx = tx and ae = ae and idx = idx and inbox = inbox
      and sd = sd and ctx = ctx and fl = fl, OF refl] by auto

text \<open>The properties of a run of the input loop, by its outcome.\<close>

lemma input_loop_Continue:
  assumes "for_loop js (tx_input_body e tx ae) (inbox, sd, ctx, fl) = (t, Continue (inbox', sd', ctx', fl'))"
  shows "\<exists>consumed. inbox = consumed @ inbox' \<and> length consumed = length js
           \<and> (\<forall>m\<in>set consumed. msg_method m = ''tx_input'')
           \<and> loaded_messages t = consumed
           \<and> (\<forall>j\<in>set js. j < length (inputs tx))
           \<and> ctx' = ctx @ concat (map (\<lambda>j. prevout_bytes (inputs tx ! j)) js)
           \<and> length sd' = length sd
           \<and> (\<forall>x\<in>set t. \<not> is_reject x)"
  using assms
proof (induction js arbitrary: inbox sd ctx fl t)
  case Nil
  then show ?case by simp
next
  case (Cons j js)
  from Cons.prems obtain t1 st1 t2 where
    b: "tx_input_body e tx ae j (inbox, sd, ctx, fl) = (t1, Continue st1)"
    and l: "for_loop js (tx_input_body e tx ae) st1 = (t2, Continue (inbox', sd', ctx', fl'))"
    and t: "t = t1 @ t2"
    by (auto simp: then_step_Continue)
  obtain inbox1 sd1 ctx1 fl1 where st1: "st1 = (inbox1, sd1, ctx1, fl1)" by (cases st1) auto
  from tx_input_body_Continue [OF b [unfolded st1]] obtain msg where
    m: "inbox = msg # inbox1" "msg_method msg = ''tx_input''" "j < length (inputs tx)"
       "ctx1 = ctx @ prevout_bytes (inputs tx ! j)" "length sd1 = length sd"
       "loaded_messages t1 = [msg]" "\<forall>x\<in>set t1. \<not> is_reject x"
    by blast
  from Cons.IH [OF l [unfolded st1]] obtain consumed where
    c: "inbox1 = consumed @ inbox'" "length consumed = length js"
       "\<forall>m\<in>set consumed. msg_method m = ''tx_input''" "loaded_messages t2 = consumed"
       "\<forall>j\<in>set js. j < length (inputs tx)"
       "ctx' = ctx1 @ concat (map (\<lambda>j. prevout_bytes (inputs tx ! j)) js)"
       "length sd' = length sd1" "\<forall>x\<in>set t2. \<not> is_reject x"
    by blast
  show ?case
    using m c t by (intro exI [of _ "msg # consumed"]) auto
qed

lemma input_loop_loaded:
  "\<exists>k\<le>length js. loaded_messages (fst (for_loop js (tx_input_body e tx ae) (inbox, sd, ctx, fl)))
                    = take k inbox"
proof (induction js arbitrary: inbox sd ctx fl)
  case Nil
  show ?case by simp
next
  case (Cons j js)
  let ?R = "tx_input_body e tx ae j (inbox, sd, ctx, fl)"
  show ?case
  proof (cases "\<exists>st. snd ?R = Continue st")
    case False
    then have "fst (for_loop (j # js) (tx_input_body e tx ae) (inbox, sd, ctx, fl)) = fst ?R"
      by (cases "snd ?R") (auto simp: fst_then_step)
    then show ?thesis
      using tx_input_body_loaded [of e tx ae j inbox sd ctx fl]
      by (intro exI [of _ 1]) simp
  next
    case True
    then obtain t1 inbox1 sd1 ctx1 fl1 where r: "?R = (t1, Continue (inbox1, sd1, ctx1, fl1))"
      by (cases ?R) auto
    from tx_input_body_Continue [OF r] obtain msg where
      m: "inbox = msg # inbox1" "loaded_messages t1 = [msg]" by blast
    from Cons.IH [of inbox1 sd1 ctx1 fl1] obtain k where
      k: "k \<le> length js"
         "loaded_messages (fst (for_loop js (tx_input_body e tx ae) (inbox1, sd1, ctx1, fl1))) = take k inbox1"
      by blast
    have "fst (for_loop (j # js) (tx_input_body e tx ae) (inbox, sd, ctx, fl))
            = t1 @ fst (for_loop js (tx_input_body e tx ae) (inbox1, sd1, ctx1, fl1))"
      by (simp add: r split: prod.splits)
    then show ?thesis
      using m k by (intro exI [of _ "Suc k"]) simp
  qed
qed


lemma input_loop_protocol_error:
  assumes "Load_in_message m \<in> set (fst (for_loop js (tx_input_body e tx ae) (inbox, sd, ctx, fl)))"
    and "msg_method m \<noteq> ''tx_input''"
  shows "snd (for_loop js (tx_input_body e tx ae) (inbox, sd, ctx, fl)) = Cleanup
         \<and> (\<exists>t'. fst (for_loop js (tx_input_body e tx ae) (inbox, sd, ctx, fl))
                   = t' @ [Load_in_message m,
                           Reject_message CBOR_RPC_PROTOCOL_ERROR (Some unexpected_message_text)])"
  using assms
proof (induction js arbitrary: inbox sd ctx fl)
  case Nil
  then show ?case by simp
next
  case (Cons j js)
  let ?R = "tx_input_body e tx ae j (inbox, sd, ctx, fl)"
  show ?case
  proof (cases "\<exists>st. snd ?R = Continue st")
    case True
    then obtain t1 inbox1 sd1 ctx1 fl1 where r: "?R = (t1, Continue (inbox1, sd1, ctx1, fl1))"
      by (cases ?R) auto
    from tx_input_body_Continue [OF r] obtain msg where
      m: "msg_method msg = ''tx_input''" "loaded_messages t1 = [msg]" by blast
    have f: "for_loop (j # js) (tx_input_body e tx ae) (inbox, sd, ctx, fl)
            = (t1 @ fst (for_loop js (tx_input_body e tx ae) (inbox1, sd1, ctx1, fl1)),
               snd (for_loop js (tx_input_body e tx ae) (inbox1, sd1, ctx1, fl1)))"
      by (simp add: r split: prod.splits)
    have "Load_in_message m \<notin> set t1"
      using m Cons.prems(2) by (auto simp: loaded_messages_set [symmetric])
    then have "Load_in_message m \<in> set (fst (for_loop js (tx_input_body e tx ae) (inbox1, sd1, ctx1, fl1)))"
      using Cons.prems(1) unfolding f by simp
    from Cons.IH [OF this Cons.prems(2)] show ?thesis
      unfolding f by auto
  next
    case False
    then have f: "for_loop (j # js) (tx_input_body e tx ae) (inbox, sd, ctx, fl)
                    = (fst ?R, case snd ?R of Cleanup \<Rightarrow> Cleanup | Aborted \<Rightarrow> Aborted
                                 | Awaiting_message \<Rightarrow> Awaiting_message | Continue st \<Rightarrow> Cleanup)"
      by (cases ?R; cases "snd ?R") auto
    from Cons.prems(1) have l: "Load_in_message m \<in> set (fst ?R)" unfolding f by simp
    then have "m \<in> set (take 1 inbox)"
      using tx_input_body_loaded [of e tx ae j inbox sd ctx fl]
      by (simp add: loaded_messages_set [symmetric])
    then obtain rest where "inbox = m # rest" by (cases inbox) auto
    with tx_input_body_unexpected [OF Cons.prems(2), of e tx ae j rest sd ctx fl]
    show ?thesis unfolding f by simp
  qed
qed

lemma input_loop_awaiting:
  assumes "snd (for_loop js (tx_input_body e tx ae) (inbox, sd, ctx, fl)) = Awaiting_message"
  shows "loaded_messages (fst (for_loop js (tx_input_body e tx ae) (inbox, sd, ctx, fl))) = inbox
         \<and> length inbox < length js
         \<and> (\<forall>x\<in>set (fst (for_loop js (tx_input_body e tx ae) (inbox, sd, ctx, fl))). \<not> is_reject x)"
  using assms
proof (induction js arbitrary: inbox sd ctx fl)
  case Nil
  then show ?case by simp
next
  case (Cons j js)
  let ?R = "tx_input_body e tx ae j (inbox, sd, ctx, fl)"
  show ?case
  proof (cases "\<exists>st. snd ?R = Continue st")
    case True
    then obtain t1 inbox1 sd1 ctx1 fl1 where r: "?R = (t1, Continue (inbox1, sd1, ctx1, fl1))"
      by (cases ?R) auto
    from tx_input_body_Continue [OF r] obtain msg where
      m: "inbox = msg # inbox1" "loaded_messages t1 = [msg]" "\<forall>x\<in>set t1. \<not> is_reject x"
      by blast
    have f: "for_loop (j # js) (tx_input_body e tx ae) (inbox, sd, ctx, fl)
            = (t1 @ fst (for_loop js (tx_input_body e tx ae) (inbox1, sd1, ctx1, fl1)),
               snd (for_loop js (tx_input_body e tx ae) (inbox1, sd1, ctx1, fl1)))"
      by (simp add: r split: prod.splits)
    from Cons.prems have "snd (for_loop js (tx_input_body e tx ae) (inbox1, sd1, ctx1, fl1)) = Awaiting_message"
      unfolding f by simp
    from Cons.IH [OF this] m show ?thesis unfolding f by auto
  next
    case False
    then have f: "for_loop (j # js) (tx_input_body e tx ae) (inbox, sd, ctx, fl)
                    = (fst ?R, case snd ?R of Cleanup \<Rightarrow> Cleanup | Aborted \<Rightarrow> Aborted
                                 | Awaiting_message \<Rightarrow> Awaiting_message | Continue st \<Rightarrow> Cleanup)"
      by (cases ?R; cases "snd ?R") auto
    from Cons.prems have "snd ?R = Awaiting_message"
      unfolding f by (cases "snd ?R") auto
    then have "inbox = []" by (simp add: tx_input_body_awaiting)
    then show ?thesis unfolding f by (simp add: tx_input_body_empty)
  qed
qed



section \<open>The sample session, phase by phase\<close>

lemma sample_env_fields [simp]:
  "tags sample_env = sample_tags"
  "wally_tx_from_bytes sample_env [0x02] = Some sample_tx"
  "wally_tx_confidential_value_to_satoshi sample_env v
     = (if length v = 9 then Some (ucast (last v)) else None)"
  "sha256_starts_rc sample_env = 0"
  "sha256_update_rc sample_env c d = 0"
  "sha256_finish_rc sample_env c = 0"
  "sha256 sample_env b = [of_nat (length b)]"
  "get_script_flavour sample_env scr = Script_flavour_other 1"
  "update_aggregate_scripts_flavour sample_env nf agg = nf"
  "wallet_get_elements_tx_input_hash sample_env tx idx w scr vc vl = Some (replicate 32 0x11)"
  "wallet_get_signer_commitment sample_env h pth hc = Some (replicate 33 0x22)"
  "await_outputs_event sample_env = Some SIGN_TX_ACCEPT_OUTPUTS"
  "await_fee_event sample_env = Some BTN_ACCEPT_SIGNATURE"
  "WARN_MSG_MIXED_INPUTS sample_env = ''Warning: mixed input types''"
  by (simp_all add: sample_env_def)

lemma sample_tx_facts [simp]:
  "inputs sample_tx = [sample_input]" "outputs sample_tx = [sample_blinded_output, sample_fee_output]"
  by (simp_all add: sample_tx_def)

lemma sample_populate:
  "populate_output_info (sample_env\<lparr>await_fee_event := ev\<rparr>) sample_tx
     [sample_commitment, no_commitment] [zero_output_info, zero_output_info]
   = ([], Continue (sample_tx, sample_output_info, 100))"
  by (simp add: populate_output_info_def upt_2 output_info_body_def sample_checks
        add_confidential_output_info_def sample_output_info_def zero_output_info_def
        sample_commitment_def sample_blinded_output_def sample_fee_output_def sample_tx_def
        ASSET_GENERATOR_LEN_def ASSET_COMMITMENT_LEN_def ASSET_TAG_LEN_def EC_PUBLIC_KEY_LEN_def
        replicate_33 value_prefix_def)

lemma sample_confirm_outputs:
  "confirm_outputs (sample_env\<lparr>await_fee_event := ev\<rparr>) network tx oi
   = ([Display_outputs network tx oi, Display_message ''Processing...'', Reply_ok], Continue ())"
  by (simp add: confirm_outputs_def)

lemma sample_stream_inputs:
  "stream_inputs (sample_env\<lparr>await_fee_event := ev\<rparr>) sample_tx ae 1 (sample_message # rest)
   = (Load_in_message sample_message # (if ae then [Reply_bytes (replicate 33 0x22)] else []),
      Continue (rest, [sample_signing_data], sample_prevouts, Script_flavour_other 1))"
  by (simp add: stream_inputs_def tx_input_body_def jade_process_load_in_message_def
        mbedtls_sha256_update_ret_def sample_message_def zero_signing_data_def
        sample_signing_data_def sample_prevouts_def sample_input_def value_to_le_def
        WALLY_TXHASH_LEN_def WALLY_HOST_COMMITMENT_LEN_def WALLY_S2C_OPENING_LEN_def)

lemma sample_stream_unsigned:
  "stream_inputs (sample_env\<lparr>await_fee_event := ev\<rparr>) sample_tx False 1 (unsigned_message # rest)
   = ([Load_in_message unsigned_message],
      Continue (rest, [zero_signing_data\<lparr>sig_id := ''8''\<rparr>], sample_prevouts, SCRIPT_FLAVOUR_NONE))"
  by (simp add: stream_inputs_def tx_input_body_def jade_process_load_in_message_def
        mbedtls_sha256_update_ret_def unsigned_message_def zero_signing_data_def
        sample_prevouts_def sample_input_def value_to_le_def WALLY_TXHASH_LEN_def)

lemma sample_stream_empty:
  "stream_inputs e tx ae 1 [] = ([], Awaiting_message)"
  by (simp add: stream_inputs_def tx_input_body_def jade_process_load_in_message_def)

lemma sample_finalize:
  "finalize_prevouts (sample_env\<lparr>await_fee_event := ev\<rparr>) sample_prevouts = ([], Continue [1])"
  by (simp add: finalize_prevouts_def sample_prevouts_def)

lemma sample_verify:
  "verify_commitments (sample_env\<lparr>await_fee_event := ev\<rparr>) [1] sample_tx
     [sample_commitment, no_commitment] = ([], Continue False)"
proof -
  have r: "0 < length (outputs sample_tx)" "0 < length [sample_commitment, no_commitment]"
    "value_prefix (outputs sample_tx ! 0) \<noteq> None"
    "Suc 0 < length (outputs sample_tx)" "Suc 0 < length [sample_commitment, no_commitment]"
    "value_prefix (outputs sample_tx ! Suc 0) \<noteq> None"
    by (simp_all add: sample_checks)
  show ?thesis
    by (simp add: verify_commitments_def upt_2 verify_body_eq [OF r(1,2,3)]
          verify_body_eq [OF r(4,5,6)] sample_checks odd_at_def)
       (simp add: asset_generator_ok_def recomputed_generator_def recomputed_value_commitment_def
          odd_vbf_def hmac_ok_def sample_env_def sample_commitment_def sample_blinded_output_def
          ASSET_TAG_LEN_def)
qed

lemma sample_network_facts:
  "isValidNetwork sample_tags (Some ''liquid'')"
  "isLiquidNetwork sample_tags (Some ''liquid'') = Returns True"
  "keychain_is_network_type_consistent sample_tags sample_keychain (Some ''liquid'') = Returns True"
  by (simp_all add: isValidNetwork_def isLiquidNetwork_def keychain_is_network_type_consistent_def
        isTestNetwork_def streq_def sample_tags_def sample_keychain_def)

lemma sample_read_request:
  "read_request (sample_env\<lparr>await_fee_event := ev\<rparr>) sample_keychain
     (sample_request\<lparr>req_use_ae_signatures := ae\<rparr>)
   = ([], Continue (''liquid'', sample_tx, 1, [sample_commitment, no_commitment],
        [zero_output_info, zero_output_info], case ae of None \<Rightarrow> False | Some b \<Rightarrow> b))"
  by (simp add: read_request_def CHECK_NETWORK_CONSISTENT_def sample_network_facts sample_request_def
        sample_tx_def)

lemma accept_env_eq: "sample_env\<lparr>await_fee_event := Some BTN_ACCEPT_SIGNATURE\<rparr> = sample_env"
  by (simp add: sample_env_def)

lemma legacy_request_eq: "sample_request\<lparr>req_use_ae_signatures := None\<rparr> = sample_request"
  by (simp add: sample_request_def)

lemma sample_process_legacy:
  "sign_liquid_tx_process sample_env sample_keychain sample_request (sample_message # rest)
   = ([Display_outputs ''liquid'' sample_tx sample_output_info, Display_message ''Processing...'',
       Reply_ok, Load_in_message sample_message, Display_final_confirmation 100 None,
       Display_message ''Processing...'', Send_ec_signature_replies [sample_signing_data] 1],
      Cleanup)"
proof -
  note p = sample_read_request [of "Some BTN_ACCEPT_SIGNATURE" None,
             unfolded accept_env_eq legacy_request_eq]
    sample_populate [of "Some BTN_ACCEPT_SIGNATURE", unfolded accept_env_eq]
    sample_confirm_outputs [of "Some BTN_ACCEPT_SIGNATURE", unfolded accept_env_eq]
    sample_stream_inputs [of "Some BTN_ACCEPT_SIGNATURE", unfolded accept_env_eq]
    sample_finalize [of "Some BTN_ACCEPT_SIGNATURE", unfolded accept_env_eq]
    sample_verify [of "Some BTN_ACCEPT_SIGNATURE", unfolded accept_env_eq]
  show ?thesis
    unfolding sign_liquid_tx_process_def
    apply (simp only: p then_step_nil prod.case option.case)
    apply (simp only: p then_step.simps prod.case if_False append_Nil append_Cons append_Nil2)
    apply (simp add: confirm_fee_def send_signature_replies_def)
    done
qed

lemma sample_process_ae_declined:
  "sign_liquid_tx_process declining_env sample_keychain
     (sample_request\<lparr>req_use_ae_signatures := Some True\<rparr>) (sample_message # other_message # rest)
   = ([Display_outputs ''liquid'' sample_tx sample_output_info, Display_message ''Processing...'',
       Reply_ok, Load_in_message sample_message, Reply_bytes (replicate 33 0x22),
       Display_final_confirmation 100 None, Load_in_message other_message,
       Reject_message CBOR_RPC_USER_CANCELLED (Some ''User declined to sign transaction'')],
      Cleanup)"
  unfolding sign_liquid_tx_process_def declining_env_def
  apply (simp only: sample_read_request then_step_nil prod.case option.case)
  apply (simp only: sample_populate then_step_nil prod.case)
  apply (simp only: sample_confirm_outputs sample_stream_inputs sample_finalize sample_verify
      then_step.simps prod.case if_True append_Nil append_Cons append_Nil2)
  apply (simp add: confirm_fee_def jade_process_load_in_message_def reject_def)
  done

lemma sample_process_legacy_declined:
  "sign_liquid_tx_process declining_env sample_keychain sample_request (sample_message # rest)
   = ([Display_outputs ''liquid'' sample_tx sample_output_info, Display_message ''Processing...'',
       Reply_ok, Load_in_message sample_message,
       Display_final_confirmation 100 None,
       Reject_message CBOR_RPC_USER_CANCELLED (Some ''User declined to sign transaction'')],
      Cleanup)"
proof -
  note p = sample_read_request [of _ None, unfolded legacy_request_eq]
  show ?thesis
    unfolding sign_liquid_tx_process_def declining_env_def
    apply (simp only: p then_step_nil prod.case option.case)
    apply (simp only: sample_populate then_step_nil prod.case)
    apply (simp only: sample_confirm_outputs sample_stream_inputs sample_finalize sample_verify
        then_step.simps prod.case if_False append_Nil append_Cons append_Nil2)
    apply (simp add: confirm_fee_def jade_process_load_in_message_def reject_def)
    done
qed

section \<open>Properties of the output-info loop\<close>

lemma output_info_body_Continue:
  assumes "output_info_body e cs i (tx, oi, fees) = (t, Continue (tx', oi', fees'))"
  shows "t = [] \<and> i < length (outputs tx) \<and> i < length oi \<and> length oi' = length oi
         \<and> length (outputs tx') = length (outputs tx) \<and> inputs tx' = inputs tx
         \<and> fees' = fees + (if is_fee_output (outputs tx ! i) then info_value (oi' ! i) else 0)
         \<and> (\<forall>k. k \<noteq> i \<longrightarrow> oi' ! k = oi ! k \<and> outputs tx' ! k = outputs tx ! k)
         \<and> value_prefix (outputs tx ! i) \<noteq> None
         \<and> (value_prefix (outputs tx ! i) = Some 0x01 \<longrightarrow>
              (\<forall>v. wally_tx_confidential_value_to_satoshi e (out_value (outputs tx ! i)) = Some v
                   \<longrightarrow> info_value (oi' ! i) = v))"
  using assms
  by (auto simp: output_info_body_def Let_def reject_def is_fee_output_def
      split: option.splits if_splits outcome.splits sum.splits prod.splits)

lemma populate_loop_Continue:
  assumes "for_loop js (output_info_body e cs) (tx, oi, fees) = (t, Continue (tx', oi', fees'))"
    and "distinct js"
  shows "t = [] \<and> length oi' = length oi \<and> length (outputs tx') = length (outputs tx)
         \<and> inputs tx' = inputs tx
         \<and> fees' = fees + sum_list (map (\<lambda>i. if is_fee_output (outputs tx ! i)
                                               then info_value (oi' ! i) else 0) js)
         \<and> (\<forall>k. k \<notin> set js \<longrightarrow> oi' ! k = oi ! k \<and> outputs tx' ! k = outputs tx ! k)
         \<and> (\<forall>i\<in>set js. i < length (outputs tx) \<and> value_prefix (outputs tx ! i) \<noteq> None)
         \<and> (\<forall>i\<in>set js. value_prefix (outputs tx ! i) = Some 0x01 \<longrightarrow>
              (\<forall>v. wally_tx_confidential_value_to_satoshi e (out_value (outputs tx ! i)) = Some v
                   \<longrightarrow> info_value (oi' ! i) = v))"
  using assms
proof (induction js arbitrary: tx oi fees t)
  case Nil
  then show ?case by simp
next
  case (Cons j js)
  from Cons.prems(1) obtain t1 st1 t2 where
    b: "output_info_body e cs j (tx, oi, fees) = (t1, Continue st1)"
    and l: "for_loop js (output_info_body e cs) st1 = (t2, Continue (tx', oi', fees'))"
    and t: "t = t1 @ t2"
    by (auto simp: then_step_Continue)
  obtain tx1 oi1 fees1 where st1: "st1 = (tx1, oi1, fees1)" by (cases st1) auto
  note B = output_info_body_Continue [OF b [unfolded st1]]
  have d: "distinct js" "j \<notin> set js" using Cons.prems(2) by auto
  note I = Cons.IH [OF l [unfolded st1] d(1)]
  have same: "\<forall>i\<in>set js. outputs tx1 ! i = outputs tx ! i"
    using B d(2) by auto
  have at_j: "oi' ! j = oi1 ! j" using I d(2) by auto
  have s: "sum_list (map (\<lambda>i. if is_fee_output (outputs tx1 ! i) then info_value (oi' ! i) else 0) js)
           = sum_list (map (\<lambda>i. if is_fee_output (outputs tx ! i) then info_value (oi' ! i) else 0) js)"
    using same by (intro arg_cong [where f = sum_list] map_cong) auto
  have f: "fees' = fees + sum_list (map (\<lambda>i. if is_fee_output (outputs tx ! i)
                                               then info_value (oi' ! i) else 0) (j # js))"
    using B I s at_j by (simp add: add.assoc)
  have k: "\<forall>k. k \<notin> set (j # js) \<longrightarrow> oi' ! k = oi ! k \<and> outputs tx' ! k = outputs tx ! k"
    using B I by auto
  have r: "\<forall>i\<in>set (j # js). i < length (outputs tx) \<and> value_prefix (outputs tx ! i) \<noteq> None"
    using B I same by auto
  have v: "\<forall>i\<in>set (j # js). value_prefix (outputs tx ! i) = Some 0x01 \<longrightarrow>
              (\<forall>v. wally_tx_confidential_value_to_satoshi e (out_value (outputs tx ! i)) = Some v
                   \<longrightarrow> info_value (oi' ! i) = v)"
    using B I same at_j by auto
  show ?case using B I t f k r v by simp
qed

lemma populate_Continue:
  assumes "populate_output_info e tx cs oi = (t, Continue (tx', oi', fees))"
  shows "t = [] \<and> fees = fee_total tx oi' \<and> inputs tx' = inputs tx
         \<and> length (outputs tx') = length (outputs tx)
         \<and> list_all (\<lambda>txoutput. value_prefix txoutput \<noteq> None) (outputs tx)
         \<and> (\<forall>i<length (outputs tx). value_prefix (outputs tx ! i) = Some 0x01 \<longrightarrow>
              (\<forall>v. wally_tx_confidential_value_to_satoshi e (out_value (outputs tx ! i)) = Some v
                   \<longrightarrow> info_value (oi' ! i) = v))"
  using populate_loop_Continue [OF assms [unfolded populate_output_info_def]]
  by (simp add: fee_total_def list_all_length)

section \<open>Properties of the whole process\<close>

lemma then_step_Continue_pair: "then_step (t, Continue a) g = (t @ fst (g a), snd (g a))"
  by (cases "g a") simp

lemma CHECK_NETWORK_CONSISTENT_outcome:
  "(\<exists>n. CHECK_NETWORK_CONSISTENT t kc network = ([], Continue n) \<and> network = Some n
        \<and> isValidNetwork t network)
   \<or> (\<exists>m. CHECK_NETWORK_CONSISTENT t kc network
            = ([Reject_message CBOR_RPC_BAD_PARAMETERS (Some m)], Cleanup))"
  by (auto simp: CHECK_NETWORK_CONSISTENT_def reject_def keychain_is_network_type_consistent_def
        isTestNetwork_def split: option.splits outcome.splits)

lemma read_request_Continue:
  assumes "read_request e kc req = (t, Continue (network, tx, num_inputs, cs, oi, ae))"
  shows "t = [] \<and> (\<exists>txbytes. req_txn req = Some txbytes \<and> wally_tx_from_bytes e txbytes = Some tx)
         \<and> req_num_inputs req = Some num_inputs \<and> num_inputs \<noteq> 0
         \<and> unat num_inputs = length (inputs tx)
         \<and> cs = req_trusted_commitments req \<and> length cs = length (outputs tx)
         \<and> req_network req = Some network
         \<and> isLiquidNetwork (tags e) (Some network) = Returns True"
proof -
  from CHECK_NETWORK_CONSISTENT_outcome [of "tags e" kc "req_network req"] assms
  obtain n where n: "CHECK_NETWORK_CONSISTENT (tags e) kc (req_network req) = ([], Continue n)"
    "req_network req = Some n"
    by (auto simp: read_request_def)
  have c: "CHECK_NETWORK_CONSISTENT (tags e) kc (Some n) = ([], Continue n)"
    using n by simp
  show ?thesis
    using assms unfolding read_request_def n(2) c then_step_nil
    by (auto simp: reject_def Let_def
        split: option.splits outcome.splits if_splits sum.splits)
qed

lemma read_request_counts:
  assumes "req_txn req = Some txbytes" and "wally_tx_from_bytes e txbytes = Some tx"
    and "req_num_inputs req = None \<or> req_num_inputs req = Some 0
         \<or> (\<exists>n. req_num_inputs req = Some n \<and> unat n \<noteq> length (inputs tx))
         \<or> length (req_trusted_commitments req) \<noteq> length (outputs tx)"
  shows "\<exists>m. read_request e kc req = ([Reject_message CBOR_RPC_BAD_PARAMETERS (Some m)], Cleanup)"
proof -
  from CHECK_NETWORK_CONSISTENT_outcome [of "tags e" kc "req_network req"]
  show ?thesis
  proof (elim disjE exE conjE)
    fix m
    assume "CHECK_NETWORK_CONSISTENT (tags e) kc (req_network req)
              = ([Reject_message CBOR_RPC_BAD_PARAMETERS (Some m)], Cleanup)"
    then show ?thesis by (simp add: read_request_def)
  next
    fix n
    assume n: "CHECK_NETWORK_CONSISTENT (tags e) kc (req_network req) = ([], Continue n)"
      "req_network req = Some n" "isValidNetwork (tags e) (req_network req)"
    then have l: "\<exists>b. isLiquidNetwork (tags e) (Some n) = Returns b"
      by (simp add: isLiquidNetwork_def)
    have c: "CHECK_NETWORK_CONSISTENT (tags e) kc (Some n) = ([], Continue n)"
      using n by simp
    show ?thesis
      using assms l unfolding read_request_def n(2) c then_step_nil
      by (auto simp: reject_def Let_def split: option.splits)
  qed
qed

lemma confirm_outputs_Continue:
  assumes "confirm_outputs e network tx oi = (t, Continue u)"
  shows "await_outputs_event e = Some SIGN_TX_ACCEPT_OUTPUTS
         \<and> t = [Display_outputs network tx oi, Display_message ''Processing...'', Reply_ok]"
  using assms by (auto simp: confirm_outputs_def reject_def split: option.splits if_splits)

lemma quiet_stream_inputs [simp]: "quiet (fst (stream_inputs e tx ae n inbox))"
  by (simp add: stream_inputs_def quiet_for_loop)

lemma final_phase_events:
  assumes "x \<in> set (fst (then_step (confirm_fee e ae fees fl inbox)
                            (send_signature_replies ae sd n)))"
  shows "(is_signature_reply x \<longrightarrow> await_fee_event e = Some BTN_ACCEPT_SIGNATURE)
         \<and> (\<forall>f w. x = Display_final_confirmation f w \<longrightarrow> f = fees)"
  using assms
  by (auto simp: confirm_fee_def send_signature_replies_def jade_process_load_in_message_def
        reject_def Let_def
      split: option.splits if_splits list.splits)

lemma process_loud:
  assumes "x \<in> set (fst (sign_liquid_tx_process e kc req inbox))" and "loud x"
  obtains network tx num_inputs cs oi0 ae tx' oi fees inbox' sd ctx fl hp f t1 t2 t3 t4 t5 t6
  where "read_request e kc req = (t1, Continue (network, tx, num_inputs, cs, oi0, ae))"
    and "populate_output_info e tx cs oi0 = (t2, Continue (tx', oi, fees))"
    and "confirm_outputs e network tx' oi = (t3, Continue ())"
    and "stream_inputs e tx' ae num_inputs inbox = (t4, Continue (inbox', sd, ctx, fl))"
    and "finalize_prevouts e ctx = (t5, Continue hp)"
    and "verify_commitments e hp tx' cs = (t6, Continue f)"
    and "x \<in> set (fst (then_step (confirm_fee e ae fees fl inbox')
                           (send_signature_replies ae sd num_inputs)))"
    and "fst (sign_liquid_tx_process e kc req inbox)
           = t1 @ t2 @ t3 @ t4 @ t5 @ t6
             @ fst (then_step (confirm_fee e ae fees fl inbox')
                      (send_signature_replies ae sd num_inputs))"
proof -
  note L = loud_then_step [OF _ assms(2)]
  from L [OF assms(1) [unfolded sign_liquid_tx_process_def] quiet_read_request]
  obtain t1 a1 where 1: "read_request e kc req = (t1, Continue a1)"
    and x1: "x \<in> set (fst ((\<lambda>(network, tx, num_inputs, commitments, output_info, use_ae_signatures).
     then_step (populate_output_info e tx commitments output_info)
       (\<lambda>(tx, output_info, fees).
     then_step (confirm_outputs e network tx output_info)
       (\<lambda>_.
     then_step (stream_inputs e tx use_ae_signatures num_inputs inbox)
       (\<lambda>(inbox, all_signing_data, hash_prevout_sha_ctx, aggregate_flavour).
     then_step (finalize_prevouts e hash_prevout_sha_ctx)
       (\<lambda>hash_prevouts_double.
     then_step (verify_commitments e hash_prevouts_double tx commitments)
       (\<lambda>_.
     then_step (confirm_fee e use_ae_signatures fees aggregate_flavour inbox)
       (\<lambda>inbox.
     send_signature_replies use_ae_signatures all_signing_data num_inputs inbox))))))) a1))"
    by blast
  obtain network tx num_inputs cs oi0 ae where a1: "a1 = (network, tx, num_inputs, cs, oi0, ae)"
    by (cases a1) auto
  from L [OF x1 [unfolded a1 prod.case] quiet_populate]
  obtain t2 a2 where 2: "populate_output_info e tx cs oi0 = (t2, Continue a2)"
    and x2: "x \<in> set (fst ((\<lambda>(tx, output_info, fees).
     then_step (confirm_outputs e network tx output_info)
       (\<lambda>_.
     then_step (stream_inputs e tx ae num_inputs inbox)
       (\<lambda>(inbox, all_signing_data, hash_prevout_sha_ctx, aggregate_flavour).
     then_step (finalize_prevouts e hash_prevout_sha_ctx)
       (\<lambda>hash_prevouts_double.
     then_step (verify_commitments e hash_prevouts_double tx cs)
       (\<lambda>_.
     then_step (confirm_fee e ae fees aggregate_flavour inbox)
       (\<lambda>inbox.
     send_signature_replies ae all_signing_data num_inputs inbox)))))) a2))"
    by blast
  obtain tx' oi fees where a2: "a2 = (tx', oi, fees)" by (cases a2) auto
  from L [OF x2 [unfolded a2 prod.case] quiet_confirm_outputs]
  obtain t3 a3 where 3: "confirm_outputs e network tx' oi = (t3, Continue a3)"
    and x3: "x \<in> set (fst (
     then_step (stream_inputs e tx' ae num_inputs inbox)
       (\<lambda>(inbox, all_signing_data, hash_prevout_sha_ctx, aggregate_flavour).
     then_step (finalize_prevouts e hash_prevout_sha_ctx)
       (\<lambda>hash_prevouts_double.
     then_step (verify_commitments e hash_prevouts_double tx' cs)
       (\<lambda>_.
     then_step (confirm_fee e ae fees aggregate_flavour inbox)
       (\<lambda>inbox.
     send_signature_replies ae all_signing_data num_inputs inbox))))))"
    by blast
  from L [OF x3 quiet_stream_inputs]
  obtain t4 a4 where 4: "stream_inputs e tx' ae num_inputs inbox = (t4, Continue a4)"
    and x4: "x \<in> set (fst ((\<lambda>(inbox, all_signing_data, hash_prevout_sha_ctx, aggregate_flavour).
     then_step (finalize_prevouts e hash_prevout_sha_ctx)
       (\<lambda>hash_prevouts_double.
     then_step (verify_commitments e hash_prevouts_double tx' cs)
       (\<lambda>_.
     then_step (confirm_fee e ae fees aggregate_flavour inbox)
       (\<lambda>inbox.
     send_signature_replies ae all_signing_data num_inputs inbox)))) a4))"
    by blast
  obtain inbox' sd ctx fl where a4: "a4 = (inbox', sd, ctx, fl)" by (cases a4) auto
  from L [OF x4 [unfolded a4 prod.case] quiet_finalize]
  obtain t5 hp where 5: "finalize_prevouts e ctx = (t5, Continue hp)"
    and x5: "x \<in> set (fst (
     then_step (verify_commitments e hp tx' cs)
       (\<lambda>_.
     then_step (confirm_fee e ae fees fl inbox')
       (\<lambda>inbox.
     send_signature_replies ae sd num_inputs inbox))))"
    by blast
  from L [OF x5 quiet_verify]
  obtain t6 f where 6: "verify_commitments e hp tx' cs = (t6, Continue f)"
    and x6: "x \<in> set (fst (
     then_step (confirm_fee e ae fees fl inbox')
       (\<lambda>inbox.
     send_signature_replies ae sd num_inputs inbox)))"
    by blast
  have tr: "fst (sign_liquid_tx_process e kc req inbox)
               = t1 @ t2 @ t3 @ t4 @ t5 @ t6
                 @ fst (then_step (confirm_fee e ae fees fl inbox')
                          (send_signature_replies ae sd num_inputs))"
    unfolding sign_liquid_tx_process_def
    by (simp only: 1 a1 2 a2 3 4 a4 5 6 then_step_Continue_pair prod.case fst_conv append_assoc)
  have c3: "confirm_outputs e network tx' oi = (t3, Continue ())" using 3 by simp
  show thesis
    by (rule that [OF 1 [unfolded a1] 2 [unfolded a2] c3 4 [unfolded a4] 5 6 x6 tr])
qed

lemma map_nth_all: "map (\<lambda>j. f (xs ! j)) [0..<length xs] = map f xs"
proof -
  have "map (\<lambda>j. f (xs ! j)) [0..<length xs] = map f (map (\<lambda>j. xs ! j) [0..<length xs])"
    by simp
  then show ?thesis by (simp only: map_nth)
qed

lemma then_step_stopped:
  "snd s = Cleanup \<Longrightarrow> then_step s g = (fst s, Cleanup)"
  "snd s = Aborted \<Longrightarrow> then_step s g = (fst s, Aborted)"
  "snd s = Awaiting_message \<Longrightarrow> then_step s g = (fst s, Awaiting_message)"
  by (cases s; simp)+

lemma process_at_stream:
  assumes "read_request e kc req = (t1, Continue (network, tx0, num_inputs, cs, oi0, ae))"
    and "populate_output_info e tx0 cs oi0 = (t2, Continue (tx, oi, fees))"
    and "confirm_outputs e network tx oi = (t3, Continue ())"
  shows "snd (stream_inputs e tx ae num_inputs inbox) = Cleanup \<Longrightarrow>
           sign_liquid_tx_process e kc req inbox
             = (t1 @ t2 @ t3 @ fst (stream_inputs e tx ae num_inputs inbox), Cleanup)"
    and "snd (stream_inputs e tx ae num_inputs inbox) = Awaiting_message \<Longrightarrow>
           sign_liquid_tx_process e kc req inbox
             = (t1 @ t2 @ t3 @ fst (stream_inputs e tx ae num_inputs inbox), Awaiting_message)"
  unfolding sign_liquid_tx_process_def
  by (simp_all only: assms then_step_Continue_pair prod.case fst_conv snd_conv append_assoc
        then_step_stopped)

lemma process_at_fee:
  assumes "read_request e kc req = (t1, Continue (network, tx0, num_inputs, cs, oi0, ae))"
    and "populate_output_info e tx0 cs oi0 = (t2, Continue (tx, oi, fees))"
    and "confirm_outputs e network tx oi = (t3, Continue ())"
    and "stream_inputs e tx ae num_inputs inbox = (t4, Continue (inbox', sd, ctx, fl))"
    and "finalize_prevouts e ctx = (t5, Continue hp)"
    and "verify_commitments e hp tx cs = (t6, Continue f)"
  shows "sign_liquid_tx_process e kc req inbox
           = (t1 @ t2 @ t3 @ t4 @ t5 @ t6
                @ fst (then_step (confirm_fee e ae fees fl inbox')
                         (send_signature_replies ae sd num_inputs)),
              snd (then_step (confirm_fee e ae fees fl inbox')
                         (send_signature_replies ae sd num_inputs)))"
  unfolding sign_liquid_tx_process_def
  by (simp only: assms then_step_Continue_pair prod.case fst_conv snd_conv append_assoc)

lemma confirm_fee_declined:
  assumes "await_fee_event e \<noteq> Some BTN_ACCEPT_SIGNATURE"
  shows "confirm_fee e True fees fl (msg # rest)
           = ([Display_final_confirmation fees
                 (if fl = SCRIPT_FLAVOUR_MIXED then Some (WARN_MSG_MIXED_INPUTS e) else None),
               Load_in_message msg,
               Reject_message CBOR_RPC_USER_CANCELLED (Some ''User declined to sign transaction'')],
              Cleanup)"
    and "confirm_fee e True fees fl []
           = ([Display_final_confirmation fees
                 (if fl = SCRIPT_FLAVOUR_MIXED then Some (WARN_MSG_MIXED_INPUTS e) else None)],
              Awaiting_message)"
    and "confirm_fee e False fees fl inbox
           = ([Display_final_confirmation fees
                 (if fl = SCRIPT_FLAVOUR_MIXED then Some (WARN_MSG_MIXED_INPUTS e) else None),
               Reject_message CBOR_RPC_USER_CANCELLED (Some ''User declined to sign transaction'')],
              Cleanup)"
  using assms
  by (auto simp: confirm_fee_def jade_process_load_in_message_def reject_def
      split: option.splits)

lemma confirm_fee_accepted:
  assumes "await_fee_event e = Some BTN_ACCEPT_SIGNATURE"
  shows "then_step (confirm_fee e ae fees fl inbox) (send_signature_replies ae sd n)
           = ([Display_final_confirmation fees
                 (if fl = SCRIPT_FLAVOUR_MIXED then Some (WARN_MSG_MIXED_INPUTS e) else None),
               Display_message ''Processing...'',
               if ae then Send_ae_signature_replies sd n inbox else Send_ec_signature_replies sd n],
              Cleanup)"
  using assms by (simp add: confirm_fee_def send_signature_replies_def)


lemma stream_inputs_Continue:
  assumes "stream_inputs e tx ae num_inputs inbox = (t, Continue (inbox', sd, ctx, fl))"
    and "unat num_inputs = length (inputs tx)"
  shows "ctx = concat (map prevout_bytes (inputs tx))"
    and "loaded_messages t = take (unat num_inputs) inbox"
    and "inbox' = drop (unat num_inputs) inbox"
    and "length inbox \<ge> unat num_inputs"
    and "\<forall>m\<in>set (loaded_messages t). msg_method m = ''tx_input''"
    and "\<forall>x\<in>set t. \<not> is_reject x"
proof -
  from input_loop_Continue [OF assms(1) [unfolded stream_inputs_def]] obtain consumed where
    c: "inbox = consumed @ inbox'" "length consumed = length [0..<unat num_inputs]"
       "\<forall>m\<in>set consumed. msg_method m = ''tx_input''" "loaded_messages t = consumed"
       "ctx = [] @ concat (map (\<lambda>j. prevout_bytes (inputs tx ! j)) [0..<unat num_inputs])"
       "\<forall>x\<in>set t. \<not> is_reject x"
    by blast
  show "ctx = concat (map prevout_bytes (inputs tx))"
    using c(5) unfolding assms(2) by (simp only: map_nth_all append_Nil)
  show "loaded_messages t = take (unat num_inputs) inbox" using c by simp
  show "inbox' = drop (unat num_inputs) inbox" using c by simp
  show "length inbox \<ge> unat num_inputs" using c by simp
  show "\<forall>m\<in>set (loaded_messages t). msg_method m = ''tx_input''" using c by simp
  show "\<forall>x\<in>set t. \<not> is_reject x" using c by simp
qed

lemma fst_then_step_prefix: "\<exists>u. fst (then_step s g) = fst s @ u"
  by (simp add: fst_then_step)

lemma process_prefix_stream:
  assumes "read_request e kc req = (t1, Continue (network, tx0, num_inputs, cs, oi0, ae))"
    and "populate_output_info e tx0 cs oi0 = (t2, Continue (tx, oi, fees))"
    and "confirm_outputs e network tx oi = (t3, Continue ())"
  shows "\<exists>u. fst (sign_liquid_tx_process e kc req inbox)
               = t1 @ t2 @ t3 @ fst (stream_inputs e tx ae num_inputs inbox) @ u"
  unfolding sign_liquid_tx_process_def
  by (simp only: assms then_step_Continue_pair prod.case fst_conv append_assoc append_same_eq
        same_append_eq fst_then_step_prefix)

lemma for_loop_Continue_nil:
  assumes "\<And>j s t s'. body j s = (t, Continue s') \<Longrightarrow> t = []"
    and "for_loop js body s = (t, Continue s')"
  shows "t = []"
  using assms(2)
proof (induction js arbitrary: s t)
  case Nil
  then show ?case by simp
next
  case (Cons j js)
  from Cons.prems obtain t1 a t2 where b: "body j s = (t1, Continue a)"
    and l: "for_loop js body a = (t2, Continue s')" and t: "t = t1 @ t2"
    by (auto simp: then_step_Continue)
  from assms(1) [OF b] Cons.IH [OF l] t show ?case by simp
qed

lemma verify_commitments_Continue:
  assumes "verify_commitments e hp tx cs = (t, Continue f)"
  shows "t = []"
proof (rule for_loop_Continue_nil [OF _ assms [unfolded verify_commitments_def]])
  fix j s t s'
  assume "verify_body e hp tx cs j s = (t, Continue s')"
  then show "t = []"
    by (auto simp: verify_body_def split: if_splits option.splits outcome.splits prod.splits)
qed

lemma finalize_prevouts_Continue:
  "finalize_prevouts e ctx = (t, Continue hp) \<Longrightarrow> t = []"
  by (auto simp: finalize_prevouts_def reject_def Let_def split: if_splits)

section \<open>Further sessions, phase by phase\<close>

lemma session_env_fields [simp]:
  "tags (session_env tx conv) = sample_tags"
  "wally_tx_from_bytes (session_env tx conv) b = Some tx"
  "wally_tx_confidential_value_to_satoshi (session_env tx conv) = conv"
  "sha256_starts_rc (session_env tx conv) = 0"
  "sha256_update_rc (session_env tx conv) c d = 0"
  "sha256_finish_rc (session_env tx conv) c = 0"
  "sha256 (session_env tx conv) bs = [of_nat (length bs)]"
  "get_script_flavour (session_env tx conv) scr = Script_flavour_other 1"
  "update_aggregate_scripts_flavour (session_env tx conv) nf agg = nf"
  "wallet_get_elements_tx_input_hash (session_env tx conv) tx' idx w scr vc vl = Some (replicate 32 0x11)"
  "wallet_get_signer_commitment (session_env tx conv) h pth hc = Some (replicate 33 0x22)"
  "await_outputs_event (session_env tx conv) = Some SIGN_TX_ACCEPT_OUTPUTS"
  "await_fee_event (session_env tx conv) = Some BTN_ACCEPT_SIGNATURE"
  by (simp_all add: session_env_def)

lemma replicate_2: "replicate 2 x = [x, x]"
  by (simp add: numeral_2_eq_2)

lemma session_read_request:
  assumes "length (inputs tx) = 1" and "length (outputs tx) = 2" and "length cs = 2"
  shows "read_request (session_env tx conv) sample_keychain
           (sample_request\<lparr>req_trusted_commitments := cs\<rparr>)
         = ([], Continue (''liquid'', tx, 1, cs, [zero_output_info, zero_output_info], False))"
proof -
  have "cs \<noteq> []" using assms(3) by auto
  then show ?thesis
    by (simp add: read_request_def CHECK_NETWORK_CONSISTENT_def sample_network_facts
          sample_request_def assms replicate_2)
qed

lemma session_confirm_outputs:
  "confirm_outputs (session_env tx conv) network tx' oi
   = ([Display_outputs network tx' oi, Display_message ''Processing...'', Reply_ok], Continue ())"
  by (simp add: confirm_outputs_def)

lemma session_stream_inputs:
  assumes "inputs tx' = [sample_input]"
  shows "stream_inputs (session_env tx conv) tx' False 1 (sample_message # rest)
   = ([Load_in_message sample_message],
      Continue (rest, [sample_signing_data], sample_prevouts, Script_flavour_other 1))"
  by (simp add: stream_inputs_def tx_input_body_def jade_process_load_in_message_def
        mbedtls_sha256_update_ret_def sample_message_def zero_signing_data_def
        sample_signing_data_def sample_prevouts_def sample_input_def value_to_le_def
        WALLY_TXHASH_LEN_def assms)

lemma session_finalize:
  "finalize_prevouts (session_env tx conv) sample_prevouts = ([], Continue [1])"
  by (simp add: finalize_prevouts_def sample_prevouts_def)


lemma masked_checks:
  "value_prefix masked_output = Some 0x01" "value_prefix masked_wrong_asset_output = Some 0x01"
  "value_prefix max_fee_output = Some 0x01" "value_prefix small_fee_output = Some 0x01"
  "\<not> is_blinded masked_output" "\<not> is_blinded masked_wrong_asset_output"
  by (simp_all add: is_blinded_def value_prefix_def masked_output_def masked_wrong_asset_output_def
        max_fee_output_def small_fee_output_def)

lemma two_odd_populate:
  "populate_output_info (session_env tx conv) two_blinded_tx
     [masked_commitment, masked_commitment] [zero_output_info, zero_output_info]
   = ([], Continue (\<lparr>inputs = [sample_input], outputs = [masked_output, masked_output]\<rparr>,
                    [blinded_info, blinded_info], 0))"
  by (simp add: populate_output_info_def upt_2 output_info_body_def sample_checks
        add_confidential_output_info_def blinded_info_def zero_output_info_def
        masked_commitment_def masked_output_def sample_commitment_def sample_blinded_output_def
        two_blinded_tx_def
        ASSET_GENERATOR_LEN_def ASSET_COMMITMENT_LEN_def ASSET_TAG_LEN_def EC_PUBLIC_KEY_LEN_def
        replicate_33 value_prefix_def)

lemma wrong_asset_populate:
  "populate_output_info (session_env tx conv) two_blinded_tx
     [sample_commitment, masked_wrong_asset_commitment] [zero_output_info, zero_output_info]
   = ([], Continue (\<lparr>inputs = [sample_input],
                      outputs = [sample_blinded_output, masked_wrong_asset_output]\<rparr>,
                    [blinded_info, blinded_info], 0))"
  by (simp add: populate_output_info_def upt_2 output_info_body_def sample_checks
        add_confidential_output_info_def blinded_info_def zero_output_info_def
        masked_wrong_asset_commitment_def masked_wrong_asset_output_def sample_commitment_def
        sample_blinded_output_def two_blinded_tx_def Let_def
        ASSET_GENERATOR_LEN_def ASSET_COMMITMENT_LEN_def ASSET_TAG_LEN_def EC_PUBLIC_KEY_LEN_def
        replicate_33 value_prefix_def)

lemma be64_values:
  "be64_satoshi [0x01, 0xFF, 0xFF, 0xFF, 0xFF, 0xFF, 0xFF, 0xFF, 0xFF] = Some 0xFFFFFFFFFFFFFFFF"
  "be64_satoshi [0x01, 0, 0, 0, 0, 0, 0, 0, 2] = Some 2"
  by (simp_all add: be64_satoshi_def)

lemma overflow_populate:
  "populate_output_info (session_env tx be64_satoshi) overflow_tx
     [no_commitment, no_commitment] [zero_output_info, zero_output_info]
   = ([], Continue (overflow_tx, overflow_info, 1))"
  by (simp add: populate_output_info_def upt_2 output_info_body_def overflow_tx_def Let_def
        max_fee_output_def small_fee_output_def be64_values overflow_info_def
        zero_output_info_def ASSET_TAG_LEN_def EC_PUBLIC_KEY_LEN_def replicate_33 value_prefix_def)

lemma two_odd_verify:
  "verify_commitments e hp \<lparr>inputs = [sample_input], outputs = [masked_output, masked_output]\<rparr>
     [masked_commitment, masked_commitment] = ([], Continue False)"
  by (simp add: verify_commitments_def upt_2 verify_body_def masked_checks)

lemma overflow_verify:
  "verify_commitments e hp overflow_tx [no_commitment, no_commitment] = ([], Continue False)"
  by (simp add: verify_commitments_def upt_2 verify_body_def masked_checks overflow_tx_def)

lemma wrong_asset_verify:
  "verify_commitments (session_env tx conv) [1]
     \<lparr>inputs = [sample_input], outputs = [sample_blinded_output, masked_wrong_asset_output]\<rparr>
     [sample_commitment, masked_wrong_asset_commitment] = ([], Continue False)"
proof -
  let ?tx = "\<lparr>inputs = [sample_input], outputs = [sample_blinded_output, masked_wrong_asset_output]\<rparr>"
  let ?cs = "[sample_commitment, masked_wrong_asset_commitment]"
  have r: "0 < length (outputs ?tx)" "0 < length ?cs" "value_prefix (outputs ?tx ! 0) \<noteq> None"
    by (simp_all add: sample_checks)
  have b: "verify_body (session_env tx conv) [1] ?tx ?cs 0 False = ([], Continue False)"
    unfolding verify_body_eq [OF r]
    by (simp add: sample_checks odd_at_def)
       (simp add: asset_generator_ok_def recomputed_generator_def recomputed_value_commitment_def
          odd_vbf_def hmac_ok_def session_env_def sample_env_def sample_commitment_def
          sample_blinded_output_def ASSET_TAG_LEN_def)
  have c: "verify_body (session_env tx conv) [1] ?tx ?cs (Suc 0) False = ([], Continue False)"
    by (simp add: verify_body_def masked_checks)
  show ?thesis
    by (simp add: verify_commitments_def upt_2 b c)
qed

lemma session_process:
  assumes "length (inputs tx) = 1" and "length (outputs tx) = 2" and "length cs = 2"
    and "populate_output_info (session_env tx conv) tx cs [zero_output_info, zero_output_info]
           = ([], Continue (tx', oi, fees))"
    and "inputs tx' = [sample_input]"
    and "verify_commitments (session_env tx conv) [1] tx' cs = ([], Continue f)"
  shows "sign_liquid_tx_process (session_env tx conv) sample_keychain
           (sample_request\<lparr>req_trusted_commitments := cs\<rparr>) (sample_message # rest)
         = ([Display_outputs ''liquid'' tx' oi, Display_message ''Processing...'', Reply_ok,
             Load_in_message sample_message, Display_final_confirmation fees None,
             Display_message ''Processing...'', Send_ec_signature_replies [sample_signing_data] 1],
            Cleanup)"
proof -
  have a: "await_fee_event (session_env tx conv) = Some BTN_ACCEPT_SIGNATURE" by simp
  show ?thesis
    unfolding process_at_fee [OF session_read_request [OF assms(1,2,3)] assms(4)
        session_confirm_outputs session_stream_inputs [OF assms(5)] session_finalize assms(6)]
      confirm_fee_accepted [OF a]
    by simp
qed

section \<open>Session-level claims\<close>

lemma signature_reply_loud: "is_signature_reply x \<Longrightarrow> loud x"
  by (cases x) simp_all

text \<open>
  C4: a signature reply occurs in the trace of a session only if the transaction was
  parsed, the declared \<open>num_inputs\<close> is nonzero and equals its number of inputs, there is
  one trusted commitment per output, the first await delivered the accept-outputs event
  and the second the accept-signature event. When one of the two count checks fails the
  whole session consists of one rejection with bad-parameters: no message is loaded.
\<close>

theorem signature_only_after_checks:
  "(x \<in> set (fst (sign_liquid_tx_process e kc req inbox)) \<and> is_signature_reply x \<longrightarrow>
      (\<exists>txbytes tx n. req_txn req = Some txbytes \<and> wally_tx_from_bytes e txbytes = Some tx
         \<and> req_num_inputs req = Some n \<and> n \<noteq> 0 \<and> unat n = length (inputs tx)
         \<and> length (req_trusted_commitments req) = length (outputs tx)
         \<and> await_outputs_event e = Some SIGN_TX_ACCEPT_OUTPUTS
         \<and> await_fee_event e = Some BTN_ACCEPT_SIGNATURE))
   \<and> (req_txn req = Some txbytes' \<and> wally_tx_from_bytes e txbytes' = Some tx'
        \<and> (req_num_inputs req = None \<or> req_num_inputs req = Some 0
            \<or> (\<exists>n. req_num_inputs req = Some n \<and> unat n \<noteq> length (inputs tx'))
            \<or> length (req_trusted_commitments req) \<noteq> length (outputs tx'))
       \<longrightarrow> (\<exists>m. sign_liquid_tx_process e kc req inbox
                  = ([Reject_message CBOR_RPC_BAD_PARAMETERS (Some m)], Cleanup)))"
proof (intro conjI impI)
  assume a: "x \<in> set (fst (sign_liquid_tx_process e kc req inbox)) \<and> is_signature_reply x"
  then have l: "loud x" by (simp add: signature_reply_loud)
  from a l obtain network tx num_inputs cs oi0 ae tx1 oi fees inbox1 sd ctx fl t1 t3 where
    r: "read_request e kc req = (t1, Continue (network, tx, num_inputs, cs, oi0, ae))"
    and c: "confirm_outputs e network tx1 oi = (t3, Continue ())"
    and x: "x \<in> set (fst (then_step (confirm_fee e ae fees fl inbox1)
                           (send_signature_replies ae sd num_inputs)))"
    by (elim conjE process_loud)
  from read_request_Continue [OF r] confirm_outputs_Continue [OF c] final_phase_events [OF x] a
  show "\<exists>txbytes tx n. req_txn req = Some txbytes \<and> wally_tx_from_bytes e txbytes = Some tx
         \<and> req_num_inputs req = Some n \<and> n \<noteq> 0 \<and> unat n = length (inputs tx)
         \<and> length (req_trusted_commitments req) = length (outputs tx)
         \<and> await_outputs_event e = Some SIGN_TX_ACCEPT_OUTPUTS
         \<and> await_fee_event e = Some BTN_ACCEPT_SIGNATURE"
    by auto
next
  assume "req_txn req = Some txbytes' \<and> wally_tx_from_bytes e txbytes' = Some tx'
        \<and> (req_num_inputs req = None \<or> req_num_inputs req = Some 0
            \<or> (\<exists>n. req_num_inputs req = Some n \<and> unat n \<noteq> length (inputs tx'))
            \<or> length (req_trusted_commitments req) \<noteq> length (outputs tx'))"
  then obtain m where
    "read_request e kc req = ([Reject_message CBOR_RPC_BAD_PARAMETERS (Some m)], Cleanup)"
    using read_request_counts [of req txbytes' e tx' kc] by blast
  then show "\<exists>m. sign_liquid_tx_process e kc req inbox
                  = ([Reject_message CBOR_RPC_BAD_PARAMETERS (Some m)], Cleanup)"
    by (simp add: sign_liquid_tx_process_def)
qed

theorem signature_only_after_checks_witness:
  "Send_ec_signature_replies [sample_signing_data] 1
     \<in> set (fst (sign_liquid_tx_process sample_env sample_keychain sample_request [sample_message]))
   \<and> req_num_inputs sample_request = Some 1 \<and> unat (1 :: 32 word) = length (inputs sample_tx)
   \<and> length (req_trusted_commitments sample_request) = length (outputs sample_tx)
   \<and> await_outputs_event sample_env = Some SIGN_TX_ACCEPT_OUTPUTS
   \<and> await_fee_event sample_env = Some BTN_ACCEPT_SIGNATURE
   \<and> req_txn (sample_request\<lparr>req_num_inputs := Some 2\<rparr>) = Some [0x02]
   \<and> wally_tx_from_bytes sample_env [0x02] = Some sample_tx
   \<and> unat (2 :: 32 word) \<noteq> length (inputs sample_tx)
   \<and> (\<exists>m. sign_liquid_tx_process sample_env sample_keychain
             (sample_request\<lparr>req_num_inputs := Some 2\<rparr>) [sample_message]
           = ([Reject_message CBOR_RPC_BAD_PARAMETERS (Some m)], Cleanup))"
proof -
  have s: "Send_ec_signature_replies [sample_signing_data] 1
     \<in> set (fst (sign_liquid_tx_process sample_env sample_keychain sample_request [sample_message]))
     \<and> is_signature_reply (Send_ec_signature_replies [sample_signing_data] 1)"
    by (simp add: sample_process_legacy)
  have v: "req_txn (sample_request\<lparr>req_num_inputs := Some 2\<rparr>) = Some [0x02]
      \<and> wally_tx_from_bytes sample_env [0x02] = Some sample_tx
      \<and> (req_num_inputs (sample_request\<lparr>req_num_inputs := Some 2\<rparr>) = None
          \<or> req_num_inputs (sample_request\<lparr>req_num_inputs := Some 2\<rparr>) = Some 0
          \<or> (\<exists>n. req_num_inputs (sample_request\<lparr>req_num_inputs := Some 2\<rparr>) = Some n
                  \<and> unat n \<noteq> length (inputs sample_tx))
          \<or> length (req_trusted_commitments (sample_request\<lparr>req_num_inputs := Some 2\<rparr>))
               \<noteq> length (outputs sample_tx))"
    by (simp add: sample_request_def)
  from signature_only_after_checks [of "Send_ec_signature_replies [sample_signing_data] 1"
         sample_env sample_keychain sample_request "[sample_message]" "[0x02]" sample_tx,
         THEN conjunct1, rule_format, OF s]
       signature_only_after_checks [of x sample_env sample_keychain
         "sample_request\<lparr>req_num_inputs := Some 2\<rparr>" "[sample_message]" "[0x02]" sample_tx,
         THEN conjunct2, rule_format, OF v]
       s v
  show ?thesis by (simp add: sample_request_def)
qed

lemma sample_scripts:
  "out_script sample_fee_output = None" "out_script sample_blinded_output = Some [0x51]"
  by (simp_all add: sample_fee_output_def sample_blinded_output_def)

text \<open>
  C6, amended: the fee shown at the final confirmation is the sum modulo \<open>2 ^ 64\<close> (the sum
  in \<^verbatim>\<open>uint64_t\<close>, a 64-bit word here) of the values the output-info array holds for
  exactly those outputs of the parsed transaction whose value starts with 0x01 and that
  have no script; for an output whose value starts with 0x01 this value is the satoshi
  amount the conversion yields. No other output contributes.
\<close>

theorem fee_total_shown:
  assumes "Display_final_confirmation fees warning_msg
             \<in> set (fst (sign_liquid_tx_process e kc req inbox))"
  shows "\<exists>txbytes tx network tx' output_info.
           req_txn req = Some txbytes \<and> wally_tx_from_bytes e txbytes = Some tx
           \<and> Display_outputs network tx' output_info
                \<in> set (fst (sign_liquid_tx_process e kc req inbox))
           \<and> fees = sum_list (map (\<lambda>i. if value_prefix (outputs tx ! i) = Some 0x01
                                            \<and> out_script (outputs tx ! i) = None
                                         then info_value (output_info ! i) else 0)
                                [0..<length (outputs tx)])
           \<and> (\<forall>i<length (outputs tx). value_prefix (outputs tx ! i) = Some 0x01 \<longrightarrow>
                (\<forall>v. wally_tx_confidential_value_to_satoshi e (out_value (outputs tx ! i)) = Some v
                     \<longrightarrow> info_value (output_info ! i) = v))"
proof -
  have l: "loud (Display_final_confirmation fees warning_msg)" by simp
  from assms l obtain network tx num_inputs cs oi0 ae tx1 oi fees1 inbox1 sd ctx fl hp f
    t1 t2 t3 t4 t5 t6 where
    r: "read_request e kc req = (t1, Continue (network, tx, num_inputs, cs, oi0, ae))"
    and p: "populate_output_info e tx cs oi0 = (t2, Continue (tx1, oi, fees1))"
    and c: "confirm_outputs e network tx1 oi = (t3, Continue ())"
    and x: "Display_final_confirmation fees warning_msg
              \<in> set (fst (then_step (confirm_fee e ae fees1 fl inbox1)
                           (send_signature_replies ae sd num_inputs)))"
    and tr: "fst (sign_liquid_tx_process e kc req inbox)
           = t1 @ t2 @ t3 @ t4 @ t5 @ t6
             @ fst (then_step (confirm_fee e ae fees1 fl inbox1)
                      (send_signature_replies ae sd num_inputs))"
    by (rule process_loud)
  have f: "fees = fees1" using final_phase_events [OF x] by simp
  have d: "Display_outputs network tx1 oi \<in> set (fst (sign_liquid_tx_process e kc req inbox))"
    using confirm_outputs_Continue [OF c] tr by simp
  from read_request_Continue [OF r] obtain txbytes where
    b: "req_txn req = Some txbytes" "wally_tx_from_bytes e txbytes = Some tx"
    by blast
  from populate_Continue [OF p] f d b
  show ?thesis
    by (intro exI [of _ txbytes] exI [of _ tx] exI [of _ network] exI [of _ tx1] exI [of _ oi])
       (simp add: fee_total_def is_fee_output_def)
qed

theorem fee_total_shown_witness:
  "Display_final_confirmation 100 None
     \<in> set (fst (sign_liquid_tx_process sample_env sample_keychain sample_request [sample_message]))
   \<and> (100 :: 64 word)
       = sum_list (map (\<lambda>i. if value_prefix (outputs sample_tx ! i) = Some 0x01
                                \<and> out_script (outputs sample_tx ! i) = None
                             then info_value (sample_output_info ! i) else 0)
                    [0..<length (outputs sample_tx)])"
proof -
  have s: "Display_final_confirmation 100 None
     \<in> set (fst (sign_liquid_tx_process sample_env sample_keychain sample_request [sample_message]))"
    by (simp add: sample_process_legacy)
  have v: "(100 :: 64 word)
       = sum_list (map (\<lambda>i. if value_prefix (outputs sample_tx ! i) = Some 0x01
                                \<and> out_script (outputs sample_tx ! i) = None
                             then info_value (sample_output_info ! i) else 0)
                    [0..<length (outputs sample_tx)])"
    by (simp add: upt_2 sample_checks sample_output_info_def sample_scripts)
  from fee_total_shown [OF s] s v show ?thesis by simp
qed

lemma two_blinded_facts:
  "length (inputs two_blinded_tx) = 1" "length (outputs two_blinded_tx) = 2"
  "outputs two_blinded_tx ! 0 = sample_blinded_output"
  "outputs two_blinded_tx ! 1 = sample_blinded_output"
  "length (inputs overflow_tx) = 1" "length (outputs overflow_tx) = 2"
  "outputs overflow_tx ! 0 = max_fee_output" "outputs overflow_tx ! 1 = small_fee_output"
  "inputs overflow_tx = [sample_input]"
  "outputs two_blinded_tx ! Suc 0 = sample_blinded_output"
  "outputs overflow_tx ! Suc 0 = small_fee_output"
  by (simp_all add: two_blinded_tx_def overflow_tx_def)

lemma two_odd_process:
  "sign_liquid_tx_process masking_env sample_keychain two_odd_request (sample_message # rest)
   = ([Display_outputs ''liquid'' \<lparr>inputs = [sample_input], outputs = [masked_output, masked_output]\<rparr>
         [blinded_info, blinded_info],
       Display_message ''Processing...'', Reply_ok, Load_in_message sample_message,
       Display_final_confirmation 0 None, Display_message ''Processing...'',
       Send_ec_signature_replies [sample_signing_data] 1],
      Cleanup)"
  unfolding masking_env_def two_odd_request_def
  by (rule session_process [OF two_blinded_facts(1,2) _ two_odd_populate _ two_odd_verify]) simp_all

lemma wrong_asset_process:
  "sign_liquid_tx_process masking_env sample_keychain wrong_asset_request (sample_message # rest)
   = ([Display_outputs ''liquid''
         \<lparr>inputs = [sample_input], outputs = [sample_blinded_output, masked_wrong_asset_output]\<rparr>
         [blinded_info, blinded_info],
       Display_message ''Processing...'', Reply_ok, Load_in_message sample_message,
       Display_final_confirmation 0 None, Display_message ''Processing...'',
       Send_ec_signature_replies [sample_signing_data] 1],
      Cleanup)"
  unfolding masking_env_def wrong_asset_request_def
  by (rule session_process [OF two_blinded_facts(1,2) _ wrong_asset_populate _ wrong_asset_verify])
     simp_all

lemma overflow_process:
  "sign_liquid_tx_process overflow_env sample_keychain overflow_request (sample_message # rest)
   = ([Display_outputs ''liquid'' overflow_tx overflow_info,
       Display_message ''Processing...'', Reply_ok, Load_in_message sample_message,
       Display_final_confirmation 1 None, Display_message ''Processing...'',
       Send_ec_signature_replies [sample_signing_data] 1],
      Cleanup)"
  unfolding overflow_env_def overflow_request_def
  by (rule session_process [OF two_blinded_facts(5,6) _ overflow_populate two_blinded_facts(9)
        overflow_verify]) simp_all

lemma masking_recomputed:
  "recomputed_generator masking_env hp idx masked_commitment = Some (0x0a # replicate 32 0x6f)"
  "recomputed_generator masking_env hp idx masked_wrong_asset_commitment
     = Some (0x0a # replicate 32 0x6f)"
  "recomputed_value_commitment masking_env hp idx masked_commitment = Some (0x08 # replicate 32 5)"
  by (simp_all add: recomputed_generator_def recomputed_value_commitment_def masking_env_def
        session_env_def sample_env_def sample_commitment_def masked_commitment_def
        masked_wrong_asset_commitment_def ASSET_TAG_LEN_def)

text \<open>
  C1 fails on the code. Both outputs of the transaction are blinded when it is parsed,
  and the value commitment of both trusted commitments differs, in its 33 bytes, from the
  one recomputed from the value and the blinding factors of the commitment.
  Each commitment starts with the byte 0x01; line 63 copies it over the value of the
  output, and the verification loop, which tests the first byte of that value at
  line 498, skips both outputs. The session passes the loop and sends the signature
  replies, where the claim and the comments at lines 115 and 491 to 494 allow one such
  output at most.
\<close>

theorem two_odd_value_commitments_signed:
  "wally_tx_from_bytes masking_env [0x02] = Some two_blinded_tx
   \<and> is_blinded (outputs two_blinded_tx ! 0) \<and> is_blinded (outputs two_blinded_tx ! 1)
   \<and> req_trusted_commitments two_odd_request = [masked_commitment, masked_commitment]
   \<and> recomputed_value_commitment masking_env [1] 0 masked_commitment
       = Some (0x08 # replicate 32 5)
   \<and> recomputed_value_commitment masking_env [1] 1 masked_commitment
       = Some (0x08 # replicate 32 5)
   \<and> take 33 (value_commitment masked_commitment) \<noteq> take 33 (0x08 # replicate 32 5)
   \<and> sign_liquid_tx_process masking_env sample_keychain two_odd_request [sample_message]
       = ([Display_outputs ''liquid''
             \<lparr>inputs = [sample_input], outputs = [masked_output, masked_output]\<rparr>
             [blinded_info, blinded_info],
           Display_message ''Processing...'', Reply_ok, Load_in_message sample_message,
           Display_final_confirmation 0 None, Display_message ''Processing...'',
           Send_ec_signature_replies [sample_signing_data] 1],
          Cleanup)"
proof -
  have p: "wally_tx_from_bytes masking_env [0x02] = Some two_blinded_tx"
    by (simp add: masking_env_def)
  have r: "req_trusted_commitments two_odd_request = [masked_commitment, masked_commitment]"
    by (simp add: two_odd_request_def sample_request_def)
  have d: "take 33 (value_commitment masked_commitment) \<noteq> take 33 (0x08 # replicate 32 5)"
    by (simp add: masked_commitment_def replicate_33)
  show ?thesis
    using p r d masking_recomputed(3) [of "[1]" 0] masking_recomputed(3) [of "[1]" 1]
      two_odd_process [of "[]"]
    by (simp add: two_blinded_facts sample_checks)
qed

text \<open>
  C2 fails on the code, by the defect shown for C1. The second output is blinded when
  the transaction is parsed, and the asset generator of its trusted commitment differs
  from the recomputed one. Its value commitment starts with the byte 0x01, so after
  line 63 the loop skips the output at line 498: \<^verbatim>\<open>check_trusted_commitment_valid\<close>
  is never called for it, and the session sends the signature replies.
\<close>

theorem wrong_asset_generator_signed:
  "wally_tx_from_bytes masking_env [0x02] = Some two_blinded_tx
   \<and> is_blinded (outputs two_blinded_tx ! 1)
   \<and> req_trusted_commitments wrong_asset_request
       = [sample_commitment, masked_wrong_asset_commitment]
   \<and> recomputed_generator masking_env [1] 1 masked_wrong_asset_commitment
       = Some (0x0a # replicate 32 0x6f)
   \<and> take 33 (asset_generator masked_wrong_asset_commitment) \<noteq> take 33 (0x0a # replicate 32 0x6f)
   \<and> sign_liquid_tx_process masking_env sample_keychain wrong_asset_request [sample_message]
       = ([Display_outputs ''liquid''
             \<lparr>inputs = [sample_input],
                outputs = [sample_blinded_output, masked_wrong_asset_output]\<rparr>
             [blinded_info, blinded_info],
           Display_message ''Processing...'', Reply_ok, Load_in_message sample_message,
           Display_final_confirmation 0 None, Display_message ''Processing...'',
           Send_ec_signature_replies [sample_signing_data] 1],
          Cleanup)"
proof -
  have p: "wally_tx_from_bytes masking_env [0x02] = Some two_blinded_tx"
    by (simp add: masking_env_def)
  have r: "req_trusted_commitments wrong_asset_request
       = [sample_commitment, masked_wrong_asset_commitment]"
    by (simp add: wrong_asset_request_def sample_request_def)
  have d: "take 33 (asset_generator masked_wrong_asset_commitment)
             \<noteq> take 33 (0x0a # replicate 32 0x6f)"
    by (simp add: masked_wrong_asset_commitment_def replicate_33)
  show ?thesis
    using p r d masking_recomputed(2) [of "[1]" 1] wrong_asset_process [of "[]"]
    by (simp add: two_blinded_facts sample_checks)
qed

text \<open>
  C6 as stated fails: with two fee outputs of 18446744073709551615 and 2 satoshi the
  final confirmation shows a fee of 1, not their sum.
\<close>

theorem fee_sum_overflow_counterexample:
  "is_fee_output (outputs overflow_tx ! 0) \<and> is_fee_output (outputs overflow_tx ! 1)
   \<and> wally_tx_confidential_value_to_satoshi overflow_env (out_value (outputs overflow_tx ! 0))
       = Some 0xFFFFFFFFFFFFFFFF
   \<and> wally_tx_confidential_value_to_satoshi overflow_env (out_value (outputs overflow_tx ! 1))
       = Some 2
   \<and> unat (0xFFFFFFFFFFFFFFFF :: 64 word) + unat (2 :: 64 word) = 18446744073709551617
   \<and> sign_liquid_tx_process overflow_env sample_keychain overflow_request [sample_message]
       = ([Display_outputs ''liquid'' overflow_tx overflow_info,
           Display_message ''Processing...'', Reply_ok, Load_in_message sample_message,
           Display_final_confirmation 1 None, Display_message ''Processing...'',
           Send_ec_signature_replies [sample_signing_data] 1],
          Cleanup)"
proof -
  have f: "is_fee_output max_fee_output" "is_fee_output small_fee_output"
    by (simp_all add: is_fee_output_def masked_checks)
       (simp_all add: max_fee_output_def small_fee_output_def)
  have v: "wally_tx_confidential_value_to_satoshi overflow_env (out_value max_fee_output)
             = Some 0xFFFFFFFFFFFFFFFF"
    "wally_tx_confidential_value_to_satoshi overflow_env (out_value small_fee_output) = Some 2"
    by (simp_all add: overflow_env_def max_fee_output_def small_fee_output_def be64_values)
  have u: "unat (0xFFFFFFFFFFFFFFFF :: 64 word) + unat (2 :: 64 word) = 18446744073709551617"
    by simp
  show ?thesis
    using f v u overflow_process [of "[]"] by (simp add: two_blinded_facts)
qed



text \<open>
  C7 as stated fails: the host sends two \<^verbatim>\<open>tx_input\<close> messages where the request
  announced one input. The loop loads the first; the second is never looked at, no
  protocol error is raised, and the session sends its signature replies.
\<close>

theorem longer_stream_counterexample:
  "req_num_inputs sample_request = Some 1
   \<and> length [sample_message, sample_message] = 2
   \<and> msg_method sample_message = ''tx_input''
   \<and> sign_liquid_tx_process sample_env sample_keychain sample_request
        [sample_message, sample_message]
       = ([Display_outputs ''liquid'' sample_tx sample_output_info,
           Display_message ''Processing...'', Reply_ok, Load_in_message sample_message,
           Display_final_confirmation 100 None, Display_message ''Processing...'',
           Send_ec_signature_replies [sample_signing_data] 1],
          Cleanup)"
proof -
  have a: "req_num_inputs sample_request = Some 1" by (simp add: sample_request_def)
  have b: "msg_method sample_message = ''tx_input''" by (simp add: sample_message_def)
  have c: "length [sample_message, sample_message] = 2" by simp
  show ?thesis
    by (intro conjI a c b sample_process_legacy [of "[sample_message]"])
qed

text \<open>
  C7, amended. In a session that reaches the input loop: when the loop completes it has
  loaded exactly \<open>num_inputs\<close> messages, the first \<open>num_inputs\<close> messages of the host, each
  a \<^verbatim>\<open>tx_input\<close>, and has rejected nothing. A loaded message that is not a
  \<^verbatim>\<open>tx_input\<close> ends the session at once, with a protocol-error rejection as its last
  event. The loop never loads more than \<open>num_inputs\<close> messages, so what the host sends
  beyond them is not looked at by the loop. When the loop waits for a message, the host
  has sent fewer than \<open>num_inputs\<close> messages, all of them have been loaded, and the
  session has rejected nothing and waits.
\<close>

theorem input_stream_consumption:
  assumes "read_request e kc req = (t1, Continue (network, tx0, num_inputs, cs, oi0, ae))"
    and "populate_output_info e tx0 cs oi0 = (t2, Continue (tx, oi, fees))"
    and "confirm_outputs e network tx oi = (t3, Continue ())"
  shows "(stream_inputs e tx ae num_inputs inbox = (t4, Continue (inbox', sd, ctx, fl)) \<longrightarrow>
            loaded_messages t4 = take (unat num_inputs) inbox
            \<and> length (loaded_messages t4) = unat num_inputs
            \<and> inbox' = drop (unat num_inputs) inbox
            \<and> (\<forall>m\<in>set (loaded_messages t4). msg_method m = ''tx_input'')
            \<and> (\<forall>x\<in>set t4. \<not> is_reject x))
     \<and> (Load_in_message m \<in> set (fst (stream_inputs e tx ae num_inputs inbox))
          \<and> msg_method m \<noteq> ''tx_input'' \<longrightarrow>
            (\<exists>t'. sign_liquid_tx_process e kc req inbox
                    = (t1 @ t2 @ t3 @ t'
                         @ [Load_in_message m,
                            Reject_message CBOR_RPC_PROTOCOL_ERROR (Some unexpected_message_text)],
                       Cleanup)))
     \<and> (\<exists>k\<le>unat num_inputs.
            loaded_messages (fst (stream_inputs e tx ae num_inputs inbox)) = take k inbox)
     \<and> (snd (stream_inputs e tx ae num_inputs inbox) = Awaiting_message \<longrightarrow>
            loaded_messages (fst (stream_inputs e tx ae num_inputs inbox)) = inbox
            \<and> length inbox < unat num_inputs
            \<and> (\<forall>x\<in>set (fst (sign_liquid_tx_process e kc req inbox)). \<not> is_reject x)
            \<and> snd (sign_liquid_tx_process e kc req inbox) = Awaiting_message)
     \<and> (\<exists>u. fst (sign_liquid_tx_process e kc req inbox)
               = t1 @ t2 @ t3 @ fst (stream_inputs e tx ae num_inputs inbox) @ u)"
proof -
  let ?S = "stream_inputs e tx ae num_inputs inbox"
  from read_request_Continue [OF assms(1)] have n: "unat num_inputs = length (inputs tx0)"
    and t1: "t1 = []" by simp_all
  from populate_Continue [OF assms(2)] have i: "inputs tx = inputs tx0" and t2: "t2 = []"
    by simp_all
  from confirm_outputs_Continue [OF assms(3)]
  have t3: "t3 = [Display_outputs network tx oi, Display_message ''Processing...'', Reply_ok]"
    by simp
  have 1: "?S = (t4, Continue (inbox', sd, ctx, fl)) \<longrightarrow>
            loaded_messages t4 = take (unat num_inputs) inbox
            \<and> length (loaded_messages t4) = unat num_inputs
            \<and> inbox' = drop (unat num_inputs) inbox
            \<and> (\<forall>m\<in>set (loaded_messages t4). msg_method m = ''tx_input'')
            \<and> (\<forall>x\<in>set t4. \<not> is_reject x)"
  proof
    assume s: "?S = (t4, Continue (inbox', sd, ctx, fl))"
    note F = stream_inputs_Continue [OF s n [folded i]]
    from F(2,4) have "length (loaded_messages t4) = unat num_inputs" by simp
    with F show "loaded_messages t4 = take (unat num_inputs) inbox
            \<and> length (loaded_messages t4) = unat num_inputs
            \<and> inbox' = drop (unat num_inputs) inbox
            \<and> (\<forall>m\<in>set (loaded_messages t4). msg_method m = ''tx_input'')
            \<and> (\<forall>x\<in>set t4. \<not> is_reject x)"
      by blast
  qed
  have 2: "Load_in_message m \<in> set (fst ?S) \<and> msg_method m \<noteq> ''tx_input'' \<longrightarrow>
            (\<exists>t'. sign_liquid_tx_process e kc req inbox
                    = (t1 @ t2 @ t3 @ t'
                         @ [Load_in_message m,
                            Reject_message CBOR_RPC_PROTOCOL_ERROR (Some unexpected_message_text)],
                       Cleanup))"
  proof
    assume a: "Load_in_message m \<in> set (fst ?S) \<and> msg_method m \<noteq> ''tx_input''"
    from input_loop_protocol_error [OF a [THEN conjunct1, unfolded stream_inputs_def]
        a [THEN conjunct2]]
    obtain t' where c: "snd ?S = Cleanup"
      and f: "fst ?S = t' @ [Load_in_message m,
                 Reject_message CBOR_RPC_PROTOCOL_ERROR (Some unexpected_message_text)]"
      unfolding stream_inputs_def by blast
    from process_at_stream(1) [OF assms c]
    have "sign_liquid_tx_process e kc req inbox
            = (t1 @ t2 @ t3 @ t' @ [Load_in_message m,
                 Reject_message CBOR_RPC_PROTOCOL_ERROR (Some unexpected_message_text)], Cleanup)"
      unfolding f .
    then show "\<exists>t'. sign_liquid_tx_process e kc req inbox
                    = (t1 @ t2 @ t3 @ t'
                         @ [Load_in_message m,
                            Reject_message CBOR_RPC_PROTOCOL_ERROR (Some unexpected_message_text)],
                       Cleanup)"
      by blast
  qed
  have 3: "\<exists>k\<le>unat num_inputs. loaded_messages (fst ?S) = take k inbox"
    using input_loop_loaded [of "[0..<unat num_inputs]" e tx ae inbox
        "replicate (unat num_inputs) zero_signing_data" "[]" SCRIPT_FLAVOUR_NONE]
    unfolding stream_inputs_def by simp
  have 4: "snd ?S = Awaiting_message \<longrightarrow>
            loaded_messages (fst ?S) = inbox
            \<and> length inbox < unat num_inputs
            \<and> (\<forall>x\<in>set (fst (sign_liquid_tx_process e kc req inbox)). \<not> is_reject x)
            \<and> snd (sign_liquid_tx_process e kc req inbox) = Awaiting_message"
  proof
    assume a: "snd ?S = Awaiting_message"
    from input_loop_awaiting [OF a [unfolded stream_inputs_def]]
    have w: "loaded_messages (fst ?S) = inbox" "length inbox < unat num_inputs"
      "\<forall>x\<in>set (fst ?S). \<not> is_reject x"
      unfolding stream_inputs_def by simp_all
    note P = process_at_stream(2) [OF assms a]
    have "\<forall>x\<in>set (fst (sign_liquid_tx_process e kc req inbox)). \<not> is_reject x"
      unfolding P using w(3) by (auto simp: t1 t2 t3)
    moreover have "snd (sign_liquid_tx_process e kc req inbox) = Awaiting_message"
      unfolding P by simp
    ultimately show "loaded_messages (fst ?S) = inbox
            \<and> length inbox < unat num_inputs
            \<and> (\<forall>x\<in>set (fst (sign_liquid_tx_process e kc req inbox)). \<not> is_reject x)
            \<and> snd (sign_liquid_tx_process e kc req inbox) = Awaiting_message"
      using w by blast
  qed
  show ?thesis
    by (intro conjI 1 2 3 4 process_prefix_stream [OF assms])
qed

theorem input_stream_consumption_witness:
  "loaded_messages [Load_in_message sample_message] = take (unat (1 :: 32 word)) [sample_message, sample_message]
   \<and> [sample_message] = drop (unat (1 :: 32 word)) [sample_message, sample_message]
   \<and> msg_method other_message \<noteq> ''tx_input''
   \<and> (\<exists>t'. sign_liquid_tx_process sample_env sample_keychain sample_request [other_message, sample_message]
        = ([] @ [] @ [Display_outputs ''liquid'' sample_tx sample_output_info,
              Display_message ''Processing...'', Reply_ok] @ t'
            @ [Load_in_message other_message,
               Reject_message CBOR_RPC_PROTOCOL_ERROR (Some unexpected_message_text)],
           Cleanup))
   \<and> snd (stream_inputs sample_env sample_tx False 1 []) = Awaiting_message
   \<and> length ([] :: message list) < unat (1 :: 32 word)
   \<and> snd (sign_liquid_tx_process sample_env sample_keychain sample_request [])
       = Awaiting_message"
proof -
  note H = sample_read_request [of "Some BTN_ACCEPT_SIGNATURE" None,
        unfolded accept_env_eq legacy_request_eq option.case]
      sample_populate [of "Some BTN_ACCEPT_SIGNATURE", unfolded accept_env_eq]
      sample_confirm_outputs [of "Some BTN_ACCEPT_SIGNATURE", unfolded accept_env_eq]
  have s: "stream_inputs sample_env sample_tx False 1 [sample_message, sample_message]
     = ([Load_in_message sample_message],
        Continue ([sample_message], [sample_signing_data], sample_prevouts, Script_flavour_other 1))"
    using sample_stream_inputs [of "Some BTN_ACCEPT_SIGNATURE" False "[sample_message]",
        unfolded accept_env_eq]
    by simp
  note A = input_stream_consumption [OF H, THEN conjunct1, THEN mp, OF s]
  have o: "msg_method other_message \<noteq> ''tx_input''"
    by (simp add: other_message_def sample_message_def)
  have l: "Load_in_message other_message
             \<in> set (fst (stream_inputs sample_env sample_tx False 1 [other_message, sample_message]))"
    by (simp add: stream_inputs_def tx_input_body_unexpected [OF o])
  note B = input_stream_consumption [OF H, THEN conjunct2, THEN conjunct1, THEN mp,
      OF conjI [OF l o]]
  have w: "snd (stream_inputs sample_env sample_tx False 1 []) = Awaiting_message"
    by (simp add: sample_stream_empty)
  note C = input_stream_consumption [OF H, THEN conjunct2, THEN conjunct2, THEN conjunct2,
      THEN conjunct1, THEN mp, OF w]
  show ?thesis
    by (intro conjI A [THEN conjunct1] A [THEN conjunct2, THEN conjunct2, THEN conjunct1] o B w
          C [THEN conjunct2, THEN conjunct1] C [THEN conjunct2, THEN conjunct2, THEN conjunct2])
qed

text \<open>
  C9 as stated fails. In a session with anti-exfiltration signatures the reply to the
  one input is sent in the input loop, before the fee is shown. When the user then
  declines, the process loads the next message of the host and rejects it: between the
  final confirmation and the rejection no reply is sent.
\<close>

theorem fee_decline_ae_counterexample:
  "req_use_ae_signatures (sample_request\<lparr>req_use_ae_signatures := Some True\<rparr>) = Some True
   \<and> await_fee_event declining_env = Some (Other_event_id 0)
   \<and> sign_liquid_tx_process declining_env sample_keychain
        (sample_request\<lparr>req_use_ae_signatures := Some True\<rparr>) [sample_message, other_message]
       = ([Display_outputs ''liquid'' sample_tx sample_output_info,
           Display_message ''Processing...'', Reply_ok,
           Load_in_message sample_message, Reply_bytes (replicate 33 0x22),
           Display_final_confirmation 100 None,
           Load_in_message other_message,
           Reject_message CBOR_RPC_USER_CANCELLED (Some ''User declined to sign transaction'')],
          Cleanup)"
proof -
  have a: "req_use_ae_signatures (sample_request\<lparr>req_use_ae_signatures := Some True\<rparr>) = Some True"
    by simp
  have b: "await_fee_event declining_env = Some (Other_event_id 0)"
    by (simp add: declining_env_def)
  show ?thesis
    by (intro conjI a b sample_process_ae_declined [of "[]"])
qed

text \<open>
  C9, amended. When the session reaches the final confirmation and the user does not
  accept: with anti-exfiltration signatures the process loads the next message of the
  host, which is the message after the \<open>num_inputs\<close> messages of the input loop, sends no
  reply, and then sends the user-cancelled rejection; when the host has sent no such
  message the process waits for it and sends nothing. Without anti-exfiltration
  signatures the rejection is sent without loading a message. In both cases the
  rejection is the only rejection of the session.
\<close>

theorem fee_decline_rejection:
  assumes "read_request e kc req = (t1, Continue (network, tx0, num_inputs, cs, oi0, ae))"
    and "populate_output_info e tx0 cs oi0 = (t2, Continue (tx, oi, fees))"
    and "confirm_outputs e network tx oi = (t3, Continue ())"
    and "stream_inputs e tx ae num_inputs inbox = (t4, Continue (inbox', sd, ctx, fl))"
    and "finalize_prevouts e ctx = (t5, Continue hp)"
    and "verify_commitments e hp tx cs = (t6, Continue f)"
    and "await_fee_event e \<noteq> Some BTN_ACCEPT_SIGNATURE"
  shows "sign_liquid_tx_process e kc req inbox
           = (t1 @ t2 @ t3 @ t4 @ t5 @ t6
                @ Display_final_confirmation fees
                    (if fl = SCRIPT_FLAVOUR_MIXED then Some (WARN_MSG_MIXED_INPUTS e) else None)
                # (if ae then
                     (case inbox' of
                        [] \<Rightarrow> []
                      | msg # rest \<Rightarrow>
                          [Load_in_message msg,
                           Reject_message CBOR_RPC_USER_CANCELLED
                             (Some ''User declined to sign transaction'')])
                   else [Reject_message CBOR_RPC_USER_CANCELLED
                           (Some ''User declined to sign transaction'')]),
              if ae \<and> inbox' = [] then Awaiting_message else Cleanup)
     \<and> inbox' = drop (unat num_inputs) inbox
     \<and> list_all (\<lambda>x. \<not> is_reject x) (t1 @ t2 @ t3 @ t4 @ t5 @ t6)"
proof -
  from read_request_Continue [OF assms(1)] have n: "unat num_inputs = length (inputs tx0)"
    and t1: "t1 = []" by simp_all
  from populate_Continue [OF assms(2)] have i: "inputs tx = inputs tx0" and t2: "t2 = []"
    by simp_all
  from confirm_outputs_Continue [OF assms(3)]
  have t3: "t3 = [Display_outputs network tx oi, Display_message ''Processing...'', Reply_ok]"
    by simp
  note F = stream_inputs_Continue [OF assms(4) n [folded i]]
  note t5 = finalize_prevouts_Continue [OF assms(5)]
  note t6 = verify_commitments_Continue [OF assms(6)]
  have r: "list_all (\<lambda>x. \<not> is_reject x) (t1 @ t2 @ t3 @ t4 @ t5 @ t6)"
    using F(6) by (simp add: t1 t2 t3 t5 t6 list_all_iff)
  note P = process_at_fee [OF assms(1-6)]
  note D = confirm_fee_declined [OF assms(7)]
  have p: "sign_liquid_tx_process e kc req inbox
           = (t1 @ t2 @ t3 @ t4 @ t5 @ t6
                @ Display_final_confirmation fees
                    (if fl = SCRIPT_FLAVOUR_MIXED then Some (WARN_MSG_MIXED_INPUTS e) else None)
                # (if ae then
                     (case inbox' of
                        [] \<Rightarrow> []
                      | msg # rest \<Rightarrow>
                          [Load_in_message msg,
                           Reject_message CBOR_RPC_USER_CANCELLED
                             (Some ''User declined to sign transaction'')])
                   else [Reject_message CBOR_RPC_USER_CANCELLED
                           (Some ''User declined to sign transaction'')]),
              if ae \<and> inbox' = [] then Awaiting_message else Cleanup)"
  proof (cases ae)
    case False
    show ?thesis unfolding P using False by (simp add: D(3))
  next
    case True
    show ?thesis
    proof (cases inbox')
      case Nil
      show ?thesis unfolding P using True Nil by (simp add: D(2))
    next
      case (Cons msg rest)
      show ?thesis unfolding P using True Cons by (simp add: D(1))
    qed
  qed
  show ?thesis
    by (intro conjI p F(3) r)
qed

theorem fee_decline_rejection_witness:
  "await_fee_event declining_env \<noteq> Some BTN_ACCEPT_SIGNATURE
   \<and> sign_liquid_tx_process declining_env sample_keychain
        (sample_request\<lparr>req_use_ae_signatures := Some True\<rparr>) [sample_message, other_message]
       = ([Display_outputs ''liquid'' sample_tx sample_output_info,
           Display_message ''Processing...'', Reply_ok,
           Load_in_message sample_message, Reply_bytes (replicate 33 0x22),
           Display_final_confirmation 100 None,
           Load_in_message other_message,
           Reject_message CBOR_RPC_USER_CANCELLED (Some ''User declined to sign transaction'')],
          Cleanup)
   \<and> sign_liquid_tx_process declining_env sample_keychain
        (sample_request\<lparr>req_use_ae_signatures := Some True\<rparr>) [sample_message]
       = ([Display_outputs ''liquid'' sample_tx sample_output_info,
           Display_message ''Processing...'', Reply_ok,
           Load_in_message sample_message, Reply_bytes (replicate 33 0x22),
           Display_final_confirmation 100 None],
          Awaiting_message)
   \<and> sign_liquid_tx_process declining_env sample_keychain sample_request
        [sample_message, other_message]
       = ([Display_outputs ''liquid'' sample_tx sample_output_info,
           Display_message ''Processing...'', Reply_ok,
           Load_in_message sample_message,
           Display_final_confirmation 100 None,
           Reject_message CBOR_RPC_USER_CANCELLED (Some ''User declined to sign transaction'')],
          Cleanup)"
proof -
  have d: "await_fee_event declining_env \<noteq> Some BTN_ACCEPT_SIGNATURE"
    by (simp add: declining_env_def)
  note H = sample_populate [of "Some (Other_event_id 0)", folded declining_env_def]
      sample_confirm_outputs [of "Some (Other_event_id 0)", folded declining_env_def]
  note R = sample_read_request [of "Some (Other_event_id 0)", folded declining_env_def]
  note S = sample_stream_inputs [of "Some (Other_event_id 0)", folded declining_env_def]
  note V = sample_finalize [of "Some (Other_event_id 0)", folded declining_env_def]
      sample_verify [of "Some (Other_event_id 0)", folded declining_env_def]
  have s1: "stream_inputs declining_env sample_tx True 1 [sample_message, other_message]
     = ([Load_in_message sample_message, Reply_bytes (replicate 33 0x22)],
        Continue ([other_message], [sample_signing_data], sample_prevouts, Script_flavour_other 1))"
    using S [of True "[other_message]"] by simp
  have s2: "stream_inputs declining_env sample_tx True 1 [sample_message]
     = ([Load_in_message sample_message, Reply_bytes (replicate 33 0x22)],
        Continue ([], [sample_signing_data], sample_prevouts, Script_flavour_other 1))"
    using S [of True "[]"] by simp
  have s3: "stream_inputs declining_env sample_tx False 1 [sample_message, other_message]
     = ([Load_in_message sample_message],
        Continue ([other_message], [sample_signing_data], sample_prevouts, Script_flavour_other 1))"
    using S [of False "[other_message]"] by simp
  note A = fee_decline_rejection [OF R [of "Some True", unfolded option.case] H s1 V d,
      THEN conjunct1]
  note B = fee_decline_rejection [OF R [of "Some True", unfolded option.case] H s2 V d,
      THEN conjunct1]
  note C = fee_decline_rejection [OF R [of None, unfolded option.case legacy_request_eq] H s3 V d,
      THEN conjunct1]
  have a: "sign_liquid_tx_process declining_env sample_keychain
        (sample_request\<lparr>req_use_ae_signatures := Some True\<rparr>) [sample_message, other_message]
       = ([Display_outputs ''liquid'' sample_tx sample_output_info,
           Display_message ''Processing...'', Reply_ok,
           Load_in_message sample_message, Reply_bytes (replicate 33 0x22),
           Display_final_confirmation 100 None,
           Load_in_message other_message,
           Reject_message CBOR_RPC_USER_CANCELLED (Some ''User declined to sign transaction'')],
          Cleanup)"
    using A by simp
  have b: "sign_liquid_tx_process declining_env sample_keychain
        (sample_request\<lparr>req_use_ae_signatures := Some True\<rparr>) [sample_message]
       = ([Display_outputs ''liquid'' sample_tx sample_output_info,
           Display_message ''Processing...'', Reply_ok,
           Load_in_message sample_message, Reply_bytes (replicate 33 0x22),
           Display_final_confirmation 100 None],
          Awaiting_message)"
    using B by simp
  have c: "sign_liquid_tx_process declining_env sample_keychain sample_request
        [sample_message, other_message]
       = ([Display_outputs ''liquid'' sample_tx sample_output_info,
           Display_message ''Processing...'', Reply_ok,
           Load_in_message sample_message,
           Display_final_confirmation 100 None,
           Reject_message CBOR_RPC_USER_CANCELLED (Some ''User declined to sign transaction'')],
          Cleanup)"
    using C by simp
  show ?thesis
    by (intro conjI d a b c)
qed

end
